theory Spec2Isabelle
  imports Main "HOL-Library.Multiset" "HOL-Library.Char_ord" "HOL-Library.List_Lexorder"
begin

section \<open>Errors, results and the outside world\<close>

text \<open>
  The upgrade tool drives external collaborators: the file system, subprocesses, a TLS
  listener, the CRI-O configuration tool and the Kubernetes API. Each Go function that
  returns an \<open>error\<close> is a function from the world to a result and the new world. A Go
  panic (a nil pointer dereference) is a result of its own, \<open>Panic\<close>.
\<close>

datatype error =
    ErrNotExist
  | ErrExist
  | ErrNotFound
  | ErrFailed string
  | ErrMandatory string
  | ErrBundleDirMissing string
  | ExitError nat

datatype 'a res = Ok 'a | Err error | Panic

text \<open>
  Every call that leaves the process is recorded, with its outcome, in the order in which
  it is made. Library functions that compute on their arguments alone (JSON, reference
  parsing, hashing, path cleaning) are not calls.
\<close>

datatype call =
    Os_Stat string
  | Os_ReadFile string
  | Os_WriteFile string string
  | Os_MkdirTemp string string
  | Os_MkdirAll string
  | Os_RemoveAll string
  | Os_Open string
  | Io_Copy string
  | Os_OpenFile string
  | Fprintf string string
  | File_Close string
  | Os_UserCacheDir
  | Exec_LookPath string
  | Cmd_Run "string list"
  | Jq_Query string
  | TemplatesFS_ReadFile string
  | Net_SplitHostPort string
  | Net_LookupHost string
  | Rsa_GenerateKey
  | X509_CreateCertificate
  | Net_Listen string
  | Server_Shutdown
  | CRIO_CreatePinConf "string list"
  | CRIO_CreateMirrorConf string "string list"
  | CRIO_RemoveMirrorConf
  | CRIO_RemovePinConf
  | CRIO_ReloadService
  | CRIO_PullImage string
  | Client_Get string
  | Client_PatchLabel string string string
  | Client_PatchAnnotation string string string

datatype fnode = Dir | File string

record node_obj =
  labels :: "string \<rightharpoonup> string"
  annotations :: "string \<rightharpoonup> string"

text \<open>Metadata, as declared in the \<open>internal\<close> package.\<close>

record Metadata =
  Version :: string
  Arch :: string
  Release :: string
  Images :: "string list"

text \<open>
  What \<open>reference.ParseNamed\<close> of the distribution library extracts from a reference:
  its path, its tag when it is tagged, and the hexadecimal part of its digest when it is
  digested.
\<close>

record named_ref =
  refPath :: string
  refTag :: "string option"
  refDigestHex :: "string option"

text \<open>
  The world. The file system is a flat map from paths to nodes, compared as strings; the
  runtime configuration holds the pin entry and the mirror entry; \<open>storage\<close> is the
  list of images pulled into the runtime's storage; \<open>nodes\<close> is the cluster store;
  \<open>errlog\<close> holds the lines written with \<open>logger.Error\<close> (message and subject)
  by the steps of the program, in their order, the only record of a failure that is
  logged instead of returned; \<open>bglog\<close> holds the lines written with \<open>logger.Error\<close>
  by the goroutine that \<open>Registry.Start\<close> leaves serving in the background. The
  scheduler decides where the lines of the goroutine fall among those of the program:
  the log of the process is some interleaving of \<open>errlog\<close> and \<open>bglog\<close>. Informational
  log and console lines are not part of the state.
\<close>

record world =
  fs :: "string \<Rightarrow> fnode option"
  pinConf :: "string list option"
  mirrorConf :: "(string \<times> string list) option"
  storage :: "string list"
  nodes :: "string \<Rightarrow> node_obj option"
  trace :: "(call \<times> error option) list"
  errlog :: "(string \<times> string) list"
  bglog :: "(string \<times> string) list"

text \<open>
  The environment decides what the program does not: \<open>fault\<close> is the error, if any,
  of the n-th call; \<open>strOut\<close> is the string the n-th call returns (the name
  of a fresh temporary directory, a bound address, the bytes of a subprocess);
  \<open>tagsOut\<close> is the tag list a jq query returns. The library functions are parameters:
  \<open>jsonUnmarshal\<close> (which may leave the result nil, for the JSON text null),
  \<open>jsonMarshal\<close>, \<open>parseNamed\<close>, \<open>sha256sum\<close>, and \<open>mapOrder\<close>, the order in
  which Go iterates over a map with the given entries. \<open>serveOut\<close> is the error, if
  any, other than \<open>http.ErrServerClosed\<close>, with which \<open>ServeTLS\<close> ends in the goroutine
  of a registry started after n calls.
\<close>

record env =
  fault :: "nat \<Rightarrow> error option"
  strOut :: "nat \<Rightarrow> string"
  tagsOut :: "nat \<Rightarrow> (string \<times> string) list"
  jsonUnmarshal :: "string \<Rightarrow> error + Metadata option"
  jsonMarshal :: "Metadata \<Rightarrow> string"
  parseNamed :: "string \<Rightarrow> error + named_ref"
  sha256sum :: "string \<Rightarrow> string"
  mapOrder :: "(string \<times> string) list \<Rightarrow> (string \<times> string) list"
  serveOut :: "nat \<Rightarrow> error option"

definition outcome :: "env \<Rightarrow> world \<Rightarrow> error option" where
  "outcome env w = fault env (length (trace w))"

definition returned :: "env \<Rightarrow> world \<Rightarrow> string" where
  "returned env w = strOut env (length (trace w))"

definition record_call :: "call \<Rightarrow> error option \<Rightarrow> world \<Rightarrow> world" where
  "record_call c r w = w\<lparr>trace := trace w @ [(c, r)]\<rparr>"

definition extern :: "env \<Rightarrow> call \<Rightarrow> world \<Rightarrow> error option \<times> world" where
  "extern env c w = (outcome env w, record_call c (outcome env w) w)"

definition externStr :: "env \<Rightarrow> call \<Rightarrow> world \<Rightarrow> (error + string) \<times> world" where
  "externStr env c w =
     (case outcome env w of
        Some e \<Rightarrow> (Inl e, record_call c (Some e) w)
      | None \<Rightarrow> (Inr (returned env w), record_call c None w))"

text \<open>Sequencing with Go's \<open>if err != nil { return err }\<close>.\<close>

definition andThen ::
  "(world \<Rightarrow> 'a res \<times> world) \<Rightarrow> ('a \<Rightarrow> world \<Rightarrow> 'b res \<times> world) \<Rightarrow> world \<Rightarrow> 'b res \<times> world" where
  "andThen m f w =
     (case m w of
        (Ok x, w1) \<Rightarrow> f x w1
      | (Err e, w1) \<Rightarrow> (Err e, w1)
      | (Panic, w1) \<Rightarrow> (Panic, w1))"

definition lift :: "(world \<Rightarrow> error option \<times> world) \<Rightarrow> world \<Rightarrow> unit res \<times> world" where
  "lift m w = (case m w of (Some e, w1) \<Rightarrow> (Err e, w1) | (None, w1) \<Rightarrow> (Ok (), w1))"

definition liftV :: "(world \<Rightarrow> (error + 'a) \<times> world) \<Rightarrow> world \<Rightarrow> 'a res \<times> world" where
  "liftV m w = (case m w of (Inl e, w1) \<Rightarrow> (Err e, w1) | (Inr x, w1) \<Rightarrow> (Ok x, w1))"

section \<open>Go's standard library\<close>

subsection \<open>Formatting\<close>

definition digitChar :: "nat \<Rightarrow> char" where
  "digitChar d = ''0123456789'' ! d"

fun showNat :: "nat \<Rightarrow> string" where
  "showNat n = (if n < 10 then [digitChar n] else showNat (n div 10) @ [digitChar (n mod 10)])"

declare showNat.simps [simp del]

text \<open>\<open>hex.EncodeToString\<close>: two lowercase hexadecimal digits for each byte.\<close>

definition hexDigits :: string where
  "hexDigits = ''0123456789abcdef''"

definition hexDigit :: "nat \<Rightarrow> char" where
  "hexDigit d = hexDigits ! d"

definition hexByte :: "char \<Rightarrow> string" where
  "hexByte c = [hexDigit (of_char c div 16), hexDigit (of_char c mod 16)]"

definition hex_EncodeToString :: "string \<Rightarrow> string" where
  "hex_EncodeToString bs = concat (map hexByte bs)"

subsection \<open>Paths (\<open>path/filepath\<close> on Unix)\<close>

fun strings_Join :: "string list \<Rightarrow> string \<Rightarrow> string" where
  "strings_Join [] sep = []"
| "strings_Join [e] sep = e"
| "strings_Join (e # es) sep = e @ sep @ strings_Join es sep"

fun splitPath :: "string \<Rightarrow> string list" where
  "splitPath [] = [[]]"
| "splitPath (c # cs) =
     (if c = CHR ''/'' then [] # splitPath cs
      else (case splitPath cs of [] \<Rightarrow> [[c]] | e # es \<Rightarrow> (c # e) # es))"

text \<open>
  \<open>filepath.Clean\<close> works on the elements between separators, with the elements kept so
  far on a stack (the last one first): empty and \<open>.\<close> elements are dropped, \<open>..\<close>
  removes the element before it when that is a name, is kept when the path is not rooted,
  and is dropped at the root.
\<close>

fun cleanElems :: "bool \<Rightarrow> string list \<Rightarrow> string list \<Rightarrow> string list" where
  "cleanElems rooted out [] = rev out"
| "cleanElems rooted out (e # es) =
     (if e = [] \<or> e = ''.'' then cleanElems rooted out es
      else if e = ''..'' then
        (if out \<noteq> [] \<and> hd out \<noteq> ''..'' then cleanElems rooted (tl out) es
         else if \<not> rooted then cleanElems rooted (''..'' # out) es
         else cleanElems rooted out es)
      else cleanElems rooted (e # out) es)"

definition Clean :: "string \<Rightarrow> string" where
  "Clean p =
     (if p = [] then ''.''
      else
        (let rooted = (hd p = CHR ''/'');
             s = (if rooted then ''/'' else []) @ strings_Join (cleanElems rooted [] (splitPath p)) ''/''
         in if s = [] then ''.'' else s))"

definition Join :: "string list \<Rightarrow> string" where
  "Join elem =
     (case dropWhile (\<lambda>e. e = []) elem of
        [] \<Rightarrow> []
      | es \<Rightarrow> Clean (strings_Join es ''/''))"

definition Base :: "string \<Rightarrow> string" where
  "Base p =
     (if p = [] then ''.''
      else
        (let q = rev (dropWhile (\<lambda>c. c = CHR ''/'') (rev p));
             b = rev (takeWhile (\<lambda>c. c \<noteq> CHR ''/'') (rev q))
         in if b = [] then ''/'' else b))"

subsection \<open>The file system\<close>

text \<open>
  A call fails when the environment says so, and a read of a path that is not there
  fails with \<open>ErrNotExist\<close>. A failed call leaves the state as it was. What a real file
  system demands beyond that (a parent directory, permissions) is the environment's
  choice of faults.
\<close>

definition under :: "string \<Rightarrow> string \<Rightarrow> bool" where
  "under d p \<longleftrightarrow> p = d \<or> take (length d + 1) p = d @ ''/''"

definition removeTree :: "string \<Rightarrow> (string \<Rightarrow> fnode option) \<Rightarrow> string \<Rightarrow> fnode option" where
  "removeTree d f = (if d = [] then f else (\<lambda>p. if under d p then None else f p))"

definition os_Stat :: "env \<Rightarrow> string \<Rightarrow> world \<Rightarrow> error option \<times> world" where
  "os_Stat env p w =
     (let r = (case outcome env w of
                 Some e \<Rightarrow> Some e
               | None \<Rightarrow> if fs w p = None then Some ErrNotExist else None)
      in (r, record_call (Os_Stat p) r w))"

definition os_ReadFile :: "env \<Rightarrow> string \<Rightarrow> world \<Rightarrow> (error + string) \<times> world" where
  "os_ReadFile env p w =
     (case outcome env w of
        Some e \<Rightarrow> (Inl e, record_call (Os_ReadFile p) (Some e) w)
      | None \<Rightarrow>
          (case fs w p of
             None \<Rightarrow> (Inl ErrNotExist, record_call (Os_ReadFile p) (Some ErrNotExist) w)
           | Some Dir \<Rightarrow>
               (Inl (ErrFailed ''is a directory''),
                record_call (Os_ReadFile p) (Some (ErrFailed ''is a directory'')) w)
           | Some (File d) \<Rightarrow> (Inr d, record_call (Os_ReadFile p) None w)))"

definition os_WriteFile :: "env \<Rightarrow> string \<Rightarrow> string \<Rightarrow> world \<Rightarrow> error option \<times> world" where
  "os_WriteFile env p d w =
     (case extern env (Os_WriteFile p d) w of
        (Some e, w1) \<Rightarrow> (Some e, w1)
      | (None, w1) \<Rightarrow> (None, w1\<lparr>fs := (fs w1)(p \<mapsto> File d)\<rparr>))"

definition os_RemoveAll :: "env \<Rightarrow> string \<Rightarrow> world \<Rightarrow> error option \<times> world" where
  "os_RemoveAll env p w =
     (case extern env (Os_RemoveAll p) w of
        (Some e, w1) \<Rightarrow> (Some e, w1)
      | (None, w1) \<Rightarrow> (None, w1\<lparr>fs := removeTree p (fs w1)\<rparr>))"

text \<open>
  \<open>os.MkdirTemp\<close> creates a directory that was not there: a name the environment
  proposes that is taken already is the error the real function gives up with.
\<close>

definition os_MkdirTemp :: "env \<Rightarrow> string \<Rightarrow> string \<Rightarrow> world \<Rightarrow> (error + string) \<times> world" where
  "os_MkdirTemp env dir pattern w =
     (case outcome env w of
        Some e \<Rightarrow> (Inl e, record_call (Os_MkdirTemp dir pattern) (Some e) w)
      | None \<Rightarrow>
          (if fs w (returned env w) \<noteq> None
           then (Inl ErrExist, record_call (Os_MkdirTemp dir pattern) (Some ErrExist) w)
           else (Inr (returned env w),
                 (record_call (Os_MkdirTemp dir pattern) None w)
                   \<lparr>fs := (fs w)(returned env w \<mapsto> Dir)\<rparr>)))"

section \<open>The registry\<close>

record Registry =
  address :: string
  root :: string
  tmp :: string
  cert :: string
  key :: string
  listener :: "string option"
  server :: bool

text \<open>
  \<open>makeSelfSignedCert\<close>: four library calls which may each fail; the key and the
  certificate are what the environment returns for them.
\<close>

definition makeSelfSignedCert :: "env \<Rightarrow> string \<Rightarrow> world \<Rightarrow> (error + string \<times> string) \<times> world" where
  "makeSelfSignedCert env addr w =
     (case externStr env (Net_SplitHostPort addr) w of
        (Inl e, w1) \<Rightarrow> (Inl e, w1)
      | (Inr host, w1) \<Rightarrow>
     (case extern env (Net_LookupHost host) w1 of
        (Some e, w2) \<Rightarrow> (Inl e, w2)
      | (None, w2) \<Rightarrow>
     (case externStr env Rsa_GenerateKey w2 of
        (Inl e, w3) \<Rightarrow> (Inl e, w3)
      | (Inr keyPEM, w3) \<Rightarrow>
     (case externStr env X509_CreateCertificate w3 of
        (Inl e, w4) \<Rightarrow> (Inl e, w4)
      | (Inr certPEM, w4) \<Rightarrow> (Inr (certPEM, keyPEM), w4)))))"

text \<open>
  \<open>RegistryBuilder.Build\<close>, with the builder's fields as arguments: the certificate
  and the key are \<open>None\<close> when they were not set. The logger's sink is always set by the
  callers and its check is left out.
\<close>

definition RegistryBuilder_Build ::
  "env \<Rightarrow> string \<Rightarrow> string \<Rightarrow> string option \<Rightarrow> string option \<Rightarrow> world \<Rightarrow> (error + Registry) \<times> world" where
  "RegistryBuilder_Build env b_address b_root b_cert b_key w =
     (if b_address = [] then (Inl (ErrMandatory ''address is mandatory''), w)
      else if b_root = [] then (Inl (ErrMandatory ''root is mandatory''), w)
      else if b_cert \<noteq> None \<and> b_key = None
        then (Inl (ErrMandatory ''key is mandatory when certificate is set''), w)
      else if b_key \<noteq> None \<and> b_cert = None
        then (Inl (ErrMandatory ''certificate is mandatory when key is set''), w)
      else
        (case os_MkdirTemp env [] ''*.registry'' w of
           (Inl e, w1) \<Rightarrow> (Inl e, w1)
         | (Inr t, w1) \<Rightarrow>
             (case (b_cert, b_key) of
                (Some c, Some k) \<Rightarrow>
                  (Inr \<lparr>address = b_address, root = b_root, tmp = t, cert = c, key = k,
                        listener = None, server = False\<rparr>, w1)
              | _ \<Rightarrow>
                  (case makeSelfSignedCert env b_address w1 of
                     (Inl e, w2) \<Rightarrow> (Inl e, w2)
                   | (Inr (c, k), w2) \<Rightarrow>
                       (Inr \<lparr>address = b_address, root = b_root, tmp = t, cert = c, key = k,
                             listener = None, server = False\<rparr>, w2)))))"

text \<open>
  \<open>Registry.Address\<close> dereferences the listener, which is nil until \<open>Start\<close> has bound
  it.
\<close>

definition Registry_Address :: "Registry \<Rightarrow> world \<Rightarrow> string res \<times> world" where
  "Registry_Address r w = (case listener r of None \<Rightarrow> (Panic, w) | Some a \<Rightarrow> (Ok a, w))"

definition net_Listen :: "env \<Rightarrow> string \<Rightarrow> world \<Rightarrow> (error + string) \<times> world" where
  "net_Listen env a w = externStr env (Net_Listen a) w"

text \<open>
  The goroutine of \<open>Registry.Start\<close>: \<open>ServeTLS\<close> serves until the server is shut
  down, and when it ends with any other error the goroutine logs it with
  \<open>logger.Error\<close> and the message "Failed to serve". The line is written at a moment the
  scheduler picks; it goes to the background log.
\<close>

definition serveTLS :: "env \<Rightarrow> world \<Rightarrow> world" where
  "serveTLS env w =
     (case serveOut env (length (trace w)) of
        Some e \<Rightarrow> w\<lparr>bglog := bglog w @ [(''Failed to serve'', [])]\<rparr>
      | None \<Rightarrow> w)"

text \<open>
  \<open>Registry.Start\<close> writes the TLS material into the private temporary directory, binds
  the listener, creates the server and leaves the goroutine serving; the registry comes
  back with what was assigned to it.
\<close>

definition Registry_Start :: "env \<Rightarrow> Registry \<Rightarrow> world \<Rightarrow> error option \<times> Registry \<times> world" where
  "Registry_Start env r w =
     (let certFile = Join [tmp r, ''tls.crt''] in
      case os_WriteFile env certFile (cert r) w of
        (Some e, w1) \<Rightarrow> (Some e, r, w1)
      | (None, w1) \<Rightarrow>
     (let keyFile = Join [tmp r, ''tls.key''] in
      case os_WriteFile env keyFile (key r) w1 of
        (Some e, w2) \<Rightarrow> (Some e, r, w2)
      | (None, w2) \<Rightarrow>
     (case net_Listen env (address r) w2 of
        (Inl e, w3) \<Rightarrow> (Some e, r\<lparr>listener := None\<rparr>, w3)
      | (Inr a, w3) \<Rightarrow> (None, r\<lparr>listener := Some a, server := True\<rparr>, serveTLS env w3))))"

text \<open>
  \<open>Registry.Stop\<close> calls \<open>Shutdown\<close> on the server, a method that dereferences its
  receiver: on a registry whose \<open>Start\<close> never created the server it panics.
\<close>

definition Registry_Stop :: "env \<Rightarrow> Registry \<Rightarrow> world \<Rightarrow> unit res \<times> world" where
  "Registry_Stop env r w =
     (if \<not> server r then (Panic, w)
      else
        (case extern env Server_Shutdown w of
           (Some e, w1) \<Rightarrow> (Err e, w1)
         | (None, w1) \<Rightarrow>
             (case os_RemoveAll env (tmp r) w1 of
                (Some e, w2) \<Rightarrow> (Err e, w2)
              | (None, w2) \<Rightarrow> (Ok (), w2))))"

section \<open>The runtime configurator\<close>

text \<open>
  Modelled from the spec: the type \<open>CRIOTool\<close> and its methods are not among the
  sources. The spec (4.5) gives the operations as opaque success or failure: create or
  remove the pin entry for a set of references. \<open>CreatePinConf\<close> writes the pin entry.
\<close>

definition CreatePinConf :: "env \<Rightarrow> string list \<Rightarrow> world \<Rightarrow> error option \<times> world" where
  "CreatePinConf env refs w =
     (case extern env (CRIO_CreatePinConf refs) w of
        (Some e, w1) \<Rightarrow> (Some e, w1)
      | (None, w1) \<Rightarrow> (None, w1\<lparr>pinConf := Some refs\<rparr>))"

text \<open>
  Modelled from the spec: \<open>CRIOTool.RemovePinConf\<close> is not among the sources; it removes
  the pin entry.
\<close>

definition RemovePinConf :: "env \<Rightarrow> world \<Rightarrow> error option \<times> world" where
  "RemovePinConf env w =
     (case extern env CRIO_RemovePinConf w of
        (Some e, w1) \<Rightarrow> (Some e, w1)
      | (None, w1) \<Rightarrow> (None, w1\<lparr>pinConf := None\<rparr>))"

text \<open>
  Modelled from the spec: \<open>CRIOTool.CreateMirrorConf\<close> is not among the sources; it
  writes the mirror entry that points a set of references at a registry address.
\<close>

definition CreateMirrorConf :: "env \<Rightarrow> string \<Rightarrow> string list \<Rightarrow> world \<Rightarrow> error option \<times> world" where
  "CreateMirrorConf env addr refs w =
     (case extern env (CRIO_CreateMirrorConf addr refs) w of
        (Some e, w1) \<Rightarrow> (Some e, w1)
      | (None, w1) \<Rightarrow> (None, w1\<lparr>mirrorConf := Some (addr, refs)\<rparr>))"

text \<open>
  Modelled from the spec: \<open>CRIOTool.RemoveMirrorConf\<close> is not among the sources; it
  removes the mirror entry.
\<close>

definition RemoveMirrorConf :: "env \<Rightarrow> world \<Rightarrow> error option \<times> world" where
  "RemoveMirrorConf env w =
     (case extern env CRIO_RemoveMirrorConf w of
        (Some e, w1) \<Rightarrow> (Some e, w1)
      | (None, w1) \<Rightarrow> (None, w1\<lparr>mirrorConf := None\<rparr>))"

text \<open>
  Modelled from the spec: \<open>CRIOTool.ReloadService\<close> is not among the sources; it reloads
  the runtime service and changes no entry.
\<close>

definition ReloadService :: "env \<Rightarrow> world \<Rightarrow> error option \<times> world" where
  "ReloadService env w = extern env CRIO_ReloadService w"

text \<open>
  Modelled from the spec: \<open>CRIOTool.PullImage\<close> is not among the sources; it pulls a
  single image reference into the runtime's storage.
\<close>

definition PullImage :: "env \<Rightarrow> string \<Rightarrow> world \<Rightarrow> error option \<times> world" where
  "PullImage env ref w =
     (case extern env (CRIO_PullImage ref) w of
        (Some e, w1) \<Rightarrow> (Some e, w1)
      | (None, w1) \<Rightarrow> (None, w1\<lparr>storage := storage w1 @ [ref]\<rparr>))"

section \<open>The node coordination record\<close>

definition labels_BundleLoaded :: string where
  "labels_BundleLoaded = ''upgrade-tool/bundle-loaded''"

definition labels_BundleCleaned :: string where
  "labels_BundleCleaned = ''upgrade-tool/bundle-cleaned''"

definition annotations_Progress :: string where
  "annotations_Progress = ''upgrade-tool/progress''"

definition client_Get :: "env \<Rightarrow> string \<Rightarrow> world \<Rightarrow> (error + node_obj) \<times> world" where
  "client_Get env name w =
     (case outcome env w of
        Some e \<Rightarrow> (Inl e, record_call (Client_Get name) (Some e) w)
      | None \<Rightarrow>
          (case nodes w name of
             None \<Rightarrow> (Inl ErrNotFound, record_call (Client_Get name) (Some ErrNotFound) w)
           | Some obj \<Rightarrow> (Inr obj, record_call (Client_Get name) None w)))"

text \<open>
  A merge patch carries the entries of the updated map that differ from the original
  (\<open>Some None\<close> for an entry to delete), and the server applies them to the object it
  holds.
\<close>

definition mergeFrom :: "(string \<rightharpoonup> string) \<Rightarrow> (string \<rightharpoonup> string) \<Rightarrow> string \<Rightarrow> string option option" where
  "mergeFrom orig upd = (\<lambda>k. if upd k = orig k then None else Some (upd k))"

definition applyPatch :: "(string \<Rightarrow> string option option) \<Rightarrow> (string \<rightharpoonup> string) \<Rightarrow> (string \<rightharpoonup> string)" where
  "applyPatch d cur = (\<lambda>k. case d k of None \<Rightarrow> cur k | Some v \<Rightarrow> v)"

definition client_PatchLabels ::
  "env \<Rightarrow> string \<Rightarrow> string \<Rightarrow> string \<Rightarrow> node_obj \<Rightarrow> node_obj \<Rightarrow> world \<Rightarrow> error option \<times> world" where
  "client_PatchLabels env name label val orig upd w =
     (let r = (case outcome env w of
                 Some e \<Rightarrow> Some e
               | None \<Rightarrow> if nodes w name = None then Some ErrNotFound else None);
          w1 = record_call (Client_PatchLabel name label val) r w
      in case (r, nodes w name) of
           (None, Some cur) \<Rightarrow>
             (None, w1\<lparr>nodes := (nodes w1)
                (name \<mapsto> cur\<lparr>labels := applyPatch (mergeFrom (labels orig) (labels upd)) (labels cur)\<rparr>)\<rparr>)
         | _ \<Rightarrow> (r, w1))"

definition client_PatchAnnotation ::
  "env \<Rightarrow> string \<Rightarrow> string \<Rightarrow> string \<Rightarrow> world \<Rightarrow> error option \<times> world" where
  "client_PatchAnnotation env name ann text w =
     (let r = (case outcome env w of
                 Some e \<Rightarrow> Some e
               | None \<Rightarrow> if nodes w name = None then Some ErrNotFound else None);
          w1 = record_call (Client_PatchAnnotation name ann text) r w
      in case (r, nodes w name) of
           (None, Some cur) \<Rightarrow>
             (None, w1\<lparr>nodes := (nodes w1)
                (name \<mapsto> cur\<lparr>annotations := (annotations cur)(ann \<mapsto> text)\<rparr>)\<rparr>)
         | _ \<Rightarrow> (r, w1))"

section \<open>The bundle loader\<close>

text \<open>
  \<open>BundleLoader\<close> and \<open>BundleCleaner\<close> have the same fields (the logger, the API
  client and the CRI-O tool are the world): one record serves both.
\<close>

record BundleLoader =
  node :: string
  rootDir :: string
  bundleDir :: string

type_synonym BundleCleaner = BundleLoader

definition absolutePath :: "BundleLoader \<Rightarrow> string \<Rightarrow> string" where
  "absolutePath l relPath = (if rootDir l \<noteq> [] then Join [rootDir l, relPath] else relPath)"

text \<open>
  \<open>checkBundleDir\<close> returns \<open>(exists, err)\<close>: a stat that fails with
  \<open>ErrNotExist\<close> is \<open>(false, nil)\<close>; after any other stat, \<open>exists\<close> is true and
  the stat's error, if any, is returned with it.
\<close>

definition checkBundleDir :: "env \<Rightarrow> BundleLoader \<Rightarrow> world \<Rightarrow> (bool \<times> error option) \<times> world" where
  "checkBundleDir env l w =
     (let dir = absolutePath l (bundleDir l) in
      case os_Stat env dir w of
        (err, w1) \<Rightarrow> if err = Some ErrNotExist then ((False, None), w1) else ((True, err), w1))"

definition configureCRIO :: "env \<Rightarrow> string \<Rightarrow> string list \<Rightarrow> world \<Rightarrow> error option \<times> world" where
  "configureCRIO env addr refs w =
     (case CreatePinConf env refs w of
        (Some e, w1) \<Rightarrow> (Some e, w1)
      | (None, w1) \<Rightarrow>
     (case CreateMirrorConf env addr refs w1 of
        (Some e, w2) \<Rightarrow> (Some e, w2)
      | (None, w2) \<Rightarrow> ReloadService env w2))"

definition deconfigureCRIO :: "env \<Rightarrow> world \<Rightarrow> error option \<times> world" where
  "deconfigureCRIO env w =
     (case RemoveMirrorConf env w of
        (Some e, w1) \<Rightarrow> (Some e, w1)
      | (None, w1) \<Rightarrow> ReloadService env w1)"

text \<open>
  \<open>reportProgress\<close> returns nothing: when the patch fails, the failure is logged.
  (Marshalling a map of strings cannot fail.)
\<close>

definition reportProgress :: "env \<Rightarrow> BundleLoader \<Rightarrow> string \<Rightarrow> world \<Rightarrow> world" where
  "reportProgress env l text w =
     (case client_PatchAnnotation env (node l) annotations_Progress text w of
        (Some e, w1) \<Rightarrow> w1\<lparr>errlog := errlog w1 @ [(''Failed to apply progress patch'', text)]\<rparr>
      | (None, w1) \<Rightarrow> w1)"

definition pulledMsg :: "nat \<Rightarrow> nat \<Rightarrow> string" where
  "pulledMsg k n = ''Pulled '' @ showNat k @ '' of '' @ showNat n @ '' images''"

text \<open>The loop of \<open>populateCRIO\<close> over the payload images, from index \<open>i\<close> on.\<close>

fun pullImages :: "env \<Rightarrow> BundleLoader \<Rightarrow> nat \<Rightarrow> nat \<Rightarrow> string list \<Rightarrow> world \<Rightarrow> error option \<times> world" where
  "pullImages env l i n [] w = (None, w)"
| "pullImages env l i n (ref # refs) w =
     (case PullImage env ref w of
        (Some e, w1) \<Rightarrow> (Some e, w1)
      | (None, w1) \<Rightarrow>
          pullImages env l (i + 1) n refs (reportProgress env l (pulledMsg (i + 1) n) w1))"

definition populateCRIO :: "env \<Rightarrow> BundleLoader \<Rightarrow> string \<Rightarrow> string list \<Rightarrow> world \<Rightarrow> error option \<times> world" where
  "populateCRIO env l release refs w =
     (case PullImage env release w of
        (Some e, w1) \<Rightarrow> (Some e, w1)
      | (None, w1) \<Rightarrow>
          pullImages env l 0 (length refs) refs (reportProgress env l ''Pulled release image'' w1))"

definition metadataFile :: "BundleLoader \<Rightarrow> string" where
  "metadataFile l = Join [absolutePath l (bundleDir l), ''metadata.json'']"

text \<open>
  \<open>readMetadata\<close> unmarshals into a nil pointer and then reads the fields of the result:
  for the JSON text null the pointer stays nil, and reading \<open>result.Version\<close> panics.
\<close>

definition readMetadata :: "env \<Rightarrow> BundleLoader \<Rightarrow> world \<Rightarrow> Metadata res \<times> world" where
  "readMetadata env l w =
     (case os_ReadFile env (metadataFile l) w of
        (Inl e, w1) \<Rightarrow> (Err e, w1)
      | (Inr data, w1) \<Rightarrow>
          (case jsonUnmarshal env data of
             Inl e \<Rightarrow> (Err e, w1)
           | Inr None \<Rightarrow> (Panic, w1)
           | Inr (Some result) \<Rightarrow> (Ok result, w1)))"

definition startRegistry :: "env \<Rightarrow> BundleLoader \<Rightarrow> world \<Rightarrow> Registry res \<times> world" where
  "startRegistry env l w =
     (let dir = absolutePath l (bundleDir l) in
      case RegistryBuilder_Build env ''localhost:0'' dir None None w of
        (Inl e, w1) \<Rightarrow> (Err e, w1)
      | (Inr registry, w1) \<Rightarrow>
          (case Registry_Start env registry w1 of
             (Some e, registry', w2) \<Rightarrow> (Err e, w2)
           | (None, registry', w2) \<Rightarrow>
               andThen (Registry_Address registry') (\<lambda>a w3. (Ok registry', w3)) w2))"

definition deleteBundle :: "env \<Rightarrow> BundleLoader \<Rightarrow> world \<Rightarrow> error option \<times> world" where
  "deleteBundle env l w = os_RemoveAll env (absolutePath l (bundleDir l)) w"

text \<open>
  \<open>writeResult\<close>, of the loader and of the cleaner alike but for the label: fetch the
  node, set the label to \<open>true\<close> on a copy, and send the merge patch from the fetched
  object to the copy.
\<close>

definition writeResult :: "env \<Rightarrow> string \<Rightarrow> string \<Rightarrow> world \<Rightarrow> error option \<times> world" where
  "writeResult env name label w =
     (case client_Get env name w of
        (Inl e, w1) \<Rightarrow> (Some e, w1)
      | (Inr nodeObject, w1) \<Rightarrow>
          (let nodeUpdate = nodeObject\<lparr>labels := (labels nodeObject)(label \<mapsto> ''true'')\<rparr>
           in client_PatchLabels env name label ''true'' nodeObject nodeUpdate w1))"

definition BundleLoader_writeResult :: "env \<Rightarrow> BundleLoader \<Rightarrow> world \<Rightarrow> error option \<times> world" where
  "BundleLoader_writeResult env l w = writeResult env (node l) labels_BundleLoaded w"

definition BundleLoader_Run :: "env \<Rightarrow> BundleLoader \<Rightarrow> world \<Rightarrow> unit res \<times> world" where
  "BundleLoader_Run env l w =
     (case checkBundleDir env l w of
        ((exists, Some e), w1) \<Rightarrow> (Err e, w1)
      | ((False, None), w1) \<Rightarrow> (Err (ErrBundleDirMissing (bundleDir l)), w1)
      | ((True, None), w1) \<Rightarrow>
          andThen (readMetadata env l) (\<lambda>metadata.
          andThen (startRegistry env l) (\<lambda>registry.
          andThen (Registry_Address registry) (\<lambda>addr.
          andThen (lift (configureCRIO env addr (Images metadata))) (\<lambda>_.
          andThen (lift (populateCRIO env l (Release metadata) (Images metadata))) (\<lambda>_.
          andThen (lift (deconfigureCRIO env)) (\<lambda>_.
          andThen (Registry_Stop env registry) (\<lambda>_.
          andThen (lift (deleteBundle env l)) (\<lambda>_.
          lift (BundleLoader_writeResult env l))))))))) w1)"

section \<open>The bundle cleaner\<close>

definition cleanBundleDir :: "env \<Rightarrow> BundleCleaner \<Rightarrow> world \<Rightarrow> error option \<times> world" where
  "cleanBundleDir env c w =
     (let dir = absolutePath c (bundleDir c) in
      case os_RemoveAll env dir w of
        (Some e, w1) \<Rightarrow> (Some e, w1)
      | (None, w1) \<Rightarrow> os_RemoveAll env (dir @ ''.tmp'') w1)"

definition cleanCRIO :: "env \<Rightarrow> world \<Rightarrow> error option \<times> world" where
  "cleanCRIO env w =
     (case RemoveMirrorConf env w of
        (Some e, w1) \<Rightarrow> (Some e, w1)
      | (None, w1) \<Rightarrow>
     (case RemovePinConf env w1 of
        (Some e, w2) \<Rightarrow> (Some e, w2)
      | (None, w2) \<Rightarrow> ReloadService env w2))"

definition BundleCleaner_writeResult :: "env \<Rightarrow> BundleCleaner \<Rightarrow> world \<Rightarrow> error option \<times> world" where
  "BundleCleaner_writeResult env c w = writeResult env (node c) labels_BundleCleaned w"

definition BundleCleaner_Run :: "env \<Rightarrow> BundleCleaner \<Rightarrow> world \<Rightarrow> unit res \<times> world" where
  "BundleCleaner_Run env c w =
     andThen (lift (cleanBundleDir env c)) (\<lambda>_.
     andThen (lift (cleanCRIO env)) (\<lambda>_.
     lift (BundleCleaner_writeResult env c))) w"


text \<open>
  The world a run of the cleaner leaves when none of its calls fails and the node's
  object is \<open>obj\<close>.
\<close>

definition cleaned :: "BundleCleaner \<Rightarrow> node_obj \<Rightarrow> world \<Rightarrow> world" where
  "cleaned c obj w =
     w\<lparr>fs := removeTree (absolutePath c (bundleDir c) @ ''.tmp'')
               (removeTree (absolutePath c (bundleDir c)) (fs w)),
       pinConf := None, mirrorConf := None,
       nodes := (nodes w)(node c \<mapsto> obj\<lparr>labels := (labels obj)(labels_BundleCleaned \<mapsto> ''true'')\<rparr>),
       trace := trace w @
         [(Os_RemoveAll (absolutePath c (bundleDir c)), None),
          (Os_RemoveAll (absolutePath c (bundleDir c) @ ''.tmp''), None),
          (CRIO_RemoveMirrorConf, None), (CRIO_RemovePinConf, None), (CRIO_ReloadService, None),
          (Client_Get (node c), None),
          (Client_PatchLabel (node c) labels_BundleCleaned ''true'', None)]\<rparr>"


section \<open>The bundle creator\<close>

record BundleCreator =
  version :: string
  arch :: string
  outputDir :: string
  pullSecret :: string

definition bundleCreatorReleaseRepo :: string where
  "bundleCreatorReleaseRepo = ''quay.io/openshift-release-dev/ocp-release''"

definition outputBase :: "BundleCreator \<Rightarrow> string" where
  "outputBase c = Join [outputDir c, ''upgrade-'' @ version c @ ''-'' @ arch c]"

definition bundleFile :: "BundleCreator \<Rightarrow> string" where
  "bundleFile c = outputBase c @ ''.tar''"

definition digestFile :: "BundleCreator \<Rightarrow> string" where
  "digestFile c = outputBase c @ ''.sha256''"

definition manifestFile :: "BundleCreator \<Rightarrow> string" where
  "manifestFile c = outputBase c @ ''.yaml''"

text \<open>\<open>createDir\<close>: "already exists" is not an error.\<close>

definition createDir :: "env \<Rightarrow> string \<Rightarrow> world \<Rightarrow> error option \<times> world" where
  "createDir env dir w =
     (case extern env (Os_MkdirAll dir) w of
        (Some e, w1) \<Rightarrow> if e = ErrExist then (None, w1) else (Some e, w1)
      | (None, w1) \<Rightarrow>
          (None, if fs w1 dir = None then w1\<lparr>fs := (fs w1)(dir \<mapsto> Dir)\<rparr> else w1))"

subsection \<open>Go maps\<close>

text \<open>
  A Go map from strings to strings is a list of entries with distinct keys. An assignment
  replaces the value of a key that is there; an access to a key that is not there gives
  the empty string; \<open>maps.Keys\<close> and \<open>maps.Values\<close> go through the entries in the
  order the environment picks, since Go leaves the iteration order of a map open.
\<close>

type_synonym gomap = "(string \<times> string) list"

fun mapassign :: "gomap \<Rightarrow> string \<Rightarrow> string \<Rightarrow> gomap" where
  "mapassign [] k v = [(k, v)]"
| "mapassign ((k', v') # m) k v =
     (if k' = k then (k, v) # m else (k', v') # mapassign m k v)"

definition mapaccess :: "gomap \<Rightarrow> string \<Rightarrow> string" where
  "mapaccess m k = (case map_of m k of Some v \<Rightarrow> v | None \<Rightarrow> [])"

definition maps_Keys :: "env \<Rightarrow> gomap \<Rightarrow> string list" where
  "maps_Keys env m = map fst (mapOrder env m)"

definition maps_Values :: "env \<Rightarrow> gomap \<Rightarrow> string list" where
  "maps_Values env m = map snd (mapOrder env m)"

subsection \<open>Release discovery\<close>

text \<open>
  Modelled from the spec: the jq tool (package \<open>internal/jq\<close>) is not among the
  sources. The spec (6) gives the release-discovery collaborator's output as a
  digest-pinned reference plus the set of (tag, image-reference) pairs: the query for the
  digest is a call that returns a string.
\<close>

definition jq_QueryDigest :: "env \<Rightarrow> world \<Rightarrow> (error + string) \<times> world" where
  "jq_QueryDigest env w = externStr env (Jq_Query ''.digest'') w"

text \<open>
  Modelled from the spec: the query of the jq tool (not among the sources) for the tags
  is a call that returns the list of (tag, image-reference) pairs.
\<close>

definition jq_QueryTags :: "env \<Rightarrow> world \<Rightarrow> (error + (string \<times> string) list) \<times> world" where
  "jq_QueryTags env w =
     (case outcome env w of
        Some e \<Rightarrow>
          (Inl e, record_call (Jq_Query ''[.references.spec.tags[] | {tag: .name, ref: .from.name}]'') (Some e) w)
      | None \<Rightarrow>
          (Inr (tagsOut env (length (trace w))),
           record_call (Jq_Query ''[.references.spec.tags[] | {tag: .name, ref: .from.name}]'') None w))"

definition findImages :: "env \<Rightarrow> BundleCreator \<Rightarrow> world \<Rightarrow> (error + string \<times> gomap) \<times> world" where
  "findImages env c w =
     (let release = bundleCreatorReleaseRepo @ '':'' @ version c @ ''-'' @ arch c in
      case externStr env (Exec_LookPath ''oc'') w of
        (Inl e, w1) \<Rightarrow> (Inl e, w1)
      | (Inr path, w1) \<Rightarrow>
     (case externStr env (Cmd_Run [''oc'', ''adm'', ''release'', ''info'', ''--output=json'', release]) w1 of
        (Inl e, w2) \<Rightarrow> (Inl e, w2)
      | (Inr stdout, w2) \<Rightarrow>
     (case jq_QueryDigest env w2 of
        (Inl e, w3) \<Rightarrow> (Inl e, w3)
      | (Inr digest, w3) \<Rightarrow>
     (case jq_QueryTags env w3 of
        (Inl e, w4) \<Rightarrow> (Inl e, w4)
      | (Inr tags, w4) \<Rightarrow>
          (Inr (bundleCreatorReleaseRepo @ ''@'' @ digest,
                foldl (\<lambda>images (tag, ref). mapassign images tag ref) [] tags), w4)))))"

subsection \<open>Copying the images\<close>

definition createRegistry :: "env \<Rightarrow> string \<Rightarrow> world \<Rightarrow> (error + Registry) \<times> world" where
  "createRegistry env dir w =
     (case RegistryBuilder_Build env ''localhost:5001'' dir None None w of
        (Inl e, w1) \<Rightarrow> (Inl e, w1)
      | (Inr registry, w1) \<Rightarrow>
          (case Registry_Start env registry w1 of
             (Some e, registry', w2) \<Rightarrow> (Inl e, w2)
           | (None, registry', w2) \<Rightarrow> (Inr registry', w2)))"

text \<open>
  \<open>dstRef\<close>: the destination of a source reference is the registry's address, the
  path of the reference, and its tag, or the hexadecimal digest when it has no tag.
\<close>

definition dstRef :: "env \<Rightarrow> string \<Rightarrow> Registry \<Rightarrow> world \<Rightarrow> string res \<times> world" where
  "dstRef env src registry w =
     (case parseNamed env src of
        Inl e \<Rightarrow> (Err e, w)
      | Inr ref \<Rightarrow>
          (let tag = (case refTag ref of
                        Some t \<Rightarrow> t
                      | None \<Rightarrow> (case refDigestHex ref of Some h \<Rightarrow> h | None \<Rightarrow> []))
           in andThen (Registry_Address registry)
                (\<lambda>addr w1. (Ok (addr @ ''/'' @ refPath ref @ '':'' @ tag), w1)) w))"

definition downloadImage ::
  "env \<Rightarrow> BundleCreator \<Rightarrow> string \<Rightarrow> string \<Rightarrow> string \<Rightarrow> world \<Rightarrow> error option \<times> world" where
  "downloadImage env c certs src dst w =
     (case externStr env (Exec_LookPath ''skopeo'') w of
        (Inl e, w1) \<Rightarrow> (Some e, w1)
      | (Inr path, w1) \<Rightarrow>
          extern env (Cmd_Run [''skopeo'', ''copy'', ''--src-authfile='' @ pullSecret c,
                               ''--dest-cert-dir='' @ certs, ''docker://'' @ src,
                               ''docker://'' @ dst]) w1)"

text \<open>The loop of \<open>downloadImages\<close> over the sorted tags.\<close>

fun downloadPayload ::
  "env \<Rightarrow> BundleCreator \<Rightarrow> Registry \<Rightarrow> string \<Rightarrow> gomap \<Rightarrow> string list \<Rightarrow> world \<Rightarrow> unit res \<times> world" where
  "downloadPayload env c registry certs images [] w = (Ok (), w)"
| "downloadPayload env c registry certs images (tag # tags) w =
     (case dstRef env (mapaccess images tag) registry w of
        (Err e, w1) \<Rightarrow> (Err e, w1)
      | (Panic, w1) \<Rightarrow> (Panic, w1)
      | (Ok dst, w1) \<Rightarrow>
          (case downloadImage env c certs (mapaccess images tag) dst w1 of
             (Some e, w2) \<Rightarrow> (Err e, w2)
           | (None, w2) \<Rightarrow> downloadPayload env c registry certs images tags w2))"

text \<open>
  \<open>downloadImages\<close>: the registry's certificate goes into a temporary directory, which
  the deferred function removes on every way out (a failure to remove it is logged); the
  release image is copied first, then the payload images by ascending tag.
\<close>

definition downloadImages ::
  "env \<Rightarrow> BundleCreator \<Rightarrow> Registry \<Rightarrow> string \<Rightarrow> gomap \<Rightarrow> world \<Rightarrow> unit res \<times> world" where
  "downloadImages env c registry release images w =
     (case os_MkdirTemp env [] ''*.skopeo'' w of
        (Inl e, w1) \<Rightarrow> (Err e, w1)
      | (Inr certs, w1) \<Rightarrow>
          (case andThen (lift (os_WriteFile env (Join [certs, ''tls.crt'']) (cert registry))) (\<lambda>_.
                andThen (dstRef env release registry) (\<lambda>dst.
                andThen (lift (downloadImage env c certs release dst)) (\<lambda>_.
                downloadPayload env c registry certs images (sort (maps_Keys env images))))) w1 of
             (r, w2) \<Rightarrow>
               (case os_RemoveAll env certs w2 of
                  (Some e, w3) \<Rightarrow>
                    (r, w3\<lparr>errlog := errlog w3 @
                         [(''Failed to remove skopeo temporary certificates directory'', certs)]\<rparr>)
                | (None, w3) \<Rightarrow> (r, w3))))"

subsection \<open>Writing the bundle\<close>

text \<open>The metadata literal of \<open>Run\<close>.\<close>

definition newMetadata :: "env \<Rightarrow> BundleCreator \<Rightarrow> string \<Rightarrow> gomap \<Rightarrow> Metadata" where
  "newMetadata env c release images =
     \<lparr>Version = version c, Arch = arch c, Release = release, Images = maps_Values env images\<rparr>"

text \<open>(Marshalling a struct of strings cannot fail.)\<close>

definition writeMetadata :: "env \<Rightarrow> Metadata \<Rightarrow> string \<Rightarrow> world \<Rightarrow> error option \<times> world" where
  "writeMetadata env metadata dir w =
     os_WriteFile env (Join [dir, ''metadata.json'']) (jsonMarshal env metadata) w"

text \<open>\<open>writeBundle\<close>: the archive is what the tar subprocess wrote.\<close>

definition writeBundle :: "env \<Rightarrow> BundleCreator \<Rightarrow> string \<Rightarrow> world \<Rightarrow> error option \<times> world" where
  "writeBundle env c dir w =
     (case externStr env (Exec_LookPath ''tar'') w of
        (Inl e, w1) \<Rightarrow> (Some e, w1)
      | (Inr path, w1) \<Rightarrow>
          (case externStr env (Cmd_Run [''tar'', ''--directory='' @ dir, ''--create'',
                                  ''--file='' @ bundleFile c, ''metadata.json'', ''docker'']) w1 of
             (Inl e, w2) \<Rightarrow> (Some e, w2)
           | (Inr archive, w2) \<Rightarrow> (None, w2\<lparr>fs := (fs w2)(bundleFile c \<mapsto> File archive)\<rparr>)))"

definition os_Open :: "env \<Rightarrow> string \<Rightarrow> world \<Rightarrow> error option \<times> world" where
  "os_Open env p w =
     (let r = (case outcome env w of
                 Some e \<Rightarrow> Some e
               | None \<Rightarrow> if fs w p = None then Some ErrNotExist else None)
      in (r, record_call (Os_Open p) r w))"

definition io_Copy :: "env \<Rightarrow> string \<Rightarrow> world \<Rightarrow> (error + string) \<times> world" where
  "io_Copy env p w =
     (case outcome env w of
        Some e \<Rightarrow> (Inl e, record_call (Io_Copy p) (Some e) w)
      | None \<Rightarrow>
          (case fs w p of
             Some (File d) \<Rightarrow> (Inr d, record_call (Io_Copy p) None w)
           | Some Dir \<Rightarrow>
               (Inl (ErrFailed ''is a directory''),
                record_call (Io_Copy p) (Some (ErrFailed ''is a directory'')) w)
           | None \<Rightarrow> (Inl ErrNotExist, record_call (Io_Copy p) (Some ErrNotExist) w)))"

text \<open>\<open>os.OpenFile\<close> with \<open>O_WRONLY|O_CREATE|O_TRUNC\<close>: the file is there and empty.\<close>

definition os_OpenFile :: "env \<Rightarrow> string \<Rightarrow> world \<Rightarrow> error option \<times> world" where
  "os_OpenFile env p w =
     (case extern env (Os_OpenFile p) w of
        (Some e, w1) \<Rightarrow> (Some e, w1)
      | (None, w1) \<Rightarrow> (None, w1\<lparr>fs := (fs w1)(p \<mapsto> File [])\<rparr>))"

definition fmt_Fprintf :: "env \<Rightarrow> string \<Rightarrow> string \<Rightarrow> world \<Rightarrow> error option \<times> world" where
  "fmt_Fprintf env p text w =
     (case extern env (Fprintf p text) w of
        (Some e, w1) \<Rightarrow> (Some e, w1)
      | (None, w1) \<Rightarrow> (None, w1\<lparr>fs := (fs w1)(p \<mapsto> File text)\<rparr>))"

text \<open>A deferred \<open>Close\<close>, whose failure is logged.\<close>

definition closeLogged :: "env \<Rightarrow> string \<Rightarrow> string \<Rightarrow> world \<Rightarrow> world" where
  "closeLogged env msg p w =
     (case extern env (File_Close p) w of
        (Some e, w1) \<Rightarrow> w1\<lparr>errlog := errlog w1 @ [(msg, p)]\<rparr>
      | (None, w1) \<Rightarrow> w1)"

text \<open>
  \<open>writeDigest\<close>: hash the archive, then write the hexadecimal sum, two spaces, the base
  name of the archive and a newline into the digest file. The two deferred closes run,
  the digest file's first, on the way out.
\<close>

definition writeDigest :: "env \<Rightarrow> BundleCreator \<Rightarrow> world \<Rightarrow> error option \<times> world" where
  "writeDigest env c w =
     (let bundle = bundleFile c; digest = digestFile c in
      case os_Open env bundle w of
        (Some e, w1) \<Rightarrow> (Some e, w1)
      | (None, w1) \<Rightarrow>
          (case (case io_Copy env bundle w1 of
                   (Inl e, w2) \<Rightarrow> (Some e, w2)
                 | (Inr data, w2) \<Rightarrow>
                     (let sum = hex_EncodeToString (sha256sum env data) in
                      case os_OpenFile env digest w2 of
                        (Some e, w3) \<Rightarrow> (Some e, w3)
                      | (None, w3) \<Rightarrow>
                          (case fmt_Fprintf env digest
                                  (sum @ ''  '' @ Base bundle @ [CHR 0x0A]) w3 of
                             (r, w4) \<Rightarrow>
                               (r, closeLogged env ''Failed to close digest file'' digest w4)))) of
             (r, w5) \<Rightarrow> (r, closeLogged env ''Failed to close bundle file'' bundle w5)))"

definition writeManifest :: "env \<Rightarrow> BundleCreator \<Rightarrow> world \<Rightarrow> error option \<times> world" where
  "writeManifest env c w =
     (case externStr env (TemplatesFS_ReadFile ''templates/manifest.yaml'') w of
        (Inl e, w1) \<Rightarrow> (Some e, w1)
      | (Inr content, w1) \<Rightarrow> os_WriteFile env (manifestFile c) content w1)"

text \<open>Every failure of a step of \<open>Run\<close> is reported on the console and becomes \<open>exit.Error(1)\<close>.\<close>

definition exitOnError :: "(world \<Rightarrow> 'a res \<times> world) \<Rightarrow> world \<Rightarrow> 'a res \<times> world" where
  "exitOnError m w = (case m w of (Err e, w1) \<Rightarrow> (Err (ExitError 1), w1) | (r, w1) \<Rightarrow> (r, w1))"

definition BundleCreator_Run :: "env \<Rightarrow> BundleCreator \<Rightarrow> world \<Rightarrow> unit res \<times> world" where
  "BundleCreator_Run env c =
     andThen (exitOnError (liftV (externStr env Os_UserCacheDir))) (\<lambda>cacheDir.
     andThen (exitOnError (lift (createDir env
                (Join [cacheDir, ''upgrade-tool'', version c @ ''-'' @ arch c])))) (\<lambda>_.
     andThen (exitOnError (liftV (findImages env c))) (\<lambda>found.
     andThen (exitOnError (liftV (createRegistry env
                (Join [cacheDir, ''upgrade-tool'', version c @ ''-'' @ arch c])))) (\<lambda>registry.
     andThen (exitOnError (downloadImages env c registry (fst found) (snd found))) (\<lambda>_.
     andThen (exitOnError (Registry_Stop env registry)) (\<lambda>_.
     andThen (exitOnError (lift (writeMetadata env (newMetadata env c (fst found) (snd found))
                (Join [cacheDir, ''upgrade-tool'', version c @ ''-'' @ arch c])))) (\<lambda>_.
     andThen (exitOnError (lift (writeBundle env c
                (Join [cacheDir, ''upgrade-tool'', version c @ ''-'' @ arch c])))) (\<lambda>_.
     andThen (exitOnError (lift (writeDigest env c))) (\<lambda>_.
     exitOnError (lift (writeManifest env c)))))))))))"

subsection \<open>What a successful run discovered\<close>

text \<open>
  In a run of the creator that gets as far as the copies, the first call returns the
  cache directory, the fifth the digest of the release, the sixth its (tag, reference)
  pairs and the fourteenth the address the registry's listener is bound to: the working
  directory, the digest-pinned release reference, the map of the images and the address
  of the registry are these.
\<close>

definition workDir :: "env \<Rightarrow> BundleCreator \<Rightarrow> world \<Rightarrow> string" where
  "workDir env c w =
     Join [strOut env (length (trace w)), ''upgrade-tool'', version c @ ''-'' @ arch c]"

definition discoveredRelease :: "env \<Rightarrow> world \<Rightarrow> string" where
  "discoveredRelease env w = bundleCreatorReleaseRepo @ ''@'' @ strOut env (length (trace w) + 4)"

definition discoveredTags :: "env \<Rightarrow> world \<Rightarrow> (string \<times> string) list" where
  "discoveredTags env w = tagsOut env (length (trace w) + 5)"

definition discoveredImages :: "env \<Rightarrow> world \<Rightarrow> gomap" where
  "discoveredImages env w =
     foldl (\<lambda>images (tag, ref). mapassign images tag ref) [] (tagsOut env (length (trace w) + 5))"

definition registryAddress :: "env \<Rightarrow> world \<Rightarrow> string" where
  "registryAddress env w = strOut env (length (trace w) + 13)"

section \<open>Reading a trace\<close>

text \<open>
  The calls a run adds to the trace, and what they say about pulls and progress: the
  progress messages sent (one for each patch of the progress annotation, whether it
  succeeded or not), the pulls attempted with their outcomes, and the lines logged for
  failed progress patches.
\<close>

fun isProgress :: "call \<Rightarrow> bool" where
  "isProgress (Client_PatchAnnotation n a t) = True"
| "isProgress _ = False"

fun isPull :: "call \<Rightarrow> bool" where
  "isPull (CRIO_PullImage ref) = True"
| "isPull _ = False"

fun isCmd :: "call \<Rightarrow> bool" where
  "isCmd (Cmd_Run args) = True"
| "isCmd _ = False"

fun progressOf :: "call \<times> error option \<Rightarrow> string list" where
  "progressOf (Client_PatchAnnotation n a t, r) = [t]"
| "progressOf _ = []"

fun pullOf :: "call \<times> error option \<Rightarrow> (string \<times> error option) list" where
  "pullOf (CRIO_PullImage ref, r) = [(ref, r)]"
| "pullOf _ = []"

fun failureLogOf :: "call \<times> error option \<Rightarrow> (string \<times> string) list" where
  "failureLogOf (Client_PatchAnnotation n a t, Some e) = [(''Failed to apply progress patch'', t)]"
| "failureLogOf _ = []"

definition progressMessages :: "(call \<times> error option) list \<Rightarrow> string list" where
  "progressMessages tr = concat (map progressOf tr)"

definition pulls :: "(call \<times> error option) list \<Rightarrow> (string \<times> error option) list" where
  "pulls tr = concat (map pullOf tr)"

definition progressFailures :: "(call \<times> error option) list \<Rightarrow> (string \<times> string) list" where
  "progressFailures tr = concat (map failureLogOf tr)"

definition newCalls :: "world \<Rightarrow> world \<Rightarrow> (call \<times> error option) list" where
  "newCalls w w' = drop (length (trace w)) (trace w')"

text \<open>
  A step has the property \<open>T\<close> when every run of it adds to the trace and to the error
  log two segments that satisfy \<open>T\<close> together with the result. A segment is plain when
  it logs nothing, makes no pull, sends no progress message and runs no subprocess, and
  no call in it fails
  but possibly the last, on which the step then returns an error.
\<close>

definition segR ::
  "((call \<times> error option) list \<Rightarrow> (string \<times> string) list \<Rightarrow> 'a res \<Rightarrow> bool) \<Rightarrow>
   (world \<Rightarrow> 'a res \<times> world) \<Rightarrow> bool" where
  "segR T m \<longleftrightarrow>
     (\<forall>w r w'. m w = (r, w') \<longrightarrow>
        (\<exists>tr lg. trace w' = trace w @ tr \<and> errlog w' = errlog w @ lg \<and> T tr lg r))"

definition plain :: "(call \<times> error option) list \<Rightarrow> (string \<times> string) list \<Rightarrow> 'a res \<Rightarrow> bool" where
  "plain tr lg r \<longleftrightarrow>
     lg = [] \<and>
     (\<forall>x\<in>set tr. \<not> isProgress (fst x) \<and> \<not> isPull (fst x) \<and> \<not> isCmd (fst x)) \<and>
     (\<forall>x\<in>set (butlast tr). snd x = None) \<and>
     (tr \<noteq> [] \<and> snd (last tr) \<noteq> None \<longrightarrow> (\<exists>e. r = Err e))"

text \<open>
  The segment of the pull loop from index \<open>i\<close> over the remaining images: it ends at a
  failed pull, and every successful pull is followed by the patch with its message. The
  segment of \<open>populateCRIO\<close> is the same with the release image first.
\<close>

fun pullRun :: "string \<Rightarrow> nat \<Rightarrow> nat \<Rightarrow> string list \<Rightarrow> (call \<times> error option) list \<Rightarrow> error option \<Rightarrow> bool" where
  "pullRun nd n i [] tr r \<longleftrightarrow> tr = [] \<and> r = None"
| "pullRun nd n i (ref # refs) tr r \<longleftrightarrow>
     (\<exists>e. tr = [(CRIO_PullImage ref, Some e)] \<and> r = Some e) \<or>
     (\<exists>po t. tr = (CRIO_PullImage ref, None) #
                  (Client_PatchAnnotation nd annotations_Progress (pulledMsg (Suc i) n), po) # t
             \<and> pullRun nd n (Suc i) refs t r)"






text \<open>
  The copies a trace holds: the source and the destination of every \<open>skopeo copy\<close>
  subprocess, without the \<open>docker://\<close> prefix.
\<close>

fun copyOf :: "call \<times> error option \<Rightarrow> (string \<times> string) list" where
  "copyOf (Cmd_Run args, r) =
     (if length args = 6 \<and> args ! 0 = ''skopeo'' \<and> args ! 1 = ''copy''
      then [(drop 9 (args ! 4), drop 9 (args ! 5))] else [])"
| "copyOf _ = []"

definition copies :: "(call \<times> error option) list \<Rightarrow> (string \<times> string) list" where
  "copies tr = concat (map copyOf tr)"

text \<open>
  A copy goes to the destination reference of its source: \<open>dstRef\<close>, which leaves the
  world as it is, gives its second component for its first.
\<close>

definition copiedTo :: "env \<Rightarrow> Registry \<Rightarrow> world \<Rightarrow> string \<times> string \<Rightarrow> bool" where
  "copiedTo env registry w p = (fst (dstRef env (fst p) registry w) = Ok (snd p))"
section \<open>Sample inputs\<close>

text \<open>
  An environment in which no call fails, and a world with nothing in it. The theorems
  are instantiated at these, and at variations of them.
\<close>

definition noFault :: env where
  "noFault =
     \<lparr>fault = (\<lambda>n. None), strOut = (\<lambda>n. ''/tmp/'' @ showNat n), tagsOut = (\<lambda>n. []),
      jsonUnmarshal = (\<lambda>s. Inl (ErrFailed ''unexpected end of JSON input'')),
      jsonMarshal = (\<lambda>m. []),
      parseNamed = (\<lambda>s. Inl (ErrFailed ''invalid reference format'')),
      sha256sum = (\<lambda>s. replicate 32 (CHR 0x00)), mapOrder = (\<lambda>m. m),
      serveOut = (\<lambda>n. None)\<rparr>"

definition emptyWorld :: world where
  "emptyWorld =
     \<lparr>fs = (\<lambda>p. None), pinConf = None, mirrorConf = None, storage = [],
      nodes = (\<lambda>n. None), trace = [], errlog = [], bglog = []\<rparr>"

definition sampleLoader :: BundleLoader where
  "sampleLoader = \<lparr>node = ''node-1'', rootDir = [], bundleDir = ''/var/lib/upgrade''\<rparr>"


definition sampleMetadata :: Metadata where
  "sampleMetadata =
     \<lparr>Version = ''4.13.4'', Arch = ''x86_64'',
      Release = ''quay.io/openshift-release-dev/ocp-release@sha256:9f86d081884c7d659a2feaa0c55ad015a3bf4f1b2b0b822cd15d6c15b0f00a08'',
      Images = [''quay.io/org/img-a:1'', ''quay.io/org/img-b:1'']\<rparr>"

text \<open>
  A node that holds an extracted bundle, and an environment for a load on it: the
  third call (the temporary directory of the registry) returns a fresh name, the tenth
  (the listener) the address it bound.
\<close>

definition loaderEnv :: env where
  "loaderEnv = noFault
     \<lparr>strOut := (\<lambda>n. if n = 2 then ''/tmp/1.registry'' else if n = 3 then ''localhost''
                     else if n = 9 then ''127.0.0.1:40000'' else ''PEM''),
      jsonUnmarshal := (\<lambda>s. if s = ''metadata of 4.13.4-x86_64'' then Inr (Some sampleMetadata)
                             else Inl (ErrFailed ''invalid character''))\<rparr>"

definition bundleWorld :: world where
  "bundleWorld = emptyWorld
     \<lparr>fs := [''/var/lib/upgrade'' \<mapsto> Dir, ''/var/lib/upgrade/metadata.json'' \<mapsto> File ''metadata of 4.13.4-x86_64''],
      nodes := [''node-1'' \<mapsto> \<lparr>labels = Map.empty, annotations = Map.empty\<rparr>]\<rparr>"

text \<open>
  A registry as \<open>Build\<close> returns it, in a world that holds its temporary directory and
  its data root; an environment whose third call (the listener) fails, and one whose
  fourth call (the shutdown) fails.
\<close>

definition sampleRegistry :: Registry where
  "sampleRegistry =
     \<lparr>address = ''localhost:5001'', root = ''/var/lib/upgrade'', tmp = ''/tmp/1.registry'',
      cert = ''CERT'', key = ''KEY'', listener = None, server = False\<rparr>"

definition listenFails :: env where
  "listenFails = noFault
     \<lparr>fault := (\<lambda>n. if n = 2 then Some (ErrFailed ''address already in use'') else None)\<rparr>"

definition shutdownFails :: env where
  "shutdownFails = noFault
     \<lparr>fault := (\<lambda>n. if n = 3 then Some (ErrFailed ''context deadline exceeded'') else None)\<rparr>"

definition tmpWorld :: world where
  "tmpWorld = emptyWorld\<lparr>fs := [''/var/lib/upgrade'' \<mapsto> Dir, ''/tmp/1.registry'' \<mapsto> Dir]\<rparr>"

text \<open>
  A creator for 4.13.4 on x86_64 and an environment for it: the release has the tags
  \<open>a\<close> and \<open>b\<close>, the registry listens on 127.0.0.1:5001, the three references are
  parsed as the distribution library parses them, and the metadata is rendered as its
  fields, the images last, separated by spaces. \<open>ParseNamed\<close> of the distribution
  library accepts a reference in canonical form only, that is, with its registry domain:
  it rejects \<open>img-a:1\<close> and \<open>img-b:1\<close>, whose canonical forms are
  \<open>docker.io/library/img-a:1\<close> and \<open>docker.io/library/img-b:1\<close>.
\<close>

definition sampleCreator :: BundleCreator where
  "sampleCreator =
     \<lparr>version = ''4.13.4'', arch = ''x86_64'', outputDir = ''/out'',
      pullSecret = ''/home/user/pull-secret.json''\<rparr>"

definition sampleParse :: "string \<Rightarrow> error + named_ref" where
  "sampleParse s =
     (if s = ''quay.io/openshift-release-dev/ocp-release@sha256:9f86d081884c7d659a2feaa0c55ad015a3bf4f1b2b0b822cd15d6c15b0f00a08''
      then Inr \<lparr>refPath = ''openshift-release-dev/ocp-release'', refTag = None,
                refDigestHex = Some ''9f86d081884c7d659a2feaa0c55ad015a3bf4f1b2b0b822cd15d6c15b0f00a08''\<rparr>
      else if s = ''quay.io/org/img-a:1''
      then Inr \<lparr>refPath = ''org/img-a'', refTag = Some ''1'', refDigestHex = None\<rparr>
      else if s = ''quay.io/org/img-b:1''
      then Inr \<lparr>refPath = ''org/img-b'', refTag = Some ''1'', refDigestHex = None\<rparr>
      else if s = ''img-a:1'' \<or> s = ''img-b:1''
      then Inl (ErrFailed ''repository name must be canonical'')
      else Inl (ErrFailed ''invalid reference format''))"

definition creatorEnv :: env where
  "creatorEnv = noFault
     \<lparr>strOut := (\<lambda>n. if n = 0 then ''/home/user/.cache''
                     else if n = 4 then ''sha256:9f86d081884c7d659a2feaa0c55ad015a3bf4f1b2b0b822cd15d6c15b0f00a08''
                     else if n = 6 then ''/tmp/1.registry''
                     else if n = 13 then ''127.0.0.1:5001''
                     else if n = 14 then ''/tmp/2.skopeo''
                     else ''bytes''),
      tagsOut := (\<lambda>n. [(''a'', ''quay.io/org/img-a:1''), (''b'', ''quay.io/org/img-b:1'')]),
      jsonMarshal := (\<lambda>m. strings_Join (Version m # Arch m # Release m # Images m) '' ''),
      parseNamed := sampleParse\<rparr>"

text \<open>The same environment in a run in which Go iterates over the map from its last entry.\<close>

definition creatorEnvRev :: env where
  "creatorEnvRev = creatorEnv\<lparr>mapOrder := rev\<rparr>"

text \<open>The same environment with a release whose tags have the references \<open>img-a:1\<close> and \<open>img-b:1\<close>.\<close>

definition creatorEnvShort :: env where
  "creatorEnvShort = creatorEnv\<lparr>tagsOut := (\<lambda>n. [(''a'', ''img-a:1''), (''b'', ''img-b:1'')])\<rparr>"

definition listeningRegistry :: Registry where
  "listeningRegistry = sampleRegistry\<lparr>listener := Some ''127.0.0.1:5001'', server := True\<rparr>"


section \<open>Basic facts\<close>

lemma andThen_Ok:
  "andThen m f w = (Ok y, w') \<longleftrightarrow> (\<exists>x w1. m w = (Ok x, w1) \<and> f x w1 = (Ok y, w'))"
  by (auto simp: andThen_def split: prod.splits res.splits)

lemma lift_Ok: "lift m w = (Ok u, w') \<longleftrightarrow> m w = (None, w')"
  by (auto simp: lift_def split: prod.splits option.splits)

lemmas prims = extern_def externStr_def record_call_def outcome_def returned_def
  os_Stat_def os_ReadFile_def os_WriteFile_def os_RemoveAll_def os_MkdirTemp_def net_Listen_def
  client_Get_def client_PatchLabels_def client_PatchAnnotation_def
  CreatePinConf_def RemovePinConf_def CreateMirrorConf_def RemoveMirrorConf_def
  ReloadService_def PullImage_def

lemma serveTLS_fields [simp]:
  "fs (serveTLS env w) = fs w" "pinConf (serveTLS env w) = pinConf w"
  "mirrorConf (serveTLS env w) = mirrorConf w" "storage (serveTLS env w) = storage w"
  "nodes (serveTLS env w) = nodes w" "trace (serveTLS env w) = trace w"
  "errlog (serveTLS env w) = errlog w"
  by (simp_all add: serveTLS_def split: option.splits)

lemma serveTLS_quiet [simp]: "serveOut env (length (trace w)) = None \<Longrightarrow> serveTLS env w = w"
  by (simp add: serveTLS_def)

section \<open>The loader against a missing bundle directory\<close>

text \<open>
  C6: when the bundle directory does not exist, the loader's run fails at once. The world
  it leaves is the world it found with one call added, the failed stat of the directory:
  no registry is built or started, the runtime configuration is not touched, no image is
  pulled and no label is set.
\<close>

theorem loader_missing_dir_fails:
  assumes "fs w (absolutePath l (bundleDir l)) = None"
  shows "\<exists>e r. BundleLoader_Run env l w =
           (Err e, w\<lparr>trace := trace w @ [(Os_Stat (absolutePath l (bundleDir l)), Some r)]\<rparr>)"
  using assms
  by (cases "fault env (length (trace w))")
     (auto simp: BundleLoader_Run_def checkBundleDir_def prims Let_def)

theorem loader_missing_dir_fails_witness:
  "fs emptyWorld (absolutePath sampleLoader (bundleDir sampleLoader)) = None
   \<and> (\<exists>e r. BundleLoader_Run noFault sampleLoader emptyWorld =
           (Err e, emptyWorld\<lparr>trace := [(Os_Stat ''/var/lib/upgrade'', Some r)]\<rparr>))"
  using loader_missing_dir_fails [of emptyWorld sampleLoader noFault]
  by (simp add: emptyWorld_def absolutePath_def sampleLoader_def)


section \<open>What each step leaves of the runtime configuration\<close>

lemma checkBundleDir_frame:
  "checkBundleDir env l w = (x, w') \<Longrightarrow> \<exists>r. w' = w\<lparr>trace := trace w @ [(Os_Stat (absolutePath l (bundleDir l)), r)]\<rparr>"
  by (auto simp: checkBundleDir_def prims Let_def split: if_splits)

lemma readMetadata_Ok:
  "readMetadata env l w = (Ok md, w') \<Longrightarrow>
     \<exists>data. fs w (metadataFile l) = Some (File data) \<and> jsonUnmarshal env data = Inr (Some md)
       \<and> w' = w\<lparr>trace := trace w @ [(Os_ReadFile (metadataFile l), None)]\<rparr>"
  by (auto simp: readMetadata_def prims split: option.splits fnode.splits sum.splits)

lemma reportProgress_conf:
  "pinConf (reportProgress env l t w) = pinConf w"
  "mirrorConf (reportProgress env l t w) = mirrorConf w"
  "fs (reportProgress env l t w) = fs w"
  by (auto simp: reportProgress_def prims Let_def split: option.splits)

lemma pullImages_conf:
  "pullImages env l i n refs w = (r, w') \<Longrightarrow>
     pinConf w' = pinConf w \<and> mirrorConf w' = mirrorConf w \<and> fs w' = fs w"
proof (induction refs arbitrary: i w)
  case Nil
  then show ?case by simp
next
  case (Cons ref refs)
  show ?case
  proof (cases "fault env (length (trace w))")
    case None
    with Cons.prems have
      "pullImages env l (i + 1) n refs
         (reportProgress env l (pulledMsg (i + 1) n) (snd (PullImage env ref w))) = (r, w')"
      by (simp add: prims)
    from Cons.IH [OF this] None show ?thesis
      by (simp add: reportProgress_conf prims)
  next
    case (Some e)
    with Cons.prems show ?thesis by (auto simp: prims)
  qed
qed

lemma populateCRIO_conf:
  "populateCRIO env l release refs w = (r, w') \<Longrightarrow>
     pinConf w' = pinConf w \<and> mirrorConf w' = mirrorConf w \<and> fs w' = fs w"
  by (cases "fault env (length (trace w))")
     (auto simp: populateCRIO_def prims reportProgress_conf dest!: pullImages_conf)

lemma makeSelfSignedCert_conf:
  "makeSelfSignedCert env a w = (r, w') \<Longrightarrow>
     pinConf w' = pinConf w \<and> mirrorConf w' = mirrorConf w \<and> fs w' = fs w"
  by (auto simp: makeSelfSignedCert_def prims split: option.splits prod.splits sum.splits)

lemma Build_conf:
  "RegistryBuilder_Build env a rt c k w = (r, w') \<Longrightarrow>
     pinConf w' = pinConf w \<and> mirrorConf w' = mirrorConf w"
  by (auto simp: RegistryBuilder_Build_def prims
      split: option.splits prod.splits sum.splits if_splits dest!: makeSelfSignedCert_conf)

lemma Start_conf:
  "Registry_Start env reg w = (r, reg', w') \<Longrightarrow>
     pinConf w' = pinConf w \<and> mirrorConf w' = mirrorConf w"
  by (auto simp: Registry_Start_def prims Let_def split: option.splits prod.splits sum.splits)

lemma startRegistry_conf:
  "startRegistry env l w = (r, w') \<Longrightarrow>
     pinConf w' = pinConf w \<and> mirrorConf w' = mirrorConf w"
  by (auto simp: startRegistry_def Let_def andThen_def Registry_Address_def
      split: option.splits prod.splits sum.splits dest!: Build_conf Start_conf)

lemma Registry_Address_frame: "Registry_Address reg w = (r, w') \<Longrightarrow> w' = w"
  by (auto simp: Registry_Address_def split: option.splits)

lemma configureCRIO_Ok:
  "configureCRIO env addr refs w = (None, w') \<Longrightarrow>
     pinConf w' = Some refs \<and> mirrorConf w' = Some (addr, refs)"
  by (auto simp: configureCRIO_def prims split: option.splits prod.splits)

lemma deconfigureCRIO_Ok:
  "deconfigureCRIO env w = (None, w') \<Longrightarrow> pinConf w' = pinConf w \<and> mirrorConf w' = None"
  by (auto simp: deconfigureCRIO_def prims split: option.splits prod.splits)

lemma Registry_Stop_conf:
  "Registry_Stop env reg w = (r, w') \<Longrightarrow>
     pinConf w' = pinConf w \<and> mirrorConf w' = mirrorConf w"
  by (auto simp: Registry_Stop_def prims split: option.splits prod.splits if_splits)

lemma deleteBundle_conf:
  "deleteBundle env l w = (r, w') \<Longrightarrow>
     pinConf w' = pinConf w \<and> mirrorConf w' = mirrorConf w"
  by (auto simp: deleteBundle_def prims split: option.splits prod.splits if_splits)

lemma writeResult_conf:
  "writeResult env name label w = (r, w') \<Longrightarrow>
     pinConf w' = pinConf w \<and> mirrorConf w' = mirrorConf w \<and> fs w' = fs w"
  by (auto simp: writeResult_def prims Let_def split: option.splits prod.splits if_splits)

lemma cleanBundleDir_conf:
  "cleanBundleDir env c w = (r, w') \<Longrightarrow>
     pinConf w' = pinConf w \<and> mirrorConf w' = mirrorConf w"
  by (auto simp: cleanBundleDir_def prims Let_def split: option.splits prod.splits if_splits)

lemma cleanCRIO_Ok:
  "cleanCRIO env w = (None, w') \<Longrightarrow> pinConf w' = None \<and> mirrorConf w' = None"
  by (auto simp: cleanCRIO_def prims split: option.splits prod.splits)

lemma loader_Ok_conf:
  assumes "BundleLoader_Run env l w = (Ok (), w')"
  shows "mirrorConf w' = None \<and>
    (\<exists>data md. fs w (metadataFile l) = Some (File data) \<and> jsonUnmarshal env data = Inr (Some md)
       \<and> pinConf w' = Some (Images md))"
proof -
  obtain x w1 where c: "checkBundleDir env l w = (x, w1)" by (cases "checkBundleDir env l w")
  from assms c obtain md w2 reg w3 addr w4 w5 w6 w7 w8 w9 where
    s: "readMetadata env l w1 = (Ok md, w2)" "startRegistry env l w2 = (Ok reg, w3)"
       "Registry_Address reg w3 = (Ok addr, w4)"
       "configureCRIO env addr (Images md) w4 = (None, w5)"
       "populateCRIO env l (Release md) (Images md) w5 = (None, w6)"
       "deconfigureCRIO env w6 = (None, w7)"
       "Registry_Stop env reg w7 = (Ok (), w8)"
       "deleteBundle env l w8 = (None, w9)"
       "BundleLoader_writeResult env l w9 = (None, w')"
    by (auto simp: BundleLoader_Run_def andThen_Ok lift_Ok split: prod.splits option.splits bool.splits)
  from checkBundleDir_frame [OF c] have f1: "fs w1 = fs w" by auto
  from readMetadata_Ok [OF s(1)] f1 obtain data where
    d: "fs w (metadataFile l) = Some (File data)" "jsonUnmarshal env data = Inr (Some md)"
    by auto
  have "pinConf w5 = Some (Images md)" using configureCRIO_Ok [OF s(4)] by simp
  then have "pinConf w6 = Some (Images md)" using populateCRIO_conf [OF s(5)] by simp
  then have "pinConf w7 = Some (Images md)" "mirrorConf w7 = None"
    using deconfigureCRIO_Ok [OF s(6)] by simp_all
  then have "pinConf w8 = Some (Images md)" "mirrorConf w8 = None"
    using Registry_Stop_conf [OF s(7)] by simp_all
  then have "pinConf w9 = Some (Images md)" "mirrorConf w9 = None"
    using deleteBundle_conf [OF s(8)] by simp_all
  then have "pinConf w' = Some (Images md)" "mirrorConf w' = None"
    using writeResult_conf [OF s(9) [unfolded BundleLoader_writeResult_def]] by simp_all
  with d show ?thesis by blast
qed

lemma cleaner_Ok_conf:
  assumes "BundleCleaner_Run env c w = (Ok (), w')"
  shows "mirrorConf w' = None \<and> pinConf w' = None"
proof -
  from assms obtain w1 w2 where
    s: "cleanBundleDir env c w = (None, w1)" "cleanCRIO env w1 = (None, w2)"
       "BundleCleaner_writeResult env c w2 = (None, w')"
    by (auto simp: BundleCleaner_Run_def andThen_Ok lift_Ok)
  from cleanCRIO_Ok [OF s(2)] writeResult_conf [OF s(3) [unfolded BundleCleaner_writeResult_def]]
  show ?thesis by simp
qed

section \<open>Runs in which no call fails\<close>

lemma dom_nodes_reportProgress:
  "dom (nodes (reportProgress env l t w)) = dom (nodes w)"
  by (auto simp: reportProgress_def prims Let_def split: option.splits if_splits)

lemma pullImages_succeeds:
  assumes nf: "\<And>k. fault env k = None"
  shows "\<exists>w'. pullImages env l i n refs w = (None, w') \<and> dom (nodes w') = dom (nodes w)"
proof (induction refs arbitrary: i w)
  case Nil
  show ?case by simp
next
  case (Cons ref refs)
  let ?w1 = "reportProgress env l (pulledMsg (i + 1) n) (snd (PullImage env ref w))"
  from Cons.IH [of "i + 1" ?w1] obtain w' where
    "pullImages env l (i + 1) n refs ?w1 = (None, w')" "dom (nodes w') = dom (nodes ?w1)"
    by blast
  then show ?case
    by (simp add: nf prims dom_nodes_reportProgress)
qed

lemma populateCRIO_succeeds:
  assumes nf: "\<And>k. fault env k = None"
  shows "\<exists>w'. populateCRIO env l release refs w = (None, w') \<and> dom (nodes w') = dom (nodes w)"
proof -
  let ?w1 = "reportProgress env l ''Pulled release image'' (snd (PullImage env release w))"
  from pullImages_succeeds [OF nf, of l 0 "length refs" refs ?w1] obtain w' where
    "pullImages env l 0 (length refs) refs ?w1 = (None, w')" "dom (nodes w') = dom (nodes ?w1)"
    by blast
  then show ?thesis
    by (simp add: populateCRIO_def nf prims dom_nodes_reportProgress)
qed

lemma makeSelfSignedCert_succeeds:
  assumes nf: "\<And>k. fault env k = None"
  shows "\<exists>ck w'. makeSelfSignedCert env a w = (Inr ck, w') \<and> nodes w' = nodes w \<and> fs w' = fs w"
  by (simp add: makeSelfSignedCert_def nf prims)

lemma Build_succeeds:
  assumes nf: "\<And>k. fault env k = None"
    and "a \<noteq> []" "rt \<noteq> []"
    and "fs w (strOut env (length (trace w))) = None"
  shows "\<exists>reg w'. RegistryBuilder_Build env a rt None None w = (Inr reg, w') \<and> nodes w' = nodes w
           \<and> tmp reg = strOut env (length (trace w)) \<and> root reg = rt"
proof -
  let ?w1 = "(record_call (Os_MkdirTemp [] ''*.registry'') None w)\<lparr>fs := (fs w)(returned env w \<mapsto> Dir)\<rparr>"
  have m: "os_MkdirTemp env [] ''*.registry'' w = (Inr (strOut env (length (trace w))), ?w1)"
    using assms(4) by (simp add: os_MkdirTemp_def nf outcome_def returned_def)
  from makeSelfSignedCert_succeeds [OF nf, of a ?w1] obtain c k w2 where
    "makeSelfSignedCert env a ?w1 = (Inr (c, k), w2)" "nodes w2 = nodes ?w1" by auto
  then show ?thesis
    using assms(2,3) by (simp add: RegistryBuilder_Build_def m record_call_def)
qed

lemma Start_succeeds:
  assumes nf: "\<And>k. fault env k = None"
  shows "\<exists>reg' w'. Registry_Start env reg w = (None, reg', w') \<and> nodes w' = nodes w
           \<and> server reg' \<and> listener reg' \<noteq> None \<and> tmp reg' = tmp reg \<and> root reg' = root reg"
  by (simp add: Registry_Start_def nf prims Let_def)

lemma startRegistry_succeeds:
  assumes nf: "\<And>k. fault env k = None"
    and "absolutePath l (bundleDir l) \<noteq> []"
    and "fs w (strOut env (length (trace w))) = None"
  shows "\<exists>reg w'. startRegistry env l w = (Ok reg, w') \<and> nodes w' = nodes w
           \<and> server reg \<and> listener reg \<noteq> None
           \<and> tmp reg = strOut env (length (trace w)) \<and> root reg = absolutePath l (bundleDir l)"
proof -
  from Build_succeeds [OF nf _ assms(2,3), of "''localhost:0''"] obtain reg w1 where
    b: "RegistryBuilder_Build env ''localhost:0'' (absolutePath l (bundleDir l)) None None w = (Inr reg, w1)"
       "nodes w1 = nodes w" "tmp reg = strOut env (length (trace w))" "root reg = absolutePath l (bundleDir l)"
    by auto
  from Start_succeeds [OF nf, of reg w1] obtain reg' w2 where
    s: "Registry_Start env reg w1 = (None, reg', w2)" "nodes w2 = nodes w1" "server reg'"
       "listener reg' \<noteq> None" "tmp reg' = tmp reg" "root reg' = root reg"
    by auto
  show ?thesis
    using b s by (auto simp: startRegistry_def Let_def andThen_def Registry_Address_def)
qed

lemma configureCRIO_succeeds:
  assumes nf: "\<And>k. fault env k = None"
  shows "\<exists>w'. configureCRIO env addr refs w = (None, w') \<and> nodes w' = nodes w"
  by (simp add: configureCRIO_def nf prims)

lemma deconfigureCRIO_succeeds:
  assumes nf: "\<And>k. fault env k = None"
  shows "\<exists>w'. deconfigureCRIO env w = (None, w') \<and> nodes w' = nodes w"
  by (simp add: deconfigureCRIO_def nf prims)

lemma Registry_Stop_succeeds:
  assumes nf: "\<And>k. fault env k = None" and "server reg"
  shows "\<exists>w'. Registry_Stop env reg w = (Ok (), w') \<and> nodes w' = nodes w"
  using assms(2) by (simp add: Registry_Stop_def nf prims)

lemma deleteBundle_succeeds:
  assumes nf: "\<And>k. fault env k = None"
  shows "\<exists>w'. deleteBundle env l w = (None, w') \<and> nodes w' = nodes w"
  by (simp add: deleteBundle_def nf prims)

lemma writeResult_succeeds:
  assumes nf: "\<And>k. fault env k = None" and "nodes w name \<noteq> None"
  shows "\<exists>w'. writeResult env name label w = (None, w')"
  using assms(2) by (auto simp: writeResult_def nf prims Let_def)

lemma cleanBundleDir_succeeds:
  assumes nf: "\<And>k. fault env k = None"
  shows "\<exists>w'. cleanBundleDir env c w = (None, w') \<and> nodes w' = nodes w"
  by (simp add: cleanBundleDir_def nf prims Let_def)

lemma cleanCRIO_succeeds:
  assumes nf: "\<And>k. fault env k = None"
  shows "\<exists>w'. cleanCRIO env w = (None, w') \<and> nodes w' = nodes w"
  by (simp add: cleanCRIO_def nf prims)

lemma andThen_OkI: "m w = (Ok x, w1) \<Longrightarrow> f x w1 = z \<Longrightarrow> andThen m f w = z"
  by (simp add: andThen_def)

lemma lift_OkI: "m w = (None, w1) \<Longrightarrow> lift m w = (Ok (), w1)"
  by (simp add: lift_def)

lemma loader_succeeds:
  assumes nf: "\<And>k. fault env k = None"
    and dir: "fs w (absolutePath l (bundleDir l)) \<noteq> None" "absolutePath l (bundleDir l) \<noteq> []"
    and md: "fs w (metadataFile l) = Some (File data)" "jsonUnmarshal env data = Inr (Some md)"
    and fresh: "fs w (strOut env (length (trace w) + 2)) = None"
    and nd: "nodes w (node l) \<noteq> None"
  shows "\<exists>w'. BundleLoader_Run env l w = (Ok (), w')"
proof -
  let ?w1 = "w\<lparr>trace := trace w @ [(Os_Stat (absolutePath l (bundleDir l)), None)]\<rparr>"
  let ?w2 = "?w1\<lparr>trace := trace ?w1 @ [(Os_ReadFile (metadataFile l), None)]\<rparr>"
  have c: "checkBundleDir env l w = ((True, None), ?w1)"
    using dir(1) by (auto simp: checkBundleDir_def nf prims Let_def)
  have r: "readMetadata env l ?w1 = (Ok md, ?w2)"
    using md by (simp add: readMetadata_def nf prims)
  have "fs ?w2 (strOut env (length (trace ?w2))) = None" using fresh by simp
  from startRegistry_succeeds [OF nf dir(2) this] obtain reg w3 where
    s: "startRegistry env l ?w2 = (Ok reg, w3)" "nodes w3 = nodes w" "server reg" "listener reg \<noteq> None"
    by auto
  from s(4) obtain addr where a: "Registry_Address reg w3 = (Ok addr, w3)"
    by (auto simp: Registry_Address_def)
  from configureCRIO_succeeds [OF nf, of addr "Images md" w3] obtain w5 where
    cf: "configureCRIO env addr (Images md) w3 = (None, w5)" "nodes w5 = nodes w3" by blast
  from populateCRIO_succeeds [OF nf, of l "Release md" "Images md" w5] obtain w6 where
    pp: "populateCRIO env l (Release md) (Images md) w5 = (None, w6)"
        "dom (nodes w6) = dom (nodes w5)" by blast
  from deconfigureCRIO_succeeds [OF nf, of w6] obtain w7 where
    dc: "deconfigureCRIO env w6 = (None, w7)" "nodes w7 = nodes w6" by blast
  from Registry_Stop_succeeds [OF nf s(3), of w7] obtain w8 where
    st: "Registry_Stop env reg w7 = (Ok (), w8)" "nodes w8 = nodes w7" by blast
  from deleteBundle_succeeds [OF nf, of l w8] obtain w9 where
    db: "deleteBundle env l w8 = (None, w9)" "nodes w9 = nodes w8" by blast
  have "node l \<in> dom (nodes w9)" using nd s(2) cf(2) pp(2) dc(2) st(2) db(2) by auto
  then have "nodes w9 (node l) \<noteq> None" by auto
  from writeResult_succeeds [OF nf this, of labels_BundleLoaded] obtain w' where
    wr: "BundleLoader_writeResult env l w9 = (None, w')"
    by (auto simp: BundleLoader_writeResult_def)
  have "BundleLoader_Run env l w = (Ok (), w')"
    using c r s(1) a cf(1) pp(1) dc(1) st(1) db(1) wr
    by (simp add: BundleLoader_Run_def andThen_def lift_def)
  then show ?thesis ..
qed

lemma cleaner_succeeds:
  assumes nf: "\<And>k. fault env k = None" and nd: "nodes w (node c) \<noteq> None"
  shows "\<exists>w'. BundleCleaner_Run env c w = (Ok (), w')"
proof -
  from cleanBundleDir_succeeds [OF nf, of c w] obtain w1 where
    a: "cleanBundleDir env c w = (None, w1)" "nodes w1 = nodes w" by blast
  from cleanCRIO_succeeds [OF nf, of w1] obtain w2 where
    b: "cleanCRIO env w1 = (None, w2)" "nodes w2 = nodes w1" by blast
  have "nodes w2 (node c) \<noteq> None" using nd a(2) b(2) by simp
  from writeResult_succeeds [OF nf this, of labels_BundleCleaned] obtain w' where
    wr: "BundleCleaner_writeResult env c w2 = (None, w')"
    by (auto simp: BundleCleaner_writeResult_def)
  have "BundleCleaner_Run env c w = (Ok (), w')"
    using a(1) b(1) wr by (simp add: BundleCleaner_Run_def andThen_def lift_def)
  then show ?thesis ..
qed

lemma writeResult_present:
  "writeResult env name label w = (None, w') \<Longrightarrow> nodes w' name \<noteq> None"
  by (auto simp: writeResult_def prims Let_def split: option.splits if_splits)

lemma loader_Ok_present:
  assumes "BundleLoader_Run env l w = (Ok (), w')"
  shows "nodes w' (node l) \<noteq> None"
proof -
  from assms obtain w9 where "BundleLoader_writeResult env l w9 = (None, w')"
    by (auto simp: BundleLoader_Run_def andThen_Ok lift_Ok
        split: prod.splits option.splits bool.splits)
  then show ?thesis
    by (auto simp: BundleLoader_writeResult_def dest: writeResult_present)
qed

lemma sample_load_succeeds:
  "\<exists>w1. BundleLoader_Run loaderEnv sampleLoader bundleWorld = (Ok (), w1)"
  by (rule loader_succeeds [where data = "''metadata of 4.13.4-x86_64''" and md = sampleMetadata])
     (simp_all add: loaderEnv_def noFault_def bundleWorld_def emptyWorld_def
        sampleLoader_def absolutePath_def metadataFile_def Join_def Clean_def)

section \<open>The runtime configuration after a load and after a clean\<close>

lemma reportProgress_storage: "storage (reportProgress env l t w) = storage w"
  by (auto simp: reportProgress_def prims Let_def split: option.splits)

lemma pullImages_storage:
  "pullImages env l i n refs w = (None, w') \<Longrightarrow> storage w' = storage w @ refs"
proof (induction refs arbitrary: i w)
  case Nil
  then show ?case by simp
next
  case (Cons ref refs)
  show ?case
  proof (cases "fault env (length (trace w))")
    case None
    with Cons.prems have
      "pullImages env l (i + 1) n refs
         (reportProgress env l (pulledMsg (i + 1) n) (snd (PullImage env ref w))) = (None, w')"
      by (simp add: prims)
    from Cons.IH [OF this] None show ?thesis
      by (simp add: reportProgress_storage prims)
  next
    case (Some e)
    with Cons.prems show ?thesis by (auto simp: prims)
  qed
qed

lemma populateCRIO_storage:
  "populateCRIO env l release refs w = (None, w') \<Longrightarrow> storage w' = storage w @ release # refs"
  by (cases "fault env (length (trace w))")
     (auto simp: populateCRIO_def prims reportProgress_storage dest!: pullImages_storage)

lemma startRegistry_storage: "startRegistry env l w = (r, w') \<Longrightarrow> storage w' = storage w"
  by (auto simp: startRegistry_def RegistryBuilder_Build_def makeSelfSignedCert_def
      Registry_Start_def Let_def andThen_def Registry_Address_def prims
      split: option.splits prod.splits sum.splits if_splits)

lemma configureCRIO_storage: "configureCRIO env addr refs w = (r, w') \<Longrightarrow> storage w' = storage w"
  by (auto simp: configureCRIO_def prims split: option.splits prod.splits)

lemma deconfigureCRIO_storage: "deconfigureCRIO env w = (r, w') \<Longrightarrow> storage w' = storage w"
  by (auto simp: deconfigureCRIO_def prims split: option.splits prod.splits)

lemma Registry_Stop_storage: "Registry_Stop env reg w = (r, w') \<Longrightarrow> storage w' = storage w"
  by (auto simp: Registry_Stop_def prims split: option.splits prod.splits if_splits)

lemma deleteBundle_storage: "deleteBundle env l w = (r, w') \<Longrightarrow> storage w' = storage w"
  by (auto simp: deleteBundle_def prims split: option.splits prod.splits if_splits)

lemma writeResult_storage: "writeResult env name label w = (r, w') \<Longrightarrow> storage w' = storage w"
  by (auto simp: writeResult_def prims Let_def split: option.splits prod.splits if_splits)

lemma loader_Ok_storage:
  assumes "BundleLoader_Run env l w = (Ok (), w')"
  shows "\<exists>data md. fs w (metadataFile l) = Some (File data) \<and>
           jsonUnmarshal env data = Inr (Some md) \<and>
           storage w' = storage w @ Release md # Images md"
proof -
  obtain x w1 where c: "checkBundleDir env l w = (x, w1)" by (cases "checkBundleDir env l w")
  from assms c obtain md w2 reg w3 addr w4 w5 w6 w7 w8 w9 where
    s: "readMetadata env l w1 = (Ok md, w2)" "startRegistry env l w2 = (Ok reg, w3)"
       "Registry_Address reg w3 = (Ok addr, w4)"
       "configureCRIO env addr (Images md) w4 = (None, w5)"
       "populateCRIO env l (Release md) (Images md) w5 = (None, w6)"
       "deconfigureCRIO env w6 = (None, w7)"
       "Registry_Stop env reg w7 = (Ok (), w8)"
       "deleteBundle env l w8 = (None, w9)"
       "BundleLoader_writeResult env l w9 = (None, w')"
    by (auto simp: BundleLoader_Run_def andThen_Ok lift_Ok split: prod.splits option.splits bool.splits)
  from checkBundleDir_frame [OF c] have f1: "fs w1 = fs w" "storage w1 = storage w" by auto
  from readMetadata_Ok [OF s(1)] f1 obtain data where
    d: "fs w (metadataFile l) = Some (File data)" "jsonUnmarshal env data = Inr (Some md)"
       "storage w2 = storage w"
    by auto
  have "storage w' = storage w @ Release md # Images md"
    using d(3) startRegistry_storage [OF s(2)] Registry_Address_frame [OF s(3)]
      configureCRIO_storage [OF s(4)] populateCRIO_storage [OF s(5)]
      deconfigureCRIO_storage [OF s(6)] Registry_Stop_storage [OF s(7)]
      deleteBundle_storage [OF s(8)]
      writeResult_storage [OF s(9) [unfolded BundleLoader_writeResult_def]]
    by simp
  with d show ?thesis by blast
qed

lemma sample_load_files:
  "fs bundleWorld (metadataFile sampleLoader) = Some (File ''metadata of 4.13.4-x86_64'')"
  "jsonUnmarshal loaderEnv ''metadata of 4.13.4-x86_64'' = Inr (Some sampleMetadata)"
  "storage bundleWorld = []"
  by (simp_all add: loaderEnv_def noFault_def bundleWorld_def emptyWorld_def sampleLoader_def
      absolutePath_def metadataFile_def Join_def Clean_def)

text \<open>
  C4 (amended): after a successful run of the loader the mirror entry is absent, the pin
  entry holds the images of the list in the bundle's metadata (the list read from
  \<open>metadata.json\<close>, the payload images) and nothing else, and the runtime's storage has
  received the release image and then those images: the release image is pulled but it
  is not pinned. After a successful run of the cleaner the mirror entry and the pin
  entry are both absent.
\<close>

theorem configuration_after_load_and_clean:
  "(BundleLoader_Run env l w = (Ok (), w') \<longrightarrow>
      mirrorConf w' = None \<and>
      (\<exists>data md. fs w (metadataFile l) = Some (File data) \<and>
         jsonUnmarshal env data = Inr (Some md) \<and> pinConf w' = Some (Images md) \<and>
         storage w' = storage w @ Release md # Images md))
   \<and> (BundleCleaner_Run env c w = (Ok (), w') \<longrightarrow> mirrorConf w' = None \<and> pinConf w' = None)"
  using loader_Ok_conf [of env l w w'] loader_Ok_storage [of env l w w']
    cleaner_Ok_conf [of env c w w']
  by fastforce

theorem configuration_after_load_and_clean_witness:
  "\<exists>w1 w2. BundleLoader_Run loaderEnv sampleLoader bundleWorld = (Ok (), w1)
     \<and> mirrorConf w1 = None
     \<and> pinConf w1 = Some [''quay.io/org/img-a:1'', ''quay.io/org/img-b:1'']
     \<and> storage w1 =
         [''quay.io/openshift-release-dev/ocp-release@sha256:9f86d081884c7d659a2feaa0c55ad015a3bf4f1b2b0b822cd15d6c15b0f00a08'',
          ''quay.io/org/img-a:1'', ''quay.io/org/img-b:1'']
     \<and> BundleCleaner_Run noFault sampleLoader w1 = (Ok (), w2)
     \<and> mirrorConf w2 = None \<and> pinConf w2 = None"
proof -
  have nf: "\<And>k. fault noFault k = None" by (simp add: noFault_def)
  from sample_load_succeeds obtain w1 where
    r1: "BundleLoader_Run loaderEnv sampleLoader bundleWorld = (Ok (), w1)" ..
  from loader_Ok_present [OF r1] cleaner_succeeds [OF nf, of w1 sampleLoader]
  obtain w2 where r2: "BundleCleaner_Run noFault sampleLoader w1 = (Ok (), w2)" by blast
  from configuration_after_load_and_clean [of loaderEnv sampleLoader bundleWorld w1] r1
  have a: "mirrorConf w1 = None" "pinConf w1 = Some [''quay.io/org/img-a:1'', ''quay.io/org/img-b:1'']"
    "storage w1 =
         [''quay.io/openshift-release-dev/ocp-release@sha256:9f86d081884c7d659a2feaa0c55ad015a3bf4f1b2b0b822cd15d6c15b0f00a08'',
          ''quay.io/org/img-a:1'', ''quay.io/org/img-b:1'']"
    by (auto simp: sample_load_files sampleMetadata_def)
  from configuration_after_load_and_clean [of noFault sampleLoader w1 w2 sampleLoader] r2
  have b: "mirrorConf w2 = None" "pinConf w2 = None" by auto
  from r1 r2 a b show ?thesis by (intro exI [of _ w1] exI [of _ w2] conjI)
qed

text \<open>
  C4 as stated fails. The sample load pulls the release image and the two images of the
  list into the runtime's storage, and the pin entry it leaves holds the two images of
  the list only.
\<close>

theorem release_image_not_pinned:
  "fst (BundleLoader_Run loaderEnv sampleLoader bundleWorld) = Ok () \<and>
   storage (snd (BundleLoader_Run loaderEnv sampleLoader bundleWorld)) =
     [''quay.io/openshift-release-dev/ocp-release@sha256:9f86d081884c7d659a2feaa0c55ad015a3bf4f1b2b0b822cd15d6c15b0f00a08'',
      ''quay.io/org/img-a:1'', ''quay.io/org/img-b:1''] \<and>
   pinConf (snd (BundleLoader_Run loaderEnv sampleLoader bundleWorld)) =
     Some [''quay.io/org/img-a:1'', ''quay.io/org/img-b:1''] \<and>
   mirrorConf (snd (BundleLoader_Run loaderEnv sampleLoader bundleWorld)) = None"
proof -
  from sample_load_succeeds obtain w' where
    r: "BundleLoader_Run loaderEnv sampleLoader bundleWorld = (Ok (), w')" ..
  from loader_Ok_storage [OF r] loader_Ok_conf [OF r] show ?thesis
    unfolding r sample_load_files by (auto simp: sample_load_files sampleMetadata_def)
qed

section \<open>The cleaner run twice\<close>

lemma applyPatch_mergeFrom: "applyPatch (mergeFrom a b) a = b"
  by (rule ext) (simp add: applyPatch_def mergeFrom_def)

lemma removeTree_idem: "removeTree d (removeTree d f) = removeTree d f"
  by (rule ext) (simp add: removeTree_def)

lemma removeTree_commute: "removeTree d (removeTree e f) = removeTree e (removeTree d f)"
  by (rule ext) (simp add: removeTree_def)

lemma cleaner_run_noFault:
  assumes nf: "\<And>k. fault env k = None" and nd: "nodes w (node c) = Some obj"
  shows "BundleCleaner_Run env c w = (Ok (), cleaned c obj w)"
  using nd
  by (simp add: BundleCleaner_Run_def andThen_def lift_def cleanBundleDir_def cleanCRIO_def
      BundleCleaner_writeResult_def writeResult_def nf prims Let_def applyPatch_mergeFrom cleaned_def)

text \<open>
  C7: when no external call fails and the node exists, the cleaner run twice in a row on
  the same node and bundle directory succeeds both times, and the second run leaves the
  file system, the runtime configuration, the runtime's storage, the cluster store and
  the error log exactly as the first run left them.
\<close>

theorem cleaner_idempotent:
  assumes nf: "\<And>k. fault env k = None" and nd: "nodes w (node c) \<noteq> None"
  shows "\<exists>w1 w2. BundleCleaner_Run env c w = (Ok (), w1) \<and> BundleCleaner_Run env c w1 = (Ok (), w2)
           \<and> fs w2 = fs w1 \<and> pinConf w2 = pinConf w1 \<and> mirrorConf w2 = mirrorConf w1
           \<and> storage w2 = storage w1 \<and> nodes w2 = nodes w1 \<and> errlog w2 = errlog w1"
proof -
  from nd obtain obj where o: "nodes w (node c) = Some obj" by auto
  let ?obj1 = "obj\<lparr>labels := (labels obj)(labels_BundleCleaned \<mapsto> ''true'')\<rparr>"
  let ?w1 = "cleaned c obj w"
  have r1: "BundleCleaner_Run env c w = (Ok (), ?w1)" by (rule cleaner_run_noFault [OF nf o])
  have "nodes ?w1 (node c) = Some ?obj1" by (simp add: cleaned_def)
  from cleaner_run_noFault [OF nf this]
  have r2: "BundleCleaner_Run env c ?w1 = (Ok (), cleaned c ?obj1 ?w1)" .
  have "fs (cleaned c ?obj1 ?w1) = fs ?w1"
    by (simp add: cleaned_def removeTree_idem removeTree_commute [of "absolutePath c (bundleDir c)"])
  moreover have "nodes (cleaned c ?obj1 ?w1) = nodes ?w1" by (simp add: cleaned_def)
  ultimately show ?thesis using r1 r2 by (auto simp: cleaned_def)
qed

theorem cleaner_idempotent_witness:
  "(\<forall>k. fault noFault k = None) \<and> nodes bundleWorld (node sampleLoader) \<noteq> None
   \<and> (\<exists>w1 w2. BundleCleaner_Run noFault sampleLoader bundleWorld = (Ok (), w1)
         \<and> BundleCleaner_Run noFault sampleLoader w1 = (Ok (), w2)
         \<and> fs w2 = fs w1 \<and> pinConf w2 = pinConf w1 \<and> mirrorConf w2 = mirrorConf w1
         \<and> storage w2 = storage w1 \<and> nodes w2 = nodes w1 \<and> errlog w2 = errlog w1)"
  using cleaner_idempotent [of noFault bundleWorld sampleLoader]
  by (simp add: noFault_def bundleWorld_def emptyWorld_def sampleLoader_def)

section \<open>Stopping the registry\<close>

lemma Build_fresh:
  "RegistryBuilder_Build env a rt c k w = (Inr reg, w') \<Longrightarrow> \<not> server reg \<and> listener reg = None"
  by (auto simp: RegistryBuilder_Build_def split: if_splits prod.splits sum.splits option.splits)

lemma Registry_Start_Ok:
  "Registry_Start env r w = (None, r', w') \<Longrightarrow>
     server r' \<and> listener r' \<noteq> None \<and> tmp r' = tmp r \<and> root r' = root r"
  by (auto simp: Registry_Start_def Let_def split: prod.splits option.splits sum.splits)

lemma Registry_Start_failed:
  "Registry_Start env r w = (Some e, r', w') \<Longrightarrow> server r' = server r"
  by (auto simp: Registry_Start_def Let_def split: prod.splits option.splits sum.splits)

lemma stop_after_failed_start:
  "\<not> server r \<Longrightarrow> Registry_Start env r w = (Some e, r', w') \<Longrightarrow>
     Registry_Stop env' r' w'' = (Panic, w'')"
  by (auto simp: Registry_Stop_def dest: Registry_Start_failed)

text \<open>
  C3, as the code has it: on a registry whose \<open>Start\<close> succeeded, a \<open>Stop\<close> that
  succeeds leaves no path in or below the private temporary directory and every other
  path, the data root among them, as it was; and when the shutdown fails, \<open>Stop\<close>
  returns that error having made no other call, so the directory stays.
\<close>

theorem registry_stop_after_start:
  assumes "Registry_Start env0 r0 w0 = (None, r, w1)" and "tmp r \<noteq> []"
  shows "(Registry_Stop env r w = (Ok (), w') \<longrightarrow>
            (\<forall>p. under (tmp r) p \<longrightarrow> fs w' p = None) \<and>
            (\<forall>p. \<not> under (tmp r) p \<longrightarrow> fs w' p = fs w p))
       \<and> (\<forall>e. fault env (length (trace w)) = Some e \<longrightarrow>
            Registry_Stop env r w = (Err e, w\<lparr>trace := trace w @ [(Server_Shutdown, Some e)]\<rparr>))"
  using Registry_Start_Ok [OF assms(1)] assms(2)
  by (auto simp: Registry_Stop_def prims removeTree_def split: option.splits if_splits)

theorem registry_stop_after_start_witness:
  "\<exists>r w1 w'. Registry_Start noFault sampleRegistry tmpWorld = (None, r, w1) \<and> tmp r \<noteq> []
     \<and> Registry_Stop noFault r w1 = (Ok (), w')
     \<and> fs w1 ''/tmp/1.registry/tls.key'' = Some (File ''KEY'')
     \<and> fs w' ''/tmp/1.registry/tls.key'' = None \<and> fs w' ''/tmp/1.registry'' = None
     \<and> fs w' ''/var/lib/upgrade'' = Some Dir
     \<and> (\<exists>e. Registry_Stop shutdownFails r w1 =
            (Err e, w1\<lparr>trace := trace w1 @ [(Server_Shutdown, Some e)]\<rparr>))"
proof -
  obtain r w1 where s: "Registry_Start noFault sampleRegistry tmpWorld = (None, r, w1)"
    and t: "tmp r = ''/tmp/1.registry''" and f: "fs w1 ''/tmp/1.registry/tls.key'' = Some (File ''KEY'')"
    and w1: "fs w1 ''/var/lib/upgrade'' = Some Dir" "length (trace w1) = 3"
    by (simp add: Registry_Start_def prims Let_def noFault_def sampleRegistry_def tmpWorld_def
        emptyWorld_def Join_def Clean_def)
  obtain w' where st: "Registry_Stop noFault r w1 = (Ok (), w')"
    using Registry_Start_Ok [OF s]
    by (simp add: Registry_Stop_def prims noFault_def)
  from registry_stop_after_start [OF s, of noFault w1 w'] t st
  have a: "fs w' ''/tmp/1.registry/tls.key'' = None" "fs w' ''/tmp/1.registry'' = None"
     "fs w' ''/var/lib/upgrade'' = fs w1 ''/var/lib/upgrade''"
    by (simp_all add: under_def)
  from registry_stop_after_start [OF s, of shutdownFails w1 w'] t w1(2)
  have b: "\<exists>e. Registry_Stop shutdownFails r w1 =
            (Err e, w1\<lparr>trace := trace w1 @ [(Server_Shutdown, Some e)]\<rparr>)"
    by (simp add: shutdownFails_def noFault_def)
  from s t st f a w1 b show ?thesis by auto
qed

text \<open>
  C3 as stated fails: a \<open>Start\<close> whose listener cannot bind has written the TLS
  material and created no server; \<open>Stop\<close> on that registry panics, and the key file
  is still in the temporary directory.
\<close>

theorem registry_stop_after_failed_start:
  "fst (Registry_Start listenFails sampleRegistry tmpWorld) = Some (ErrFailed ''address already in use'')
   \<and> Registry_Stop noFault (fst (snd (Registry_Start listenFails sampleRegistry tmpWorld)))
        (snd (snd (Registry_Start listenFails sampleRegistry tmpWorld)))
      = (Panic, snd (snd (Registry_Start listenFails sampleRegistry tmpWorld)))
   \<and> fs (snd (snd (Registry_Start listenFails sampleRegistry tmpWorld))) ''/tmp/1.registry/tls.key''
      = Some (File ''KEY'')"
  by (simp add: Registry_Start_def Registry_Stop_def prims Let_def listenFails_def noFault_def
      sampleRegistry_def tmpWorld_def emptyWorld_def Join_def Clean_def)

section \<open>The calls of a load\<close>

lemma segR_andThen:
  assumes "segR T1 m" and "\<And>x. segR T2 (f x)"
    and "\<And>a la b lb x r. T1 a la (Ok x) \<Longrightarrow> T2 b lb r \<Longrightarrow> T (a @ b) (la @ lb) r"
    and "\<And>a la e. T1 a la (Err e) \<Longrightarrow> T a la (Err e)"
    and "\<And>a la. T1 a la Panic \<Longrightarrow> T a la Panic"
  shows "segR T (andThen m f)"
  unfolding segR_def
proof (intro allI impI)
  fix w r w'
  assume run: "andThen m f w = (r, w')"
  obtain r1 w1 where m: "m w = (r1, w1)" by (cases "m w")
  with assms(1) obtain a la where
    a: "trace w1 = trace w @ a" "errlog w1 = errlog w @ la" "T1 a la r1"
    unfolding segR_def by blast
  show "\<exists>tr lg. trace w' = trace w @ tr \<and> errlog w' = errlog w @ lg \<and> T tr lg r"
  proof (cases r1)
    case (Ok x)
    with run m have "f x w1 = (r, w')" by (simp add: andThen_def)
    with assms(2) [of x] obtain b lb where
      b: "trace w' = trace w1 @ b" "errlog w' = errlog w1 @ lb" "T2 b lb r"
      unfolding segR_def by blast
    from assms(3) [OF a(3) [unfolded Ok] b(3)] a b show ?thesis by auto
  next
    case (Err e)
    with run m have "r = Err e" "w' = w1" by (simp_all add: andThen_def)
    with assms(4) a Err show ?thesis by auto
  next
    case Panic
    with run m have "r = Panic" "w' = w1" by (simp_all add: andThen_def)
    with assms(5) a Panic show ?thesis by auto
  qed
qed

lemma segR_weaken: "segR T m \<Longrightarrow> (\<And>tr lg r. T tr lg r \<Longrightarrow> T' tr lg r) \<Longrightarrow> segR T' m"
  unfolding segR_def by blast

lemma all_of_butlast_last:
  "(\<forall>x\<in>set (butlast xs). P x) \<Longrightarrow> (xs \<noteq> [] \<Longrightarrow> P (last xs)) \<Longrightarrow> \<forall>x\<in>set xs. P x"
  by (cases xs rule: rev_cases) auto

lemma plain_Ok_all: "plain tr lg (Ok x) \<Longrightarrow> \<forall>y\<in>set tr. snd y = None"
  unfolding plain_def by (rule all_of_butlast_last) auto

lemma plain_append:
  assumes "plain a la (Ok x)" and "plain b lb r"
  shows "plain (a @ b) (la @ lb) r"
proof -
  from plain_Ok_all [OF assms(1)] have ok: "\<forall>y\<in>set a. snd y = None" .
  from assms show ?thesis
    using ok by (cases b rule: rev_cases) (auto simp: plain_def butlast_append)
qed

lemma plain_andThen:
  assumes "segR plain m" and "\<And>x. segR plain (f x)"
  shows "segR plain (andThen m f)"
  apply (rule segR_andThen [OF assms(1) assms(2)])
    apply (erule (1) plain_append)
   apply (simp_all add: plain_def)
  done

text \<open>The steps of the loader other than the pulls.\<close>

lemma segR_I:
  assumes "\<And>w r w'. m w = (r, w') \<Longrightarrow> \<exists>tr. trace w' = trace w @ tr \<and> errlog w' = errlog w \<and> T tr [] r"
  shows "segR T m"
  unfolding segR_def using assms by fastforce



lemma plain_makeSelfSignedCert: "segR plain (liftV (makeSelfSignedCert env a))"
  by (rule segR_I)
     (auto simp: liftV_def makeSelfSignedCert_def prims plain_def split: option.splits)

lemma plain_os_MkdirTemp: "segR plain (liftV (os_MkdirTemp env d p))"
  by (rule segR_I) (auto simp: liftV_def prims plain_def split: option.splits if_splits)

lemma plain_Registry_Start:
  "segR plain (\<lambda>w. case Registry_Start env reg w of
                     (Some e, reg', w') \<Rightarrow> (Err e, w') | (None, reg', w') \<Rightarrow> (Ok reg', w'))"
  by (rule segR_I)
     (auto simp: Registry_Start_def prims plain_def Let_def split: option.splits)

lemma plain_return: "segR plain (\<lambda>w. (r, w))"
  by (rule segR_I) (auto simp: plain_def)

lemma Build_as_andThen:
  "liftV (RegistryBuilder_Build env a rt None None) =
     (if a = [] then (\<lambda>w. (Err (ErrMandatory ''address is mandatory''), w))
      else if rt = [] then (\<lambda>w. (Err (ErrMandatory ''root is mandatory''), w))
      else andThen (liftV (os_MkdirTemp env [] ''*.registry'')) (\<lambda>t.
           andThen (liftV (makeSelfSignedCert env a)) (\<lambda>ck w.
             (Ok \<lparr>address = a, root = rt, tmp = t, cert = fst ck, key = snd ck,
                  listener = None, server = False\<rparr>, w))))"
  by (rule ext)
     (auto simp: liftV_def RegistryBuilder_Build_def andThen_def split: prod.splits sum.splits)

lemma plain_Build: "segR plain (liftV (RegistryBuilder_Build env a rt None None))"
  unfolding Build_as_andThen
  by (auto intro!: plain_andThen plain_os_MkdirTemp plain_makeSelfSignedCert plain_return)





lemma plain_Registry_Stop: "segR plain (Registry_Stop env reg)"
  by (rule segR_I)
     (auto simp: Registry_Stop_def prims plain_def split: option.splits if_splits)







lemma progressMessages_simps [simp]:
  "progressMessages [] = []"
  "progressMessages (x # xs) = progressOf x @ progressMessages xs"
  "progressMessages (xs @ ys) = progressMessages xs @ progressMessages ys"
  by (simp_all add: progressMessages_def)

lemma pulls_simps [simp]:
  "pulls [] = []"
  "pulls (x # xs) = pullOf x @ pulls xs"
  "pulls (xs @ ys) = pulls xs @ pulls ys"
  by (simp_all add: pulls_def)

lemma progressFailures_simps [simp]:
  "progressFailures [] = []"
  "progressFailures (x # xs) = failureLogOf x @ progressFailures xs"
  "progressFailures (xs @ ys) = progressFailures xs @ progressFailures ys"
  by (simp_all add: progressFailures_def)




text \<open>What a run of the pull loop looks like.\<close>

lemma pullRun_ConsE:
  assumes "pullRun nd n i (ref # refs) tr r"
  obtains (fail) e where "tr = [(CRIO_PullImage ref, Some e)]" "r = Some e"
  | (step) po t where
      "tr = (CRIO_PullImage ref, None) #
            (Client_PatchAnnotation nd annotations_Progress (pulledMsg (Suc i) n), po) # t"
      "pullRun nd n (Suc i) refs t r"
  using assms by auto

lemma pullRun_NilD: "pullRun nd n i refs [] r \<Longrightarrow> r = None"
  by (cases refs) auto

lemma pullRun_butlast:
  "pullRun nd n i refs tr r \<Longrightarrow> \<forall>x\<in>set (butlast tr). \<not> isProgress (fst x) \<longrightarrow> snd x = None"
proof (induction refs arbitrary: i tr)
  case Nil
  then show ?case by simp
next
  case (Cons ref refs)
  from Cons.prems show ?case
  proof (cases rule: pullRun_ConsE)
    case (fail e)
    then show ?thesis by simp
  next
    case (step po t)
    from Cons.IH [OF step(2)] show ?thesis unfolding step(1) by auto
  qed
qed


lemma pullRun_last:
  "pullRun nd n i refs tr r \<Longrightarrow> tr \<noteq> [] \<Longrightarrow>
     (case r of Some e \<Rightarrow> \<exists>ref. last tr = (CRIO_PullImage ref, Some e)
              | None \<Rightarrow> isProgress (fst (last tr)))"
proof (induction refs arbitrary: i tr)
  case Nil
  then show ?case by simp
next
  case (Cons ref refs)
  from Cons.prems(1) show ?case
  proof (cases rule: pullRun_ConsE)
    case (fail e)
    then show ?thesis by simp
  next
    case (step po t)
    show ?thesis
    proof (cases "t = []")
      case True
      with step(2) have "r = None" by (simp add: pullRun_NilD)
      with step(1) True show ?thesis by simp
    next
      case False
      from Cons.IH [OF step(2) False] False show ?thesis unfolding step(1)
        by (simp split: option.splits)
    qed
  qed
qed

lemma pullRun_failed_pull:
  assumes "pullRun nd n i refs tr r" and "(CRIO_PullImage ref, Some e) \<in> set tr"
  shows "last tr = (CRIO_PullImage ref, Some e) \<and> (CRIO_PullImage ref, Some e) \<notin> set (butlast tr)
         \<and> r = Some e"
proof -
  from pullRun_butlast [OF assms(1)] have nb: "(CRIO_PullImage ref, Some e) \<notin> set (butlast tr)"
    by force
  from assms(2) have ne: "tr \<noteq> []" by auto
  with nb assms(2) have l: "last tr = (CRIO_PullImage ref, Some e)"
    by (cases tr rule: rev_cases) auto
  from pullRun_last [OF assms(1) ne] l have "r = Some e" by (cases r) auto
  with nb l show ?thesis by simp
qed







lemma plain_retype: "plain a la (Ok x) \<Longrightarrow> plain a la (Ok y)"
  by (simp add: plain_def)




















section \<open>Loads in which patches of the progress annotation fail\<close>

































lemma segR_D:
  "segR T m \<Longrightarrow> m w = (r, w') \<Longrightarrow>
     \<exists>tr lg. trace w' = trace w @ tr \<and> errlog w' = errlog w @ lg \<and> T tr lg r"
  unfolding segR_def by blast






section \<open>The digest of the bundle\<close>

lemma exitOnError_Ok: "exitOnError m w = (Ok x, w') \<longleftrightarrow> m w = (Ok x, w')"
  by (auto simp: exitOnError_def split: prod.splits res.splits)

lemma liftV_Ok: "liftV m w = (Ok x, w') \<longleftrightarrow> m w = (Inr x, w')"
  by (auto simp: liftV_def split: prod.splits sum.splits)

lemma creator_Ok_steps:
  assumes "BundleCreator_Run env c w = (Ok (), w')"
  obtains cacheDir w1 w2 found w3 registry w4 w5 w6 w7 w8 w9 where
    "externStr env Os_UserCacheDir w = (Inr cacheDir, w1)"
    "createDir env (Join [cacheDir, ''upgrade-tool'', version c @ ''-'' @ arch c]) w1 = (None, w2)"
    "findImages env c w2 = (Inr found, w3)"
    "createRegistry env (Join [cacheDir, ''upgrade-tool'', version c @ ''-'' @ arch c]) w3 = (Inr registry, w4)"
    "downloadImages env c registry (fst found) (snd found) w4 = (Ok (), w5)"
    "Registry_Stop env registry w5 = (Ok (), w6)"
    "writeMetadata env (newMetadata env c (fst found) (snd found))
       (Join [cacheDir, ''upgrade-tool'', version c @ ''-'' @ arch c]) w6 = (None, w7)"
    "writeBundle env c (Join [cacheDir, ''upgrade-tool'', version c @ ''-'' @ arch c]) w7 = (None, w8)"
    "writeDigest env c w8 = (None, w9)"
    "writeManifest env c w9 = (None, w')"
  using assms
  unfolding BundleCreator_Run_def andThen_Ok exitOnError_Ok liftV_Ok lift_Ok
  by (elim exE conjE) (rule that; simp)

lemma closeLogged_fs [simp]: "fs (closeLogged env msg p w) = fs w"
  by (auto simp: closeLogged_def prims split: option.splits)











section \<open>Runs of the creator in which no call fails\<close>

lemma extern_nf:
  "fault env (length (trace w)) = None \<Longrightarrow>
     extern env c w = (None, w\<lparr>trace := trace w @ [(c, None)]\<rparr>)"
  by (simp add: prims)

lemma externStr_nf:
  "fault env (length (trace w)) = None \<Longrightarrow>
     externStr env c w = (Inr (strOut env (length (trace w))), w\<lparr>trace := trace w @ [(c, None)]\<rparr>)"
  by (simp add: prims)

lemma createDir_succeeds:
  assumes nf: "\<And>k. fault env k = None"
  shows "\<exists>w'. createDir env d w = (None, w') \<and> length (trace w') = Suc (length (trace w)) \<and>
           (\<forall>p. p \<noteq> d \<longrightarrow> fs w' p = fs w p)"
  by (simp add: createDir_def extern_nf nf)

lemma findImages_succeeds:
  assumes nf: "\<And>k. fault env k = None"
  shows "\<exists>w'. findImages env c w =
           (Inr (bundleCreatorReleaseRepo @ ''@'' @ strOut env (length (trace w) + 2),
                 foldl (\<lambda>images (tag, ref). mapassign images tag ref) []
                   (tagsOut env (length (trace w) + 3))), w') \<and>
         length (trace w') = length (trace w) + 4 \<and> fs w' = fs w"
  by (simp add: findImages_def jq_QueryDigest_def jq_QueryTags_def externStr_nf nf prims
      eval_nat_numeral)

lemma createRegistry_succeeds:
  assumes nf: "\<And>k. fault env k = None"
    and "dir \<noteq> []" and "fs w (strOut env (length (trace w))) = None"
  shows "\<exists>reg w'. createRegistry env dir w = (Inr reg, w') \<and> server reg \<and> listener reg \<noteq> None
           \<and> length (trace w') = length (trace w) + 8
           \<and> (\<forall>p. p \<noteq> strOut env (length (trace w)) \<longrightarrow>
                  p \<noteq> Join [strOut env (length (trace w)), ''tls.crt''] \<longrightarrow>
                  p \<noteq> Join [strOut env (length (trace w)), ''tls.key''] \<longrightarrow> fs w' p = fs w p)"
  using assms(2,3)
  by (simp add: createRegistry_def RegistryBuilder_Build_def makeSelfSignedCert_def
      Registry_Start_def os_MkdirTemp_def os_WriteFile_def net_Listen_def extern_nf externStr_nf
      nf outcome_def returned_def record_call_def Let_def)

lemma dstRef_succeeds:
  assumes "parseNamed env src = Inr ref" and "listener reg \<noteq> None"
  shows "\<exists>dst. dstRef env src reg w = (Ok dst, w)"
  using assms by (auto simp: dstRef_def Registry_Address_def andThen_def Let_def)

lemma downloadImage_succeeds:
  assumes nf: "\<And>k. fault env k = None"
  shows "\<exists>w'. downloadImage env c certs src dst w = (None, w') \<and> fs w' = fs w"
  by (simp add: downloadImage_def extern_nf externStr_nf nf)

lemma downloadPayload_succeeds:
  assumes nf: "\<And>k. fault env k = None" and "listener reg \<noteq> None"
    and "\<forall>tag\<in>set tags. \<exists>ref. parseNamed env (mapaccess images tag) = Inr ref"
  shows "\<exists>w'. downloadPayload env c reg certs images tags w = (Ok (), w') \<and> fs w' = fs w"
  using assms(3)
proof (induction tags arbitrary: w)
  case Nil
  show ?case by simp
next
  case (Cons tag tags)
  from Cons.prems obtain ref where "parseNamed env (mapaccess images tag) = Inr ref" by auto
  from dstRef_succeeds [OF this assms(2)] obtain dst where
    d: "dstRef env (mapaccess images tag) reg w = (Ok dst, w)" by blast
  from downloadImage_succeeds [OF nf, of c certs "mapaccess images tag" dst w] obtain w1 where
    i: "downloadImage env c certs (mapaccess images tag) dst w = (None, w1)" "fs w1 = fs w"
    by blast
  from Cons.IH [of w1] Cons.prems obtain w' where
    "downloadPayload env c reg certs images tags w1 = (Ok (), w')" "fs w' = fs w1" by auto
  with d i show ?case by simp
qed

lemma downloadImages_succeeds:
  assumes nf: "\<And>k. fault env k = None" and l: "listener reg \<noteq> None"
    and rel: "parseNamed env release = Inr ref"
    and tags: "\<forall>tag\<in>set (maps_Keys env images). \<exists>ref. parseNamed env (mapaccess images tag) = Inr ref"
    and fresh: "fs w (strOut env (length (trace w))) = None"
  shows "\<exists>w'. downloadImages env c reg release images w = (Ok (), w')"
proof -
  let ?certs = "strOut env (length (trace w))"
  let ?w1 = "(record_call (Os_MkdirTemp [] ''*.skopeo'') None w)\<lparr>fs := (fs w)(?certs \<mapsto> Dir)\<rparr>"
  have m: "os_MkdirTemp env [] ''*.skopeo'' w = (Inr ?certs, ?w1)"
    using fresh by (simp add: os_MkdirTemp_def nf outcome_def returned_def)
  obtain w2 where wf: "os_WriteFile env (Join [?certs, ''tls.crt'']) (cert reg) ?w1 = (None, w2)"
    by (simp add: os_WriteFile_def extern_nf nf)
  from dstRef_succeeds [OF rel l] obtain dst where d: "dstRef env release reg w2 = (Ok dst, w2)"
    by blast
  from downloadImage_succeeds [OF nf, of c ?certs release dst w2] obtain w3 where
    i: "downloadImage env c ?certs release dst w2 = (None, w3)" by blast
  have "\<forall>tag\<in>set (sort (maps_Keys env images)).
          \<exists>ref. parseNamed env (mapaccess images tag) = Inr ref"
    using tags by simp
  from downloadPayload_succeeds [OF nf l this, of c ?certs w3] obtain w4 where
    p: "downloadPayload env c reg ?certs images (sort (maps_Keys env images)) w3 = (Ok (), w4)"
    by blast
  have body: "andThen (lift (os_WriteFile env (Join [?certs, ''tls.crt'']) (cert reg))) (\<lambda>_.
                andThen (dstRef env release reg) (\<lambda>dst.
                andThen (lift (downloadImage env c ?certs release dst)) (\<lambda>_.
                downloadPayload env c reg ?certs images (sort (maps_Keys env images))))) ?w1
              = (Ok (), w4)"
    using wf d i p by (simp add: andThen_def lift_def)
  obtain w5 where r: "os_RemoveAll env ?certs w4 = (None, w5)"
    by (simp add: os_RemoveAll_def extern_nf nf)
  show ?thesis
    unfolding downloadImages_def m by (simp add: body r)
qed

lemma writeMetadata_succeeds:
  assumes nf: "\<And>k. fault env k = None"
  shows "\<exists>w'. writeMetadata env md dir w = (None, w')"
  by (simp add: writeMetadata_def os_WriteFile_def extern_nf nf)

lemma writeBundle_succeeds:
  assumes nf: "\<And>k. fault env k = None"
  shows "\<exists>w' archive. writeBundle env c dir w = (None, w') \<and>
           fs w' (bundleFile c) = Some (File archive)"
  by (simp add: writeBundle_def externStr_nf nf)

lemma closeLogged_nf:
  "fault env (length (trace w)) = None \<Longrightarrow>
     closeLogged env msg p w = w\<lparr>trace := trace w @ [(File_Close p, None)]\<rparr>"
  by (simp add: closeLogged_def extern_nf)

lemma writeDigest_succeeds:
  assumes nf: "\<And>k. fault env k = None" and "fs w (bundleFile c) = Some (File archive)"
  shows "\<exists>w'. writeDigest env c w = (None, w')"
  using assms(2)
  by (simp add: writeDigest_def os_Open_def io_Copy_def os_OpenFile_def fmt_Fprintf_def
      closeLogged_nf extern_nf nf outcome_def record_call_def Let_def)

lemma writeManifest_succeeds:
  assumes nf: "\<And>k. fault env k = None"
  shows "\<exists>w'. writeManifest env c w = (None, w')"
  by (simp add: writeManifest_def os_WriteFile_def extern_nf externStr_nf nf)

lemma creator_succeeds:
  assumes nf: "\<And>k. fault env k = None"
    and dir: "workDir env c w \<noteq> []"
    and fresh1: "fs w (strOut env (length (trace w) + 6)) = None"
      "strOut env (length (trace w) + 6) \<noteq> workDir env c w"
    and fresh2: "fs w (strOut env (length (trace w) + 14)) = None"
      "strOut env (length (trace w) + 14) \<noteq> workDir env c w"
      "strOut env (length (trace w) + 14) \<noteq> strOut env (length (trace w) + 6)"
      "strOut env (length (trace w) + 14) \<noteq> Join [strOut env (length (trace w) + 6), ''tls.crt'']"
      "strOut env (length (trace w) + 14) \<noteq> Join [strOut env (length (trace w) + 6), ''tls.key'']"
    and rel: "parseNamed env (discoveredRelease env w) = Inr ref"
    and tags: "\<forall>tag\<in>set (maps_Keys env (discoveredImages env w)).
                 \<exists>ref. parseNamed env (mapaccess (discoveredImages env w) tag) = Inr ref"
  shows "\<exists>w'. BundleCreator_Run env c w = (Ok (), w')"
proof -
  let ?n = "length (trace w)"
  let ?w1 = "w\<lparr>trace := trace w @ [(Os_UserCacheDir, None)]\<rparr>"
  let ?dir = "workDir env c w"
  let ?found = "(discoveredRelease env w, discoveredImages env w)"
  have u: "externStr env Os_UserCacheDir w = (Inr (strOut env ?n), ?w1)"
    by (simp add: externStr_nf nf)
  from createDir_succeeds [OF nf, of ?dir ?w1] obtain w2 where
    c: "createDir env ?dir ?w1 = (None, w2)" "length (trace w2) = ?n + 2"
       "\<forall>p. p \<noteq> ?dir \<longrightarrow> fs w2 p = fs w p"
    by auto
  from findImages_succeeds [OF nf, of c w2] c(2) obtain w3 where
    f: "findImages env c w2 = (Inr ?found, w3)" "length (trace w3) = ?n + 6" "fs w3 = fs w2"
    by (auto simp: discoveredRelease_def discoveredImages_def eval_nat_numeral)
  have "fs w3 (strOut env (length (trace w3))) = None" using f c(3) fresh1 by simp
  from createRegistry_succeeds [OF nf dir this] f(2) obtain reg w4 where
    r: "createRegistry env ?dir w3 = (Inr reg, w4)" "server reg" "listener reg \<noteq> None"
       "length (trace w4) = ?n + 14"
       "\<forall>p. p \<noteq> strOut env (?n + 6) \<longrightarrow> p \<noteq> Join [strOut env (?n + 6), ''tls.crt''] \<longrightarrow>
            p \<noteq> Join [strOut env (?n + 6), ''tls.key''] \<longrightarrow> fs w4 p = fs w3 p"
    by auto
  have "fs w4 (strOut env (length (trace w4))) = None"
    using r(4,5) f(3) c(3) fresh2 by simp
  from downloadImages_succeeds [OF nf r(3) rel tags this] obtain w5 where
    d: "downloadImages env c reg (discoveredRelease env w) (discoveredImages env w) w4 = (Ok (), w5)"
    by blast
  from Registry_Stop_succeeds [OF nf r(2), of w5] obtain w6 where
    s: "Registry_Stop env reg w5 = (Ok (), w6)" by blast
  from writeMetadata_succeeds [OF nf,
      of "newMetadata env c (discoveredRelease env w) (discoveredImages env w)" ?dir w6]
  obtain w7 where
    m: "writeMetadata env (newMetadata env c (discoveredRelease env w) (discoveredImages env w))
          ?dir w6 = (None, w7)" by blast
  from writeBundle_succeeds [OF nf, of c ?dir w7] obtain w8 archive where
    b: "writeBundle env c ?dir w7 = (None, w8)" "fs w8 (bundleFile c) = Some (File archive)"
    by blast
  from writeDigest_succeeds [OF nf b(2)] obtain w9 where
    g: "writeDigest env c w8 = (None, w9)" by blast
  from writeManifest_succeeds [OF nf, of c w9] obtain w' where
    y: "writeManifest env c w9 = (None, w')" by blast
  have "BundleCreator_Run env c w = (Ok (), w')"
    using u c(1) f(1) r(1) d s m b(1) g y
    by (simp add: BundleCreator_Run_def andThen_def exitOnError_def lift_def liftV_def workDir_def)
  then show ?thesis ..
qed

text \<open>A run of the creator in which the reference of the first tag is rejected.\<close>

lemma downloadImages_rejected:
  assumes nf: "\<And>k. fault env k = None" and l: "listener reg \<noteq> None"
    and rel: "parseNamed env release = Inr ref"
    and bad: "sort (maps_Keys env images) = tag # tags" "parseNamed env (mapaccess images tag) = Inl e"
    and fresh: "fs w (strOut env (length (trace w))) = None"
  shows "\<exists>w'. downloadImages env c reg release images w = (Err e, w') \<and>
           (\<forall>p. \<not> under (strOut env (length (trace w))) p \<longrightarrow>
                 p \<noteq> Join [strOut env (length (trace w)), ''tls.crt''] \<longrightarrow> fs w' p = fs w p)"
proof -
  let ?certs = "strOut env (length (trace w))"
  let ?w1 = "(record_call (Os_MkdirTemp [] ''*.skopeo'') None w)\<lparr>fs := (fs w)(?certs \<mapsto> Dir)\<rparr>"
  have m: "os_MkdirTemp env [] ''*.skopeo'' w = (Inr ?certs, ?w1)"
    using fresh by (simp add: os_MkdirTemp_def nf outcome_def returned_def)
  obtain w2 where wf: "os_WriteFile env (Join [?certs, ''tls.crt'']) (cert reg) ?w1 = (None, w2)"
    and f2: "fs w2 = (fs ?w1)(Join [?certs, ''tls.crt''] \<mapsto> File (cert reg))"
    by (simp add: os_WriteFile_def extern_nf nf)
  from dstRef_succeeds [OF rel l] obtain dst where d: "dstRef env release reg w2 = (Ok dst, w2)"
    by blast
  from downloadImage_succeeds [OF nf, of c ?certs release dst w2] obtain w3 where
    i: "downloadImage env c ?certs release dst w2 = (None, w3)" "fs w3 = fs w2" by blast
  have p: "downloadPayload env c reg ?certs images (sort (maps_Keys env images)) w3 = (Err e, w3)"
    unfolding bad(1) using bad(2) by (simp add: dstRef_def)
  have body: "andThen (lift (os_WriteFile env (Join [?certs, ''tls.crt'']) (cert reg))) (\<lambda>_.
                andThen (dstRef env release reg) (\<lambda>dst.
                andThen (lift (downloadImage env c ?certs release dst)) (\<lambda>_.
                downloadPayload env c reg ?certs images (sort (maps_Keys env images))))) ?w1
              = (Err e, w3)"
    using wf d i(1) p by (simp add: andThen_def lift_def)
  obtain w5 where r: "os_RemoveAll env ?certs w3 = (None, w5)"
    and f5: "fs w5 = removeTree ?certs (fs w3)"
    by (simp add: os_RemoveAll_def extern_nf nf)
  have "downloadImages env c reg release images w = (Err e, w5)"
    unfolding downloadImages_def m by (simp add: body r)
  moreover have "\<forall>p. \<not> under ?certs p \<longrightarrow> p \<noteq> Join [?certs, ''tls.crt''] \<longrightarrow> fs w5 p = fs w p"
    unfolding f5 i(2) f2 by (auto simp: removeTree_def record_call_def under_def)
  ultimately show ?thesis by (intro exI [of _ w5] conjI)
qed

lemma creator_rejected:
  assumes nf: "\<And>k. fault env k = None"
    and dir: "workDir env c w \<noteq> []"
    and fresh1: "fs w (strOut env (length (trace w) + 6)) = None"
      "strOut env (length (trace w) + 6) \<noteq> workDir env c w"
    and fresh2: "fs w (strOut env (length (trace w) + 14)) = None"
      "strOut env (length (trace w) + 14) \<noteq> workDir env c w"
      "strOut env (length (trace w) + 14) \<noteq> strOut env (length (trace w) + 6)"
      "strOut env (length (trace w) + 14) \<noteq> Join [strOut env (length (trace w) + 6), ''tls.crt'']"
      "strOut env (length (trace w) + 14) \<noteq> Join [strOut env (length (trace w) + 6), ''tls.key'']"
    and rel: "parseNamed env (discoveredRelease env w) = Inr ref"
    and bad: "sort (maps_Keys env (discoveredImages env w)) = tag # tags"
      "parseNamed env (mapaccess (discoveredImages env w) tag) = Inl e"
    and p: "fs w p = None" "p \<noteq> workDir env c w" "p \<noteq> strOut env (length (trace w) + 6)"
      "p \<noteq> Join [strOut env (length (trace w) + 6), ''tls.crt'']"
      "p \<noteq> Join [strOut env (length (trace w) + 6), ''tls.key'']"
      "\<not> under (strOut env (length (trace w) + 14)) p"
      "p \<noteq> Join [strOut env (length (trace w) + 14), ''tls.crt'']"
  shows "\<exists>w'. BundleCreator_Run env c w = (Err (ExitError 1), w') \<and> fs w' p = None"
proof -
  let ?n = "length (trace w)"
  let ?w1 = "w\<lparr>trace := trace w @ [(Os_UserCacheDir, None)]\<rparr>"
  let ?dir = "workDir env c w"
  let ?found = "(discoveredRelease env w, discoveredImages env w)"
  have u: "externStr env Os_UserCacheDir w = (Inr (strOut env ?n), ?w1)"
    by (simp add: externStr_nf nf)
  from createDir_succeeds [OF nf, of ?dir ?w1] obtain w2 where
    c: "createDir env ?dir ?w1 = (None, w2)" "length (trace w2) = ?n + 2"
       "\<forall>p. p \<noteq> ?dir \<longrightarrow> fs w2 p = fs w p"
    by auto
  from findImages_succeeds [OF nf, of c w2] c(2) obtain w3 where
    f: "findImages env c w2 = (Inr ?found, w3)" "length (trace w3) = ?n + 6" "fs w3 = fs w2"
    by (auto simp: discoveredRelease_def discoveredImages_def eval_nat_numeral)
  have "fs w3 (strOut env (length (trace w3))) = None" using f c(3) fresh1 by simp
  from createRegistry_succeeds [OF nf dir this] f(2) obtain reg w4 where
    r: "createRegistry env ?dir w3 = (Inr reg, w4)" "server reg" "listener reg \<noteq> None"
       "length (trace w4) = ?n + 14"
       "\<forall>p. p \<noteq> strOut env (?n + 6) \<longrightarrow> p \<noteq> Join [strOut env (?n + 6), ''tls.crt''] \<longrightarrow>
            p \<noteq> Join [strOut env (?n + 6), ''tls.key''] \<longrightarrow> fs w4 p = fs w3 p"
    by auto
  have "fs w4 (strOut env (length (trace w4))) = None"
    using r(4,5) f(3) c(3) fresh2 by simp
  from downloadImages_rejected [where c = c, OF nf r(3) rel bad this] obtain w5 where
    d: "downloadImages env c reg (discoveredRelease env w) (discoveredImages env w) w4 = (Err e, w5)"
       "\<forall>p. \<not> under (strOut env (length (trace w4))) p \<longrightarrow>
            p \<noteq> Join [strOut env (length (trace w4)), ''tls.crt''] \<longrightarrow> fs w5 p = fs w4 p"
    by (elim exE conjE) (rule that)
  have "BundleCreator_Run env c w = (Err (ExitError 1), w5)"
    using u c(1) f(1) r(1) d(1)
    by (simp add: BundleCreator_Run_def andThen_def exitOnError_def lift_def liftV_def workDir_def)
  moreover have "fs w5 p = None"
    using d(2) r(4,5) f(3) c(3) p by simp
  ultimately show ?thesis by (intro exI [of _ w5] conjI)
qed

section \<open>The calls of a bundle creation\<close>

lemma copies_simps [simp]:
  "copies [] = []"
  "copies (x # xs) = copyOf x @ copies xs"
  "copies (xs @ ys) = copies xs @ copies ys"
  by (simp_all add: copies_def)

lemma quiet_no_copies: "\<forall>x\<in>set tr. \<not> isCmd (fst x) \<Longrightarrow> copies tr = []"
proof (induction tr)
  case Nil
  show ?case by simp
next
  case (Cons x tr)
  obtain c r where "x = (c, r)" by (cases x)
  with Cons show ?case by (cases c) auto
qed

lemma plain_no_copies: "plain tr lg r \<Longrightarrow> copies tr = []"
  by (simp add: plain_def quiet_no_copies)

text \<open>Go maps.\<close>

lemma map_of_mapassign: "map_of (mapassign m k v) = (map_of m)(k \<mapsto> v)"
  by (induction m k v rule: mapassign.induct) (auto simp: fun_upd_twist)

lemma fst_set_mapassign: "fst ` set (mapassign m k v) = insert k (fst ` set m)"
  by (induction m k v rule: mapassign.induct) auto

lemma distinct_mapassign: "distinct (map fst m) \<Longrightarrow> distinct (map fst (mapassign m k v))"
  by (induction m k v rule: mapassign.induct) (auto simp: fst_set_mapassign)

lemma foldl_mapassign:
  "distinct (map fst m) \<Longrightarrow>
     distinct (map fst (foldl (\<lambda>images (tag, ref). mapassign images tag ref) m tags)) \<and>
     map_of (foldl (\<lambda>images (tag, ref). mapassign images tag ref) m tags) =
       map_of m ++ map_of (rev tags)"
proof (induction tags arbitrary: m)
  case Nil
  then show ?case by simp
next
  case (Cons x tags)
  obtain k v where x: "x = (k, v)" by (cases x)
  have a: "map_of (mapassign m k v) ++ map_of (rev tags) = map_of m ++ map_of (rev (x # tags))"
    unfolding x map_of_mapassign
    by (auto simp: map_add_def fun_eq_iff split: option.splits)
  have f: "foldl (\<lambda>images (tag, ref). mapassign images tag ref) m (x # tags) =
           foldl (\<lambda>images (tag, ref). mapassign images tag ref) (mapassign m k v) tags"
    by (simp add: x)
  from Cons.IH [OF distinct_mapassign [OF Cons.prems, of k v]] show ?case
    unfolding f a [symmetric] .
qed

lemma discoveredImages_distinct:
  "distinct (map fst (discoveredImages env w)) \<and>
   map_of (discoveredImages env w) = map_of (rev (tagsOut env (length (trace w) + 5)))"
  unfolding discoveredImages_def using foldl_mapassign [of "[]"] by simp

lemma sort_maps_Keys:
  assumes "mset (mapOrder env m) = mset m"
  shows "sort (maps_Keys env m) = sort (map fst m)"
proof -
  have "mset (map fst (mapOrder env m)) = mset (map fst m)"
    using assms by (metis mset_map)
  then show ?thesis unfolding maps_Keys_def by (intro properties_for_sort) simp_all
qed

lemma maps_Values_mset:
  assumes "mset (mapOrder env m) = mset m"
  shows "mset (maps_Values env m) = mset (map snd m) \<and> length (maps_Values env m) = length m"
proof -
  have "mset (map snd (mapOrder env m)) = mset (map snd m)"
    using assms by (metis mset_map)
  moreover have "length (mapOrder env m) = length m" using assms by (metis size_mset)
  ultimately show ?thesis by (simp add: maps_Values_def)
qed

text \<open>The calls of a successful run of the creator.\<close>

lemma externStr_Ok:
  "externStr env c w = (Inr x, w') \<Longrightarrow>
     x = strOut env (length (trace w)) \<and> trace w' = trace w @ [(c, None)]"
  by (auto simp: prims split: option.splits)

lemma createDir_Ok:
  "createDir env d w = (None, w') \<Longrightarrow> \<exists>r. trace w' = trace w @ [(Os_MkdirAll d, r)]"
  by (auto simp: createDir_def prims split: option.splits if_splits)

lemma findImages_Ok:
  "findImages env c w = (Inr found, w') \<Longrightarrow>
     fst found = bundleCreatorReleaseRepo @ ''@'' @ strOut env (length (trace w) + 2) \<and>
     snd found = foldl (\<lambda>images (tag, ref). mapassign images tag ref) []
                   (tagsOut env (length (trace w) + 3)) \<and>
     (\<exists>tr. trace w' = trace w @ tr \<and> length tr = 4 \<and> copies tr = [])"
  by (auto simp: findImages_def jq_QueryDigest_def jq_QueryTags_def prims eval_nat_numeral
      split: option.splits)

lemma createRegistry_as_andThen:
  "liftV (createRegistry env dir) =
     andThen (liftV (RegistryBuilder_Build env ''localhost:5001'' dir None None)) (\<lambda>registry w.
       case Registry_Start env registry w of
         (Some e, reg', w') \<Rightarrow> (Err e, w') | (None, reg', w') \<Rightarrow> (Ok reg', w'))"
  by (rule ext)
     (auto simp: createRegistry_def liftV_def andThen_def split: prod.splits sum.splits option.splits)

lemma plain_createRegistry: "segR plain (liftV (createRegistry env dir))"
  unfolding createRegistry_as_andThen
  by (intro plain_andThen plain_Build plain_Registry_Start)

lemma createRegistry_Ok:
  assumes "createRegistry env dir w = (Inr reg, w')"
  shows "\<exists>tr. trace w' = trace w @ tr \<and> copies tr = []"
proof -
  from assms have "liftV (createRegistry env dir) w = (Ok reg, w')" by (simp add: liftV_def)
  from segR_D [OF plain_createRegistry this] show ?thesis by (auto dest: plain_no_copies)
qed

lemma Build_Ok_length:
  "RegistryBuilder_Build env a d None None w = (Inr r, w1) \<Longrightarrow>
     length (trace w1) = length (trace w) + 5"
  by (auto simp: RegistryBuilder_Build_def makeSelfSignedCert_def prims
      split: if_splits option.splits)

lemma Start_Ok_listener:
  "Registry_Start env r w = (None, reg, w') \<Longrightarrow>
     listener reg = Some (strOut env (length (trace w) + 2))"
  by (auto simp: Registry_Start_def Let_def prims eval_nat_numeral split: option.splits)

lemma createRegistry_listener:
  assumes "createRegistry env dir w = (Inr reg, w')"
  shows "listener reg = Some (strOut env (length (trace w) + 7))"
proof -
  from assms obtain r w1 where
    b: "RegistryBuilder_Build env ''localhost:5001'' dir None None w = (Inr r, w1)" and
    s: "Registry_Start env r w1 = (None, reg, w')"
    by (auto simp: createRegistry_def split: prod.splits sum.splits option.splits)
  from Start_Ok_listener [OF s] Build_Ok_length [OF b] show ?thesis by (simp add: ac_simps)
qed

lemma dstRef_world: "dstRef env src reg w = (r, w') \<Longrightarrow> w' = w"
  by (auto simp: dstRef_def Registry_Address_def andThen_def Let_def
      split: sum.splits option.splits)

lemma dstRef_copiedTo:
  "dstRef env src reg w = (Ok dst, w') \<Longrightarrow> listener r = listener reg \<Longrightarrow>
     copiedTo env r w0 (src, dst)"
  by (auto simp: copiedTo_def dstRef_def Registry_Address_def andThen_def Let_def
      split: sum.splits option.splits)

lemma downloadImage_Ok:
  "downloadImage env c certs src dst w = (None, w') \<Longrightarrow>
     \<exists>tr. trace w' = trace w @ tr \<and> copies tr = [(src, dst)]"
  by (auto simp: downloadImage_def prims split: option.splits)

lemma downloadPayload_Ok:
  "downloadPayload env c reg certs images tags w = (Ok (), w') \<Longrightarrow> listener r = listener reg \<Longrightarrow>
     \<exists>tr. trace w' = trace w @ tr \<and> map fst (copies tr) = map (mapaccess images) tags \<and>
          list_all (copiedTo env r w0) (copies tr)"
proof (induction tags arbitrary: w)
  case Nil
  then show ?case by simp
next
  case (Cons tag tags)
  from Cons.prems(1) obtain dst w1 w2 where
    s: "dstRef env (mapaccess images tag) reg w = (Ok dst, w1)"
       "downloadImage env c certs (mapaccess images tag) dst w1 = (None, w2)"
       "downloadPayload env c reg certs images tags w2 = (Ok (), w')"
    by (auto split: prod.splits res.splits option.splits)
  from dstRef_world [OF s(1)] have w1: "w1 = w" .
  from downloadImage_Ok [OF s(2)] w1 obtain t1 where
    t1: "trace w2 = trace w @ t1" "copies t1 = [(mapaccess images tag, dst)]" by auto
  from Cons.IH [OF s(3) Cons.prems(2)] obtain t2 where
    t2: "trace w' = trace w2 @ t2" "map fst (copies t2) = map (mapaccess images) tags"
        "list_all (copiedTo env r w0) (copies t2)"
    by (elim exE conjE) (rule that)
  have "trace w' = trace w @ (t1 @ t2)" using t1 t2 by simp
  moreover have "map fst (copies (t1 @ t2)) = map (mapaccess images) (tag # tags)"
    using t1 t2 by simp
  moreover have "list_all (copiedTo env r w0) (copies (t1 @ t2))"
    using t1 t2 dstRef_copiedTo [OF s(1) Cons.prems(2), of w0] by simp
  ultimately show ?case by (intro exI [of _ "t1 @ t2"] conjI)
qed

lemma downloadImages_Ok:
  assumes "downloadImages env c reg release images w = (Ok (), w')"
    and l: "listener r = listener reg"
  shows "\<exists>tr. trace w' = trace w @ tr \<and>
           map fst (copies tr) = release # map (mapaccess images) (sort (maps_Keys env images)) \<and>
           list_all (copiedTo env r w0) (copies tr)"
proof -
  from assms(1) obtain certs w1 w2 where
    m: "os_MkdirTemp env [] ''*.skopeo'' w = (Inr certs, w1)"
    and b: "andThen (lift (os_WriteFile env (Join [certs, ''tls.crt'']) (cert reg))) (\<lambda>_.
              andThen (dstRef env release reg) (\<lambda>dst.
              andThen (lift (downloadImage env c certs release dst)) (\<lambda>_.
              downloadPayload env c reg certs images (sort (maps_Keys env images))))) w1 = (Ok (), w2)"
    and r: "trace w' = trace (snd (os_RemoveAll env certs w2))"
    by (auto simp: downloadImages_def split: prod.splits sum.splits option.splits)
  from m have t0: "trace w1 = trace w @ [(Os_MkdirTemp [] ''*.skopeo'', None)]"
    by (auto simp: prims split: option.splits if_splits)
  from b obtain w3 dst w4 w5 where
    s: "os_WriteFile env (Join [certs, ''tls.crt'']) (cert reg) w1 = (None, w3)"
       "dstRef env release reg w3 = (Ok dst, w4)"
       "downloadImage env c certs release dst w4 = (None, w5)"
       "downloadPayload env c reg certs images (sort (maps_Keys env images)) w5 = (Ok (), w2)"
    unfolding andThen_Ok lift_Ok by blast
  from s(1) have t1: "trace w3 = trace w1 @ [(Os_WriteFile (Join [certs, ''tls.crt'']) (cert reg), None)]"
    by (auto simp: prims split: option.splits)
  from dstRef_world [OF s(2)] have w4: "w4 = w3" .
  from downloadImage_Ok [OF s(3)] w4 obtain t2 where
    t2: "trace w5 = trace w3 @ t2" "copies t2 = [(release, dst)]" by auto
  from downloadPayload_Ok [OF s(4) l, of w0] obtain t3 where
    t3: "trace w2 = trace w5 @ t3"
        "map fst (copies t3) = map (mapaccess images) (sort (maps_Keys env images))"
        "list_all (copiedTo env r w0) (copies t3)"
    by (elim exE conjE) (rule that)
  from r obtain e where t4: "trace w' = trace w2 @ [(Os_RemoveAll certs, e)]"
    by (auto simp: prims split: option.splits)
  let ?tr = "(Os_MkdirTemp [] ''*.skopeo'', None) #
     (Os_WriteFile (Join [certs, ''tls.crt'']) (cert reg), None) # t2 @ t3 @ [(Os_RemoveAll certs, e)]"
  have "trace w' = trace w @ ?tr" using t0 t1 t2 t3 t4 by simp
  moreover have "map fst (copies ?tr) =
      release # map (mapaccess images) (sort (maps_Keys env images))"
    using t2 t3 by simp
  moreover have "list_all (copiedTo env r w0) (copies ?tr)"
    using t2 t3 dstRef_copiedTo [OF s(2) l, of w0] by simp
  ultimately show ?thesis by (intro exI [of _ ?tr] conjI)
qed

lemma Registry_Stop_Ok:
  assumes "Registry_Stop env reg w = (Ok (), w')"
  shows "\<exists>tr. trace w' = trace w @ tr \<and> copies tr = []"
  using segR_D [OF plain_Registry_Stop assms] by (auto dest: plain_no_copies)

lemma writeMetadata_Ok:
  "writeMetadata env md dir w = (None, w') \<Longrightarrow>
     trace w' = trace w @ [(Os_WriteFile (Join [dir, ''metadata.json'']) (jsonMarshal env md), None)]"
  by (auto simp: writeMetadata_def prims split: option.splits)

lemma writeBundle_calls:
  "writeBundle env c dir w = (None, w') \<Longrightarrow> \<exists>tr. trace w' = trace w @ tr \<and> copies tr = []"
  by (auto simp: writeBundle_def prims split: option.splits)

lemma closeLogged_trace: "\<exists>r. trace (closeLogged env msg p w) = trace w @ [(File_Close p, r)]"
  by (auto simp: closeLogged_def prims split: option.splits)

lemma os_Open_calls:
  "os_Open env p w = (r, w') \<Longrightarrow> trace w' = trace w @ [(Os_Open p, r)]"
  by (auto simp: os_Open_def prims Let_def)

lemma io_Copy_calls:
  "io_Copy env p w = (r, w') \<Longrightarrow> \<exists>e. trace w' = trace w @ [(Io_Copy p, e)]"
  by (auto simp: io_Copy_def prims split: option.splits fnode.splits)

lemma os_OpenFile_calls:
  "os_OpenFile env p w = (r, w') \<Longrightarrow> trace w' = trace w @ [(Os_OpenFile p, r)]"
  by (auto simp: os_OpenFile_def prims split: option.splits)

lemma fmt_Fprintf_calls:
  "fmt_Fprintf env p text w = (r, w') \<Longrightarrow> trace w' = trace w @ [(Fprintf p text, r)]"
  by (auto simp: fmt_Fprintf_def prims split: option.splits)

lemma writeDigest_calls:
  assumes "writeDigest env c w = (None, w')"
  shows "\<exists>tr. trace w' = trace w @ tr \<and> copies tr = []"
proof -
  from assms obtain w1 d w2 w3 line w4 where
    s: "os_Open env (bundleFile c) w = (None, w1)"
       "io_Copy env (bundleFile c) w1 = (Inr d, w2)"
       "os_OpenFile env (digestFile c) w2 = (None, w3)"
       "fmt_Fprintf env (digestFile c) line w3 = (None, w4)"
    and w': "w' = closeLogged env ''Failed to close bundle file'' (bundleFile c)
                   (closeLogged env ''Failed to close digest file'' (digestFile c) w4)"
    by (auto simp: writeDigest_def Let_def split: prod.splits option.splits sum.splits)
  from io_Copy_calls [OF s(2)] obtain e where
    t2: "trace w2 = trace w1 @ [(Io_Copy (bundleFile c), e)]" ..
  from closeLogged_trace [of env "''Failed to close digest file''" "digestFile c" w4]
  obtain r1 where c1:
    "trace (closeLogged env ''Failed to close digest file'' (digestFile c) w4) =
       trace w4 @ [(File_Close (digestFile c), r1)]" ..
  from closeLogged_trace [of env "''Failed to close bundle file''" "bundleFile c"
      "closeLogged env ''Failed to close digest file'' (digestFile c) w4"]
  obtain r2 where c2:
    "trace w' = trace (closeLogged env ''Failed to close digest file'' (digestFile c) w4) @
       [(File_Close (bundleFile c), r2)]" unfolding w' ..
  let ?tr = "[(Os_Open (bundleFile c), None), (Io_Copy (bundleFile c), e),
              (Os_OpenFile (digestFile c), None), (Fprintf (digestFile c) line, None),
              (File_Close (digestFile c), r1), (File_Close (bundleFile c), r2)]"
  have "trace w' = trace w @ ?tr"
    unfolding c2 c1 fmt_Fprintf_calls [OF s(4)] os_OpenFile_calls [OF s(3)] t2
      os_Open_calls [OF s(1)] by simp
  moreover have "copies ?tr = []" by simp
  ultimately show ?thesis by (intro exI [of _ ?tr] conjI)
qed

lemma writeManifest_calls:
  "writeManifest env c w = (None, w') \<Longrightarrow> \<exists>tr. trace w' = trace w @ tr \<and> copies tr = []"
  by (auto simp: writeManifest_def prims split: option.splits)

lemma creator_calls:
  assumes "BundleCreator_Run env c w = (Ok (), w')"
  shows "\<exists>pre post. newCalls w w' =
           pre @ (Os_WriteFile (Join [workDir env c w, ''metadata.json''])
                    (jsonMarshal env (newMetadata env c (discoveredRelease env w)
                       (discoveredImages env w))), None) # post
         \<and> map fst (copies pre) =
             discoveredRelease env w #
             map (mapaccess (discoveredImages env w)) (sort (maps_Keys env (discoveredImages env w)))
         \<and> (listener r = Some (registryAddress env w) \<longrightarrow>
              list_all (copiedTo env r w0) (copies pre))
         \<and> copies post = []"
proof -
  let ?dir = "workDir env c w"
  from assms obtain cacheDir w1 w2 found w3 registry w4 w5 w6 w7 w8 w9 where
    s: "externStr env Os_UserCacheDir w = (Inr cacheDir, w1)"
       "createDir env (Join [cacheDir, ''upgrade-tool'', version c @ ''-'' @ arch c]) w1 = (None, w2)"
       "findImages env c w2 = (Inr found, w3)"
       "createRegistry env (Join [cacheDir, ''upgrade-tool'', version c @ ''-'' @ arch c]) w3 = (Inr registry, w4)"
       "downloadImages env c registry (fst found) (snd found) w4 = (Ok (), w5)"
       "Registry_Stop env registry w5 = (Ok (), w6)"
       "writeMetadata env (newMetadata env c (fst found) (snd found))
          (Join [cacheDir, ''upgrade-tool'', version c @ ''-'' @ arch c]) w6 = (None, w7)"
       "writeBundle env c (Join [cacheDir, ''upgrade-tool'', version c @ ''-'' @ arch c]) w7 = (None, w8)"
       "writeDigest env c w8 = (None, w9)"
       "writeManifest env c w9 = (None, w')"
    by (rule creator_Ok_steps)
  from externStr_Ok [OF s(1)] have
    t1: "trace w1 = trace w @ [(Os_UserCacheDir, None)]" and
    cd: "cacheDir = strOut env (length (trace w))" by simp_all
  have dir: "Join [cacheDir, ''upgrade-tool'', version c @ ''-'' @ arch c] = ?dir"
    by (simp add: workDir_def cd)
  from createDir_Ok [OF s(2)] obtain r2 where
    t2: "trace w2 = trace w1 @ [(Os_MkdirAll ?dir, r2)]" unfolding dir ..
  have l2: "length (trace w2) = length (trace w) + 2" using t1 t2 by simp
  have f: "fst found = discoveredRelease env w" "snd found = discoveredImages env w"
    using findImages_Ok [OF s(3)] l2
    by (simp_all add: discoveredRelease_def discoveredImages_def eval_nat_numeral)
  from findImages_Ok [OF s(3)] obtain tr3 where
    t3: "trace w3 = trace w2 @ tr3" "copies tr3 = []" by (elim exE conjE) (rule that)
  from findImages_Ok [OF s(3)] t3(1) l2 have l3: "length (trace w3) = length (trace w) + 6"
    by auto
  from createRegistry_Ok [OF s(4)] obtain tr4 where
    t4: "trace w4 = trace w3 @ tr4" "copies tr4 = []" by (elim exE conjE) (rule that)
  have a: "listener registry = Some (registryAddress env w)"
    using createRegistry_listener [OF s(4)] l3 by (simp add: registryAddress_def add.assoc)
  from downloadImages_Ok [OF s(5) refl, of w0] obtain tr5 where
    t5: "trace w5 = trace w4 @ tr5"
        "map fst (copies tr5) = discoveredRelease env w #
           map (mapaccess (discoveredImages env w)) (sort (maps_Keys env (discoveredImages env w)))"
        "list_all (copiedTo env registry w0) (copies tr5)"
    unfolding f by (elim exE conjE) (rule that)
  have same: "copiedTo env r w0 = copiedTo env registry w0" if "listener r = listener registry"
    using that
    by (auto simp: fun_eq_iff copiedTo_def dstRef_def Registry_Address_def andThen_def Let_def
        split: sum.splits option.splits)
  from Registry_Stop_Ok [OF s(6)] obtain tr6 where
    t6: "trace w6 = trace w5 @ tr6" "copies tr6 = []" by (elim exE conjE) (rule that)
  note t7 = writeMetadata_Ok [OF s(7), unfolded f dir]
  from writeBundle_calls [OF s(8)] obtain tr8 where
    t8: "trace w8 = trace w7 @ tr8" "copies tr8 = []" by (elim exE conjE) (rule that)
  from writeDigest_calls [OF s(9)] obtain tr9 where
    t9: "trace w9 = trace w8 @ tr9" "copies tr9 = []" by (elim exE conjE) (rule that)
  from writeManifest_calls [OF s(10)] obtain tr10 where
    t10: "trace w' = trace w9 @ tr10" "copies tr10 = []" by (elim exE conjE) (rule that)
  let ?pre = "(Os_UserCacheDir, None) # (Os_MkdirAll ?dir, r2) # tr3 @ tr4 @ tr5 @ tr6"
  let ?post = "tr8 @ tr9 @ tr10"
  have "newCalls w w' =
      ?pre @ (Os_WriteFile (Join [?dir, ''metadata.json''])
                (jsonMarshal env (newMetadata env c (discoveredRelease env w)
                   (discoveredImages env w))), None) # ?post"
    unfolding newCalls_def t10 t9 t8 t7 t6 t5 t4 t3 t2 t1 by simp
  moreover have "map fst (copies ?pre) = discoveredRelease env w #
      map (mapaccess (discoveredImages env w)) (sort (maps_Keys env (discoveredImages env w)))"
    using t3 t4 t5 t6 by simp
  moreover have "listener r = Some (registryAddress env w) \<longrightarrow>
      list_all (copiedTo env r w0) (copies ?pre)"
    using t3 t4 t5 t6 same a by simp
  moreover have "copies ?post = []" using t8 t9 t10 by simp
  ultimately show ?thesis by (intro exI [of _ ?pre] exI [of _ ?post] conjI)
qed

lemma creator_metadata_written:
  assumes "BundleCreator_Run env c w = (Ok (), w')"
  shows "(Os_WriteFile (Join [workDir env c w, ''metadata.json''])
            (jsonMarshal env (newMetadata env c (discoveredRelease env w)
               (discoveredImages env w))), None) \<in> set (newCalls w w')"
  using creator_calls [OF assms, of r w0] by auto

lemma creator_copies:
  assumes "BundleCreator_Run env c w = (Ok (), w')"
  shows "map fst (copies (newCalls w w')) =
           discoveredRelease env w #
           map (mapaccess (discoveredImages env w)) (sort (maps_Keys env (discoveredImages env w)))"
  using creator_calls [OF assms, of r w0] by auto

lemma creator_copies_destinations:
  assumes "BundleCreator_Run env c w = (Ok (), w')"
    and "listener r = Some (registryAddress env w)"
  shows "list_all (copiedTo env r w0) (copies (newCalls w w'))"
  using creator_calls [OF assms(1), of r w0] assms(2) by auto

lemma discoveredImages_entries:
  assumes "distinct (map fst (tagsOut env (length (trace w) + 5)))"
  shows "mset (discoveredImages env w) = mset (tagsOut env (length (trace w) + 5))"
proof -
  let ?tags = "tagsOut env (length (trace w) + 5)"
  from discoveredImages_distinct [of env w] have
    d: "distinct (map fst (discoveredImages env w))" and
    m: "map_of (discoveredImages env w) = map_of (rev ?tags)" by simp_all
  have dr: "distinct (map fst (rev ?tags))" using assms by (simp add: rev_map [symmetric])
  from m d dr have "set (discoveredImages env w) = set (rev ?tags)"
    by (simp add: map_of_inject_set)
  moreover have "distinct (discoveredImages env w)" using d by (rule distinct_map [THEN iffD1, THEN conjunct1])
  moreover have "distinct ?tags" using assms by (rule distinct_map [THEN iffD1, THEN conjunct1])
  ultimately show ?thesis by (simp add: set_eq_iff_mset_eq_distinct [symmetric])
qed

text \<open>The sample run of the creator.\<close>

lemma sample_discovered:
  "discoveredImages (creatorEnv\<lparr>mapOrder := f\<rparr>) emptyWorld =
     [(''a'', ''quay.io/org/img-a:1''), (''b'', ''quay.io/org/img-b:1'')]"
  "discoveredRelease (creatorEnv\<lparr>mapOrder := f\<rparr>) emptyWorld =
     ''quay.io/openshift-release-dev/ocp-release@sha256:9f86d081884c7d659a2feaa0c55ad015a3bf4f1b2b0b822cd15d6c15b0f00a08''"
  "workDir (creatorEnv\<lparr>mapOrder := f\<rparr>) sampleCreator emptyWorld =
     ''/home/user/.cache/upgrade-tool/4.13.4-x86_64''"
  by (simp_all add: discoveredImages_def discoveredRelease_def workDir_def creatorEnv_def
      noFault_def emptyWorld_def sampleCreator_def bundleCreatorReleaseRepo_def Join_def Clean_def)

lemma sample_create_succeeds_in:
  assumes "set (f [(''a'', ''quay.io/org/img-a:1''), (''b'', ''quay.io/org/img-b:1'')]) =
           {(''a'', ''quay.io/org/img-a:1''), (''b'', ''quay.io/org/img-b:1'')}"
  shows "\<exists>w'. BundleCreator_Run (creatorEnv\<lparr>mapOrder := f\<rparr>) sampleCreator emptyWorld = (Ok (), w')"
proof (rule creator_succeeds)
  show "\<And>k. fault (creatorEnv\<lparr>mapOrder := f\<rparr>) k = None"
    by (simp add: creatorEnv_def noFault_def)
  show "workDir (creatorEnv\<lparr>mapOrder := f\<rparr>) sampleCreator emptyWorld \<noteq> []"
    by (simp add: sample_discovered)
  show "fs emptyWorld (strOut (creatorEnv\<lparr>mapOrder := f\<rparr>) (length (trace emptyWorld) + 6)) = None"
    "fs emptyWorld (strOut (creatorEnv\<lparr>mapOrder := f\<rparr>) (length (trace emptyWorld) + 14)) = None"
    by (simp_all add: emptyWorld_def)
  show "strOut (creatorEnv\<lparr>mapOrder := f\<rparr>) (length (trace emptyWorld) + 6) \<noteq>
        workDir (creatorEnv\<lparr>mapOrder := f\<rparr>) sampleCreator emptyWorld"
    "strOut (creatorEnv\<lparr>mapOrder := f\<rparr>) (length (trace emptyWorld) + 14) \<noteq>
        workDir (creatorEnv\<lparr>mapOrder := f\<rparr>) sampleCreator emptyWorld"
    unfolding sample_discovered by (simp_all add: creatorEnv_def noFault_def emptyWorld_def)
  show "strOut (creatorEnv\<lparr>mapOrder := f\<rparr>) (length (trace emptyWorld) + 14) \<noteq>
        strOut (creatorEnv\<lparr>mapOrder := f\<rparr>) (length (trace emptyWorld) + 6)"
    "strOut (creatorEnv\<lparr>mapOrder := f\<rparr>) (length (trace emptyWorld) + 14) \<noteq>
        Join [strOut (creatorEnv\<lparr>mapOrder := f\<rparr>) (length (trace emptyWorld) + 6), ''tls.crt'']"
    "strOut (creatorEnv\<lparr>mapOrder := f\<rparr>) (length (trace emptyWorld) + 14) \<noteq>
        Join [strOut (creatorEnv\<lparr>mapOrder := f\<rparr>) (length (trace emptyWorld) + 6), ''tls.key'']"
    by (simp_all add: creatorEnv_def noFault_def emptyWorld_def Join_def Clean_def)
  show "parseNamed (creatorEnv\<lparr>mapOrder := f\<rparr>)
          (discoveredRelease (creatorEnv\<lparr>mapOrder := f\<rparr>) emptyWorld) =
        Inr \<lparr>refPath = ''openshift-release-dev/ocp-release'', refTag = None,
             refDigestHex = Some ''9f86d081884c7d659a2feaa0c55ad015a3bf4f1b2b0b822cd15d6c15b0f00a08''\<rparr>"
    unfolding sample_discovered by (simp add: creatorEnv_def sampleParse_def)
  show "\<forall>tag\<in>set (maps_Keys (creatorEnv\<lparr>mapOrder := f\<rparr>)
                      (discoveredImages (creatorEnv\<lparr>mapOrder := f\<rparr>) emptyWorld)).
          \<exists>ref. parseNamed (creatorEnv\<lparr>mapOrder := f\<rparr>)
                  (mapaccess (discoveredImages (creatorEnv\<lparr>mapOrder := f\<rparr>) emptyWorld) tag) = Inr ref"
    unfolding sample_discovered maps_Keys_def
    by (simp add: assms creatorEnv_def sampleParse_def mapaccess_def)
qed

lemma creatorEnv_mapOrder: "creatorEnv\<lparr>mapOrder := \<lambda>m. m\<rparr> = creatorEnv"
  by (simp add: creatorEnv_def noFault_def)

lemma sample_create_succeeds:
  "\<exists>w'. BundleCreator_Run creatorEnv sampleCreator emptyWorld = (Ok (), w')"
  using sample_create_succeeds_in [of "\<lambda>m. m"] by (simp add: creatorEnv_mapOrder)

lemma sample_create_rev_succeeds:
  "\<exists>w'. BundleCreator_Run creatorEnvRev sampleCreator emptyWorld = (Ok (), w')"
  using sample_create_succeeds_in [of rev] by (auto simp: creatorEnvRev_def)

lemma sample_metadata:
  "jsonMarshal (creatorEnv\<lparr>mapOrder := f\<rparr>)
     (newMetadata (creatorEnv\<lparr>mapOrder := f\<rparr>) sampleCreator
        (discoveredRelease (creatorEnv\<lparr>mapOrder := f\<rparr>) emptyWorld)
        (discoveredImages (creatorEnv\<lparr>mapOrder := f\<rparr>) emptyWorld)) =
   strings_Join (''4.13.4'' # ''x86_64'' #
     ''quay.io/openshift-release-dev/ocp-release@sha256:9f86d081884c7d659a2feaa0c55ad015a3bf4f1b2b0b822cd15d6c15b0f00a08'' #
     map snd (f [(''a'', ''quay.io/org/img-a:1''), (''b'', ''quay.io/org/img-b:1'')])) '' ''"
  unfolding sample_discovered
  by (simp add: newMetadata_def maps_Values_def creatorEnv_def sampleCreator_def)

lemma newCalls_emptyWorld: "newCalls emptyWorld w = trace w"
  by (simp add: newCalls_def emptyWorld_def)

section \<open>The sample run of the creator\<close>




text \<open>
  C1 (amended): in a successful run of the creator in which release discovery returned
  pairs with distinct tags, \<open>metadata.json\<close> is written once the images are copied, and
  its image list holds the source references of the pairs, each pair once, none left
  out (in the order in which Go goes through the map). The destination references are
  the targets of the copies; they are not recorded.
\<close>

theorem metadata_images_are_sources:
  assumes run: "BundleCreator_Run env c w = (Ok (), w')"
    and order: "\<And>m. mset (mapOrder env m) = mset m"
    and tags: "distinct (map fst (discoveredTags env w))"
  shows "(Os_WriteFile (Join [workDir env c w, ''metadata.json''])
            (jsonMarshal env (newMetadata env c (discoveredRelease env w)
               (discoveredImages env w))), None) \<in> set (newCalls w w') \<and>
         mset (Images (newMetadata env c (discoveredRelease env w) (discoveredImages env w))) =
           mset (map snd (discoveredTags env w))"
proof -
  have "mset (maps_Values env (discoveredImages env w)) = mset (map snd (discoveredImages env w))"
    using maps_Values_mset [OF order] by simp
  also have "\<dots> = image_mset snd (mset (discoveredImages env w))" by simp
  also have "\<dots> = image_mset snd (mset (discoveredTags env w))"
    using discoveredImages_entries [of env w] tags by (simp add: discoveredTags_def)
  finally have "mset (Images (newMetadata env c (discoveredRelease env w) (discoveredImages env w))) =
      mset (map snd (discoveredTags env w))"
    by (simp add: newMetadata_def)
  with creator_metadata_written [OF run] show ?thesis by (intro conjI)
qed

theorem metadata_images_are_sources_witness:
  "distinct (map fst (discoveredTags creatorEnv emptyWorld)) \<and>
   (\<exists>w'. BundleCreator_Run creatorEnv sampleCreator emptyWorld = (Ok (), w') \<and>
     (Os_WriteFile ''/home/user/.cache/upgrade-tool/4.13.4-x86_64/metadata.json''
        ''4.13.4 x86_64 quay.io/openshift-release-dev/ocp-release@sha256:9f86d081884c7d659a2feaa0c55ad015a3bf4f1b2b0b822cd15d6c15b0f00a08 quay.io/org/img-a:1 quay.io/org/img-b:1'',
        None) \<in> set (newCalls emptyWorld w') \<and>
     mset (Images (newMetadata creatorEnv sampleCreator (discoveredRelease creatorEnv emptyWorld)
                     (discoveredImages creatorEnv emptyWorld))) =
       mset [''quay.io/org/img-a:1'', ''quay.io/org/img-b:1''])"
proof -
  from sample_create_succeeds obtain w' where
    r: "BundleCreator_Run creatorEnv sampleCreator emptyWorld = (Ok (), w')" ..
  have o: "\<And>m. mset (mapOrder creatorEnv m) = mset m" by (simp add: creatorEnv_def noFault_def)
  have t: "discoveredTags creatorEnv emptyWorld =
      [(''a'', ''quay.io/org/img-a:1''), (''b'', ''quay.io/org/img-b:1'')]"
    by (simp add: discoveredTags_def creatorEnv_def)
  have d: "distinct (map fst (discoveredTags creatorEnv emptyWorld))" unfolding t by simp
  have m: "jsonMarshal creatorEnv
     (newMetadata creatorEnv sampleCreator (discoveredRelease creatorEnv emptyWorld)
        (discoveredImages creatorEnv emptyWorld)) =
     ''4.13.4 x86_64 quay.io/openshift-release-dev/ocp-release@sha256:9f86d081884c7d659a2feaa0c55ad015a3bf4f1b2b0b822cd15d6c15b0f00a08 quay.io/org/img-a:1 quay.io/org/img-b:1''"
    using sample_metadata [of "\<lambda>m. m"] unfolding creatorEnv_mapOrder by simp
  have p: "Join [workDir creatorEnv sampleCreator emptyWorld, ''metadata.json''] =
      ''/home/user/.cache/upgrade-tool/4.13.4-x86_64/metadata.json''"
    using sample_discovered(3) [of "\<lambda>m. m"] unfolding creatorEnv_mapOrder
    by (simp add: Join_def Clean_def)
  from metadata_images_are_sources [OF r o d] have
    "(Os_WriteFile ''/home/user/.cache/upgrade-tool/4.13.4-x86_64/metadata.json''
        ''4.13.4 x86_64 quay.io/openshift-release-dev/ocp-release@sha256:9f86d081884c7d659a2feaa0c55ad015a3bf4f1b2b0b822cd15d6c15b0f00a08 quay.io/org/img-a:1 quay.io/org/img-b:1'',
        None) \<in> set (newCalls emptyWorld w')"
    and "mset (Images (newMetadata creatorEnv sampleCreator (discoveredRelease creatorEnv emptyWorld)
                     (discoveredImages creatorEnv emptyWorld))) =
       mset [''quay.io/org/img-a:1'', ''quay.io/org/img-b:1'']"
    unfolding m p t by simp_all
  with r d show ?thesis by (intro conjI exI [of _ w'])
qed

lemma sample_release:
  "discoveredRelease creatorEnv emptyWorld =
     ''quay.io/openshift-release-dev/ocp-release@sha256:9f86d081884c7d659a2feaa0c55ad015a3bf4f1b2b0b822cd15d6c15b0f00a08''"
  "discoveredImages creatorEnv emptyWorld =
     [(''a'', ''quay.io/org/img-a:1''), (''b'', ''quay.io/org/img-b:1'')]"
  "Join [workDir creatorEnv sampleCreator emptyWorld, ''metadata.json''] =
      ''/home/user/.cache/upgrade-tool/4.13.4-x86_64/metadata.json''"
  using sample_discovered [of "\<lambda>m. m"] unfolding creatorEnv_mapOrder
  by (simp_all add: Join_def Clean_def)

lemma sample_release_rev:
  "discoveredRelease creatorEnvRev emptyWorld =
     ''quay.io/openshift-release-dev/ocp-release@sha256:9f86d081884c7d659a2feaa0c55ad015a3bf4f1b2b0b822cd15d6c15b0f00a08''"
  "discoveredImages creatorEnvRev emptyWorld =
     [(''a'', ''quay.io/org/img-a:1''), (''b'', ''quay.io/org/img-b:1'')]"
  "Join [workDir creatorEnvRev sampleCreator emptyWorld, ''metadata.json''] =
      ''/home/user/.cache/upgrade-tool/4.13.4-x86_64/metadata.json''"
  using sample_discovered [of rev] unfolding creatorEnvRev_def
  by (simp_all add: Join_def Clean_def)

lemma sorted_sample_tags: "sort [''a'', ''b''] = [''a'', ''b'']"
  by (simp add: less_eq_char_def)

lemma sample_copy_sources:
  assumes "BundleCreator_Run (creatorEnv\<lparr>mapOrder := f\<rparr>) sampleCreator emptyWorld = (Ok (), w')"
    and "mset (f [(''a'', ''quay.io/org/img-a:1''), (''b'', ''quay.io/org/img-b:1'')]) =
         mset [(''a'', ''quay.io/org/img-a:1''), (''b'', ''quay.io/org/img-b:1'')]"
  shows "map fst (copies (trace w')) =
     [''quay.io/openshift-release-dev/ocp-release@sha256:9f86d081884c7d659a2feaa0c55ad015a3bf4f1b2b0b822cd15d6c15b0f00a08'',
      ''quay.io/org/img-a:1'', ''quay.io/org/img-b:1'']"
proof -
  let ?m = "[(''a'', ''quay.io/org/img-a:1''), (''b'', ''quay.io/org/img-b:1'')]"
  have "mset (mapOrder (creatorEnv\<lparr>mapOrder := f\<rparr>) ?m) = mset ?m" using assms(2) by simp
  from sort_maps_Keys [OF this] have
    "sort (maps_Keys (creatorEnv\<lparr>mapOrder := f\<rparr>) ?m) = [''a'', ''b'']"
    by (simp only: list.map fst_conv sorted_sample_tags)
  with creator_copies [OF assms(1)] show ?thesis
    unfolding sample_discovered newCalls_emptyWorld by (simp add: mapaccess_def)
qed

lemma sample_copy_destinations:
  assumes "BundleCreator_Run (creatorEnv\<lparr>mapOrder := f\<rparr>) sampleCreator emptyWorld = (Ok (), w')"
    and "mset (f [(''a'', ''quay.io/org/img-a:1''), (''b'', ''quay.io/org/img-b:1'')]) =
         mset [(''a'', ''quay.io/org/img-a:1''), (''b'', ''quay.io/org/img-b:1'')]"
  shows "copies (trace w') =
     [(''quay.io/openshift-release-dev/ocp-release@sha256:9f86d081884c7d659a2feaa0c55ad015a3bf4f1b2b0b822cd15d6c15b0f00a08'',
       ''127.0.0.1:5001/openshift-release-dev/ocp-release:9f86d081884c7d659a2feaa0c55ad015a3bf4f1b2b0b822cd15d6c15b0f00a08''),
      (''quay.io/org/img-a:1'', ''127.0.0.1:5001/org/img-a:1''),
      (''quay.io/org/img-b:1'', ''127.0.0.1:5001/org/img-b:1'')]"
proof -
  let ?env = "creatorEnv\<lparr>mapOrder := f\<rparr>"
  from sample_copy_sources [OF assms] obtain p q r where
    c: "copies (trace w') =
      [(''quay.io/openshift-release-dev/ocp-release@sha256:9f86d081884c7d659a2feaa0c55ad015a3bf4f1b2b0b822cd15d6c15b0f00a08'', p),
       (''quay.io/org/img-a:1'', q), (''quay.io/org/img-b:1'', r)]"
    by (auto simp: map_eq_Cons_conv)
  have "listener listeningRegistry = Some (registryAddress ?env emptyWorld)"
    by (simp add: listeningRegistry_def registryAddress_def creatorEnv_def emptyWorld_def)
  from creator_copies_destinations [OF assms(1) this, of emptyWorld]
  have "list_all (copiedTo ?env listeningRegistry emptyWorld) (copies (trace w'))"
    unfolding newCalls_emptyWorld .
  then have
    "p = ''127.0.0.1:5001/openshift-release-dev/ocp-release:9f86d081884c7d659a2feaa0c55ad015a3bf4f1b2b0b822cd15d6c15b0f00a08''"
    "q = ''127.0.0.1:5001/org/img-a:1''" "r = ''127.0.0.1:5001/org/img-b:1''"
    unfolding c
    by (simp_all add: copiedTo_def dstRef_def Registry_Address_def andThen_def Let_def
        listeningRegistry_def creatorEnv_def sampleParse_def)
  with c show ?thesis by simp
qed

text \<open>
  C1 as stated fails. In the sample run the three images are copied to their destination
  references in the local registry, and the image list written to \<open>metadata.json\<close> holds
  the two source references.
\<close>

theorem metadata_images_not_destinations:
  "fst (BundleCreator_Run creatorEnv sampleCreator emptyWorld) = Ok () \<and>
   copies (trace (snd (BundleCreator_Run creatorEnv sampleCreator emptyWorld))) =
     [(''quay.io/openshift-release-dev/ocp-release@sha256:9f86d081884c7d659a2feaa0c55ad015a3bf4f1b2b0b822cd15d6c15b0f00a08'',
       ''127.0.0.1:5001/openshift-release-dev/ocp-release:9f86d081884c7d659a2feaa0c55ad015a3bf4f1b2b0b822cd15d6c15b0f00a08''),
      (''quay.io/org/img-a:1'', ''127.0.0.1:5001/org/img-a:1''),
      (''quay.io/org/img-b:1'', ''127.0.0.1:5001/org/img-b:1'')] \<and>
   (Os_WriteFile ''/home/user/.cache/upgrade-tool/4.13.4-x86_64/metadata.json''
      ''4.13.4 x86_64 quay.io/openshift-release-dev/ocp-release@sha256:9f86d081884c7d659a2feaa0c55ad015a3bf4f1b2b0b822cd15d6c15b0f00a08 quay.io/org/img-a:1 quay.io/org/img-b:1'',
      None) \<in> set (trace (snd (BundleCreator_Run creatorEnv sampleCreator emptyWorld)))"
proof -
  from sample_create_succeeds obtain w' where
    r: "BundleCreator_Run creatorEnv sampleCreator emptyWorld = (Ok (), w')" ..
  have r': "BundleCreator_Run (creatorEnv\<lparr>mapOrder := \<lambda>m. m\<rparr>) sampleCreator emptyWorld = (Ok (), w')"
    using r by (simp add: creatorEnv_mapOrder)
  have m: "jsonMarshal creatorEnv
     (newMetadata creatorEnv sampleCreator (discoveredRelease creatorEnv emptyWorld)
        (discoveredImages creatorEnv emptyWorld)) =
     ''4.13.4 x86_64 quay.io/openshift-release-dev/ocp-release@sha256:9f86d081884c7d659a2feaa0c55ad015a3bf4f1b2b0b822cd15d6c15b0f00a08 quay.io/org/img-a:1 quay.io/org/img-b:1''"
    using sample_metadata [of "\<lambda>m. m"] unfolding creatorEnv_mapOrder by simp
  note c = sample_copy_destinations [OF r', simplified]
  note e = creator_metadata_written [OF r, unfolded m, unfolded sample_release newCalls_emptyWorld]
  from c e show ?thesis unfolding r by simp
qed

lemma tag_sorted_values:
  assumes "distinct (map fst m)"
  shows "mset (map (mapaccess m) (sort (map fst m))) = mset (map snd m)"
proof -
  have "mset (map (mapaccess m) (sort (map fst m))) = image_mset (mapaccess m) (mset (map fst m))"
    by simp
  also have "\<dots> = mset (map (\<lambda>p. mapaccess m (fst p)) m)" by (simp add: multiset.map_comp comp_def)
  also have "map (\<lambda>p. mapaccess m (fst p)) m = map snd m"
    using assms by (auto simp: mapaccess_def)
  finally show ?thesis .
qed

lemma copiedTo_parsed: "copiedTo env r w0 p \<Longrightarrow> \<exists>n. parseNamed env (fst p) = Inr n"
  by (auto simp: copiedTo_def dstRef_def split: sum.splits)

lemma creator_sources_parsed:
  assumes run: "BundleCreator_Run env c w = (Ok (), w')"
  shows "\<forall>src\<in>set (map fst (copies (newCalls w w'))). \<exists>n. parseNamed env src = Inr n"
proof -
  let ?r = "\<lparr>address = [], root = [], tmp = [], cert = [], key = [],
             listener = Some (registryAddress env w), server = True\<rparr>"
  from creator_copies_destinations [OF run, of ?r w]
  have "list_all (copiedTo env ?r w) (copies (newCalls w w'))" by simp
  then show ?thesis by (auto simp: list_all_iff dest: copiedTo_parsed)
qed

text \<open>
  C2 (amended): in a successful run of the creator the images are copied by ascending
  tag, after the release image. The image list written to \<open>metadata.json\<close> has the same
  references, one for each tag, in the order in which Go goes through the map (left open
  by the language): it is a permutation of the tag-sorted list. Every reference in it
  is one that \<open>ParseNamed\<close> accepts, since the run has computed the destination of each.
\<close>

theorem metadata_images_order:
  assumes run: "BundleCreator_Run env c w = (Ok (), w')"
    and order: "\<And>m. mset (mapOrder env m) = mset m"
  shows "(Os_WriteFile (Join [workDir env c w, ''metadata.json''])
            (jsonMarshal env (newMetadata env c (discoveredRelease env w)
               (discoveredImages env w))), None) \<in> set (newCalls w w') \<and>
         map fst (copies (newCalls w w')) =
           discoveredRelease env w #
           map (mapaccess (discoveredImages env w)) (sort (map fst (discoveredImages env w))) \<and>
         Images (newMetadata env c (discoveredRelease env w) (discoveredImages env w)) =
           map snd (mapOrder env (discoveredImages env w)) \<and>
         mset (Images (newMetadata env c (discoveredRelease env w) (discoveredImages env w))) =
           mset (map (mapaccess (discoveredImages env w)) (sort (map fst (discoveredImages env w)))) \<and>
         (\<forall>ref\<in>set (Images (newMetadata env c (discoveredRelease env w) (discoveredImages env w))).
            \<exists>n. parseNamed env ref = Inr n)"
proof -
  let ?images = "discoveredImages env w"
  have d: "distinct (map fst ?images)" using discoveredImages_distinct [of env w] by simp
  have cp: "map fst (copies (newCalls w w')) =
      discoveredRelease env w # map (mapaccess ?images) (sort (map fst ?images))"
    using creator_copies [OF run] sort_maps_Keys [OF order, of ?images] by simp
  have im: "Images (newMetadata env c (discoveredRelease env w) ?images) =
      map snd (mapOrder env ?images)"
    by (simp add: newMetadata_def maps_Values_def)
  have ms: "mset (Images (newMetadata env c (discoveredRelease env w) ?images)) =
      mset (map (mapaccess ?images) (sort (map fst ?images)))"
    using maps_Values_mset [OF order, of ?images] tag_sorted_values [OF d]
    by (simp add: newMetadata_def)
  have "set (Images (newMetadata env c (discoveredRelease env w) ?images)) \<subseteq>
      set (map fst (copies (newCalls w w')))"
    unfolding cp using ms by (metis mset_eq_setD set_subset_Cons)
  with creator_sources_parsed [OF run] have
    "\<forall>ref\<in>set (Images (newMetadata env c (discoveredRelease env w) ?images)).
            \<exists>n. parseNamed env ref = Inr n" by blast
  with cp im ms creator_metadata_written [OF run] show ?thesis by (intro conjI)
qed

theorem metadata_images_order_witness:
  "\<exists>w'. BundleCreator_Run creatorEnv sampleCreator emptyWorld = (Ok (), w') \<and>
     map fst (copies (newCalls emptyWorld w')) =
       [''quay.io/openshift-release-dev/ocp-release@sha256:9f86d081884c7d659a2feaa0c55ad015a3bf4f1b2b0b822cd15d6c15b0f00a08'',
        ''quay.io/org/img-a:1'', ''quay.io/org/img-b:1''] \<and>
     Images (newMetadata creatorEnv sampleCreator (discoveredRelease creatorEnv emptyWorld)
               (discoveredImages creatorEnv emptyWorld)) =
       [''quay.io/org/img-a:1'', ''quay.io/org/img-b:1''] \<and>
     length (Images (newMetadata creatorEnv sampleCreator (discoveredRelease creatorEnv emptyWorld)
               (discoveredImages creatorEnv emptyWorld))) = 2"
proof -
  from sample_create_succeeds obtain w' where
    r: "BundleCreator_Run creatorEnv sampleCreator emptyWorld = (Ok (), w')" ..
  have o: "\<And>m. mset (mapOrder creatorEnv m) = mset m" by (simp add: creatorEnv_def noFault_def)
  have i: "mapOrder creatorEnv = (\<lambda>m. m)" by (simp add: creatorEnv_def noFault_def)
  from metadata_images_order [OF r o] have
    "map fst (copies (newCalls emptyWorld w')) =
       [''quay.io/openshift-release-dev/ocp-release@sha256:9f86d081884c7d659a2feaa0c55ad015a3bf4f1b2b0b822cd15d6c15b0f00a08'',
        ''quay.io/org/img-a:1'', ''quay.io/org/img-b:1'']"
    and "Images (newMetadata creatorEnv sampleCreator (discoveredRelease creatorEnv emptyWorld)
               (discoveredImages creatorEnv emptyWorld)) =
       [''quay.io/org/img-a:1'', ''quay.io/org/img-b:1'']"
    unfolding sample_release i
    by (simp_all only: list.map fst_conv snd_conv sorted_sample_tags)
       (simp_all add: mapaccess_def)
  with r show ?thesis by (intro exI [of _ w'] conjI) simp_all
qed

lemma sample_short:
  "discoveredImages creatorEnvShort emptyWorld = [(''a'', ''img-a:1''), (''b'', ''img-b:1'')]"
  "discoveredRelease creatorEnvShort emptyWorld =
     ''quay.io/openshift-release-dev/ocp-release@sha256:9f86d081884c7d659a2feaa0c55ad015a3bf4f1b2b0b822cd15d6c15b0f00a08''"
  "workDir creatorEnvShort sampleCreator emptyWorld =
     ''/home/user/.cache/upgrade-tool/4.13.4-x86_64''"
  by (simp_all add: discoveredImages_def discoveredRelease_def workDir_def creatorEnvShort_def
      creatorEnv_def noFault_def emptyWorld_def sampleCreator_def bundleCreatorReleaseRepo_def
      Join_def Clean_def)

lemma sample_short_rejected:
  "\<exists>w'. BundleCreator_Run creatorEnvShort sampleCreator emptyWorld = (Err (ExitError 1), w') \<and>
        fs w' ''/home/user/.cache/upgrade-tool/4.13.4-x86_64/metadata.json'' = None"
proof (rule creator_rejected [where tag = "''a''" and tags = "[''b'']"
      and e = "ErrFailed ''repository name must be canonical''"])
  show "\<And>k. fault creatorEnvShort k = None"
    by (simp add: creatorEnvShort_def creatorEnv_def noFault_def)
  show "workDir creatorEnvShort sampleCreator emptyWorld \<noteq> []"
    by (simp add: sample_short)
  show "fs emptyWorld (strOut creatorEnvShort (length (trace emptyWorld) + 6)) = None"
    "fs emptyWorld (strOut creatorEnvShort (length (trace emptyWorld) + 14)) = None"
    "fs emptyWorld ''/home/user/.cache/upgrade-tool/4.13.4-x86_64/metadata.json'' = None"
    by (simp_all add: emptyWorld_def)
  show "strOut creatorEnvShort (length (trace emptyWorld) + 6) \<noteq>
        workDir creatorEnvShort sampleCreator emptyWorld"
    "strOut creatorEnvShort (length (trace emptyWorld) + 14) \<noteq>
        workDir creatorEnvShort sampleCreator emptyWorld"
    "''/home/user/.cache/upgrade-tool/4.13.4-x86_64/metadata.json'' \<noteq>
        workDir creatorEnvShort sampleCreator emptyWorld"
    unfolding sample_short
    by (simp_all add: creatorEnvShort_def creatorEnv_def noFault_def emptyWorld_def)
  show "strOut creatorEnvShort (length (trace emptyWorld) + 14) \<noteq>
        strOut creatorEnvShort (length (trace emptyWorld) + 6)"
    "strOut creatorEnvShort (length (trace emptyWorld) + 14) \<noteq>
        Join [strOut creatorEnvShort (length (trace emptyWorld) + 6), ''tls.crt'']"
    "strOut creatorEnvShort (length (trace emptyWorld) + 14) \<noteq>
        Join [strOut creatorEnvShort (length (trace emptyWorld) + 6), ''tls.key'']"
    "''/home/user/.cache/upgrade-tool/4.13.4-x86_64/metadata.json'' \<noteq>
        strOut creatorEnvShort (length (trace emptyWorld) + 6)"
    "''/home/user/.cache/upgrade-tool/4.13.4-x86_64/metadata.json'' \<noteq>
        Join [strOut creatorEnvShort (length (trace emptyWorld) + 6), ''tls.crt'']"
    "''/home/user/.cache/upgrade-tool/4.13.4-x86_64/metadata.json'' \<noteq>
        Join [strOut creatorEnvShort (length (trace emptyWorld) + 6), ''tls.key'']"
    "''/home/user/.cache/upgrade-tool/4.13.4-x86_64/metadata.json'' \<noteq>
        Join [strOut creatorEnvShort (length (trace emptyWorld) + 14), ''tls.crt'']"
    "\<not> under (strOut creatorEnvShort (length (trace emptyWorld) + 14))
        ''/home/user/.cache/upgrade-tool/4.13.4-x86_64/metadata.json''"
    by (simp_all add: creatorEnvShort_def creatorEnv_def noFault_def emptyWorld_def Join_def
        Clean_def under_def)
  show "parseNamed creatorEnvShort (discoveredRelease creatorEnvShort emptyWorld) =
        Inr \<lparr>refPath = ''openshift-release-dev/ocp-release'', refTag = None,
             refDigestHex = Some ''9f86d081884c7d659a2feaa0c55ad015a3bf4f1b2b0b822cd15d6c15b0f00a08''\<rparr>"
    unfolding sample_short by (simp add: creatorEnvShort_def creatorEnv_def sampleParse_def)
  show "sort (maps_Keys creatorEnvShort (discoveredImages creatorEnvShort emptyWorld)) =
        [''a'', ''b'']"
    unfolding sample_short maps_Keys_def
    by (simp add: creatorEnvShort_def creatorEnv_def noFault_def less_eq_char_def)
  show "parseNamed creatorEnvShort (mapaccess (discoveredImages creatorEnvShort emptyWorld) ''a'') =
        Inl (ErrFailed ''repository name must be canonical'')"
    unfolding sample_short
    by (simp add: creatorEnvShort_def creatorEnv_def sampleParse_def mapaccess_def)
qed

text \<open>
  C2 as stated fails. In a run of the sample in which Go goes through the map from its
  last entry, the images are copied by ascending tag and the image list written to
  \<open>metadata.json\<close> has the reference of tag \<open>b\<close> before that of tag \<open>a\<close>. And with the
  references \<open>img-a:1\<close> and \<open>img-b:1\<close> for the two tags, which \<open>ParseNamed\<close> rejects,
  the run ends with exit code 1 when it computes the destination of the first, and
  \<open>metadata.json\<close> is not written.
\<close>

theorem metadata_images_not_tag_sorted:
  "fst (BundleCreator_Run creatorEnvRev sampleCreator emptyWorld) = Ok () \<and>
   map fst (copies (trace (snd (BundleCreator_Run creatorEnvRev sampleCreator emptyWorld)))) =
     [''quay.io/openshift-release-dev/ocp-release@sha256:9f86d081884c7d659a2feaa0c55ad015a3bf4f1b2b0b822cd15d6c15b0f00a08'',
      ''quay.io/org/img-a:1'', ''quay.io/org/img-b:1''] \<and>
   (Os_WriteFile ''/home/user/.cache/upgrade-tool/4.13.4-x86_64/metadata.json''
      ''4.13.4 x86_64 quay.io/openshift-release-dev/ocp-release@sha256:9f86d081884c7d659a2feaa0c55ad015a3bf4f1b2b0b822cd15d6c15b0f00a08 quay.io/org/img-b:1 quay.io/org/img-a:1'',
      None) \<in> set (trace (snd (BundleCreator_Run creatorEnvRev sampleCreator emptyWorld))) \<and>
   Images (newMetadata creatorEnvRev sampleCreator (discoveredRelease creatorEnvRev emptyWorld)
             (discoveredImages creatorEnvRev emptyWorld)) =
     [''quay.io/org/img-b:1'', ''quay.io/org/img-a:1''] \<and>
   discoveredTags creatorEnvShort emptyWorld = [(''a'', ''img-a:1''), (''b'', ''img-b:1'')] \<and>
   fst (BundleCreator_Run creatorEnvShort sampleCreator emptyWorld) = Err (ExitError 1) \<and>
   fs (snd (BundleCreator_Run creatorEnvShort sampleCreator emptyWorld))
     ''/home/user/.cache/upgrade-tool/4.13.4-x86_64/metadata.json'' = None"
proof -
  from sample_create_rev_succeeds obtain w' where
    r: "BundleCreator_Run creatorEnvRev sampleCreator emptyWorld = (Ok (), w')" ..
  have r': "BundleCreator_Run (creatorEnv\<lparr>mapOrder := rev\<rparr>) sampleCreator emptyWorld = (Ok (), w')"
    using r by (simp add: creatorEnvRev_def)
  have m: "jsonMarshal creatorEnvRev
     (newMetadata creatorEnvRev sampleCreator (discoveredRelease creatorEnvRev emptyWorld)
        (discoveredImages creatorEnvRev emptyWorld)) =
     ''4.13.4 x86_64 quay.io/openshift-release-dev/ocp-release@sha256:9f86d081884c7d659a2feaa0c55ad015a3bf4f1b2b0b822cd15d6c15b0f00a08 quay.io/org/img-b:1 quay.io/org/img-a:1''"
    using sample_metadata [of rev] unfolding creatorEnvRev_def by simp
  have i: "Images (newMetadata creatorEnvRev sampleCreator (discoveredRelease creatorEnvRev emptyWorld)
             (discoveredImages creatorEnvRev emptyWorld)) =
     [''quay.io/org/img-b:1'', ''quay.io/org/img-a:1'']"
    unfolding sample_release_rev
    by (simp add: newMetadata_def maps_Values_def creatorEnvRev_def)
  note c = sample_copy_sources [OF r', simplified]
  note e = creator_metadata_written [OF r, unfolded m, unfolded sample_release_rev newCalls_emptyWorld]
  from sample_short_rejected obtain w2 where
    s: "BundleCreator_Run creatorEnvShort sampleCreator emptyWorld = (Err (ExitError 1), w2)"
       "fs w2 ''/home/user/.cache/upgrade-tool/4.13.4-x86_64/metadata.json'' = None"
    by (elim exE conjE) (rule that)
  have t: "discoveredTags creatorEnvShort emptyWorld = [(''a'', ''img-a:1''), (''b'', ''img-b:1'')]"
    by (simp add: discoveredTags_def creatorEnvShort_def)
  from c e i s(2) t show ?thesis unfolding r s(1) by simp
qed
end
